theory Spec2Isabelle
  imports Complex_Main
begin

section \<open>JavaScript values the scanner and the store exchange\<close>

text \<open>
  A thrown value. The code inspects four things of it: whether it is an instance of
  \<open>Error\<close>, its \<open>name\<close>, its \<open>message\<close> and \<open>$metadata.httpStatusCode\<close>.
\<close>

record js_error =
  instanceofError :: bool
  error_name :: "string option"
  message :: string
  httpStatusCode :: "int option"

text \<open>\<open>new Error(msg)\<close>\<close>

definition Error :: "string \<Rightarrow> js_error" where
  "Error msg = \<lparr>instanceofError = True, error_name = Some ''Error'', message = msg,
     httpStatusCode = None\<rparr>"

text \<open>\<open>String.prototype.includes\<close>\<close>

fun str_includes :: "string \<Rightarrow> string \<Rightarrow> bool" where
  "str_includes [] sub = (sub = [])"
| "str_includes (c # cs) sub = (take (length sub) (c # cs) = sub \<or> str_includes cs sub)"

text \<open>
  A number inside a template literal: its decimal digits, after a minus sign when it is
  negative.
\<close>

definition digit :: "nat \<Rightarrow> char" where
  "digit d = char_of (of_char (CHR ''0'') + d)"

fun decimal :: "nat \<Rightarrow> string" where
  "decimal n = (if 10 \<le> n then decimal (n div 10) @ [digit (n mod 10)] else [digit n])"

declare decimal.simps [simp del]

definition number_text :: "int \<Rightarrow> string" where
  "number_text i = (if 0 \<le> i then decimal (nat i) else CHR ''-'' # decimal (nat (- i)))"

section \<open>src/db/schema.ts: the interfaces\<close>

record AWSAccount =
  acc_id :: int
  accountId :: string
  accountName :: string
  accessKeyId :: string
  secretAccessKey :: string
  sessionToken :: "string option"
  createdAt :: int
  updatedAt :: int

text \<open>
  What a probe returns: \<open>Omit<AssetFinding, 'id' | 'accountId' | 'region' | 'createdAt' | 'updatedAt'>\<close>.
\<close>

record Finding =
  resourceId :: string
  resourceType :: string
  resourceName :: "string option"
  service :: string
  severity :: string
  finding :: string
  description :: string
  remediation :: string

text \<open>A finding once the orchestrator has stamped it: \<open>{...finding, region}\<close>.\<close>

record RegionFinding = Finding +
  region :: string

section \<open>The SQLite database behind src/db/service.ts\<close>

text \<open>Rows, one field per column of the \<open>CREATE TABLE\<close> statements.\<close>

record account_row =
  a_id :: int
  a_account_id :: string
  a_account_name :: string
  a_access_key_id :: string
  a_secret_access_key :: string
  a_session_token :: "string option"
  a_created_at :: int
  a_updated_at :: int

record region_row =
  r_id :: int
  r_account_id :: int
  r_region :: string
  r_enabled :: bool
  r_created_at :: int
  r_updated_at :: int

record finding_row =
  f_id :: int
  f_account_id :: int
  f_region :: string
  f_resource_id :: string
  f_resource_type :: string
  f_resource_name :: "string option"
  f_service :: string
  f_severity :: string
  f_finding :: string
  f_description :: string
  f_remediation :: string
  f_created_at :: int
  f_updated_at :: int

text \<open>
  The three tables and their AUTOINCREMENT counters (SQLite keeps them in the table
  \<open>sqlite_sequence\<close>, so a rollback restores them with the rows).
\<close>

record tables =
  aws_accounts :: "account_row list"
  aws_regions :: "region_row list"
  asset_findings :: "finding_row list"
  seq_accounts :: int
  seq_regions :: int
  seq_findings :: int

text \<open>
  The WHERE clause \<open>getFindings\<close> builds: a conjunction of \<open>column = ?\<close> conditions
  with their bound parameters.
\<close>

datatype condition =
  AccountIdEq int
| RegionEq string
| ServiceEq string
| SeverityEq string

text \<open>The SQL statements \<open>DatabaseService\<close> sends, one constructor per statement text.\<close>

datatype sql =
  CreateTables
| InsertAccount string string string string "string option"
| SelectAccounts
| SelectAccountById int
| BeginTransaction
| DeleteFindingsByAccount int
| DeleteRegionsByAccount int
| DeleteAccountById int
| Commit
| Rollback
| InsertRegion int string bool
| SelectEnabledRegions int
| PrepareInsertFinding
| InsertFinding int RegionFinding
| FinalizeStatement
| SelectFindings "condition list"

text \<open>
  A connection: the tables as the connection sees them, the snapshot an open
  transaction would roll back to (\<open>None\<close> in autocommit mode), the statements sent so
  far, oldest first, and whether the table \<open>aws_regions\<close> was created with
  \<open>UNIQUE(account_id, region)\<close>. \<open>CREATE TABLE IF NOT EXISTS\<close> keeps the schema of a
  table that exists, so the constraint is a property of the database file.
\<close>

record database =
  tabs :: tables
  journal :: "tables option"
  executed :: "sql list"
  unique_regions :: bool

text \<open>
  What the code cannot decide: whether the driver refuses the \<open>n\<close>-th statement of
  the connection (disk full, I/O error, a lock held by another process) and with which
  error, and the value of \<open>CURRENT_TIMESTAMP\<close> when that statement runs.
\<close>

record sqlite_env =
  fault :: "nat \<Rightarrow> js_error option"
  now :: "nat \<Rightarrow> int"

definition sqlite_error :: "string \<Rightarrow> js_error" where
  "sqlite_error msg = Error msg"

text \<open>
  AUTOINCREMENT: one more than the largest rowid the table has ever held.
\<close>

definition next_rowid :: "int \<Rightarrow> int list \<Rightarrow> int" where
  "next_rowid s ids = max s (fold max ids 0) + 1"

definition severity_check :: "string \<Rightarrow> bool" where
  "severity_check s = (s = ''HIGH'' \<or> s = ''MEDIUM'' \<or> s = ''LOW'')"

text \<open>
  \<open>db.run\<close> / \<open>stmt.run\<close> / \<open>db.exec\<close>: a statement that changes the database. The result
  is \<open>lastID\<close>. A refused statement changes nothing (SQLite statements are atomic).
  ROLLBACK is the one statement the driver is taken never to refuse: SQLite restores the
  journal of an open transaction unconditionally. Foreign keys are declared but SQLite
  does not enforce them unless \<open>PRAGMA foreign_keys\<close> is set, which the code never does.
\<close>

definition apply_sql :: "sqlite_env \<Rightarrow> nat \<Rightarrow> sql \<Rightarrow> database \<Rightarrow> js_error + int \<times> database" where
  "apply_sql env n q db =
     (let t = tabs db in
      case q of
        BeginTransaction \<Rightarrow>
          (case journal db of
             Some _ \<Rightarrow> Inl (sqlite_error ''SQLITE_ERROR: cannot start a transaction within a transaction'')
           | None \<Rightarrow> Inr (0, db\<lparr>journal := Some t\<rparr>))
      | Commit \<Rightarrow>
          (case journal db of
             None \<Rightarrow> Inl (sqlite_error ''SQLITE_ERROR: cannot commit - no transaction is active'')
           | Some _ \<Rightarrow> Inr (0, db\<lparr>journal := None\<rparr>))
      | Rollback \<Rightarrow>
          (case journal db of
             None \<Rightarrow> Inl (sqlite_error ''SQLITE_ERROR: cannot rollback - no transaction is active'')
           | Some t0 \<Rightarrow> Inr (0, db\<lparr>tabs := t0, journal := None\<rparr>))
      | DeleteFindingsByAccount i \<Rightarrow>
          Inr (0, db\<lparr>tabs := t\<lparr>asset_findings := filter (\<lambda>f. f_account_id f \<noteq> i) (asset_findings t)\<rparr>\<rparr>)
      | DeleteRegionsByAccount i \<Rightarrow>
          Inr (0, db\<lparr>tabs := t\<lparr>aws_regions := filter (\<lambda>r. r_account_id r \<noteq> i) (aws_regions t)\<rparr>\<rparr>)
      | DeleteAccountById i \<Rightarrow>
          Inr (0, db\<lparr>tabs := t\<lparr>aws_accounts := filter (\<lambda>a. a_id a \<noteq> i) (aws_accounts t)\<rparr>\<rparr>)
      | InsertAccount aid aname key secret token \<Rightarrow>
          (if aid \<in> set (map a_account_id (aws_accounts t))
           then Inl (sqlite_error ''SQLITE_CONSTRAINT: UNIQUE constraint failed: aws_accounts.account_id'')
           else
             let i = next_rowid (seq_accounts t) (map a_id (aws_accounts t)) in
             Inr (i, db\<lparr>tabs := t\<lparr>aws_accounts := aws_accounts t @
                    [\<lparr>a_id = i, a_account_id = aid, a_account_name = aname, a_access_key_id = key,
                      a_secret_access_key = secret, a_session_token = token,
                      a_created_at = now env n, a_updated_at = now env n\<rparr>],
                  seq_accounts := i\<rparr>\<rparr>))
      | InsertRegion acc reg en \<Rightarrow>
          (if unique_regions db \<and> (acc, reg) \<in> set (map (\<lambda>r. (r_account_id r, r_region r)) (aws_regions t))
           then Inl (sqlite_error
                  ''SQLITE_CONSTRAINT: UNIQUE constraint failed: aws_regions.account_id, aws_regions.region'')
           else
             let i = next_rowid (seq_regions t) (map r_id (aws_regions t)) in
             Inr (i, db\<lparr>tabs := t\<lparr>aws_regions := aws_regions t @
                    [\<lparr>r_id = i, r_account_id = acc, r_region = reg, r_enabled = en,
                      r_created_at = now env n, r_updated_at = now env n\<rparr>],
                  seq_regions := i\<rparr>\<rparr>))
      | InsertFinding acc f \<Rightarrow>
          (if \<not> severity_check (severity f)
           then Inl (sqlite_error ''SQLITE_CONSTRAINT: CHECK constraint failed: asset_findings'')
           else
             let i = next_rowid (seq_findings t) (map f_id (asset_findings t)) in
             Inr (i, db\<lparr>tabs := t\<lparr>asset_findings := asset_findings t @
                    [\<lparr>f_id = i, f_account_id = acc, f_region = region f,
                      f_resource_id = resourceId f, f_resource_type = resourceType f,
                      f_resource_name = resourceName f, f_service = service f,
                      f_severity = severity f, f_finding = finding f,
                      f_description = description f, f_remediation = remediation f,
                      f_created_at = now env n, f_updated_at = now env n\<rparr>],
                  seq_findings := i\<rparr>\<rparr>))
      | _ \<Rightarrow> Inr (0, db))"

text \<open>
  Sending a statement: it is recorded, then refused by the driver or applied.
\<close>

definition db_run :: "sqlite_env \<Rightarrow> sql \<Rightarrow> database \<Rightarrow> (js_error + int) \<times> database" where
  "db_run env q db =
     (let n = length (executed db); db1 = db\<lparr>executed := executed db @ [q]\<rparr> in
      case (if q = Rollback then None else fault env n) of
        Some e \<Rightarrow> (Inl e, db1)
      | None \<Rightarrow>
          (case apply_sql env n q db1 of
             Inl e \<Rightarrow> (Inl e, db1)
           | Inr (i, db2) \<Rightarrow> (Inr i, db2)))"

text \<open>\<open>db.all\<close> / \<open>db.get\<close>: a query; \<open>rows\<close> computes its result from the tables.\<close>

definition db_all :: "sqlite_env \<Rightarrow> sql \<Rightarrow> (tables \<Rightarrow> 'a) \<Rightarrow> database \<Rightarrow> (js_error + 'a) \<times> database" where
  "db_all env q rows db =
     (let n = length (executed db); db1 = db\<lparr>executed := executed db @ [q]\<rparr> in
      case fault env n of
        Some e \<Rightarrow> (Inl e, db1)
      | None \<Rightarrow> (Inr (rows (tabs db1)), db1))"

text \<open>\<open>await\<close> in sequence: a rejected promise skips the rest of the block.\<close>

definition await :: "(js_error + 'a) \<times> 's \<Rightarrow> ('a \<Rightarrow> 's \<Rightarrow> (js_error + 'b) \<times> 's) \<Rightarrow> (js_error + 'b) \<times> 's" where
  "await m k = (case m of (Inl e, s) \<Rightarrow> (Inl e, s) | (Inr x, s) \<Rightarrow> k x s)"

section \<open>src/db/service.ts: DatabaseService\<close>

text \<open>
  The service's one field, \<open>db?: Database\<close>, is \<open>None\<close> until \<open>initialize\<close> has run.
  Every operation maps the field before the call to its result and the field after.
\<close>

definition empty_tables :: tables where
  "empty_tables = \<lparr>aws_accounts = [], aws_regions = [], asset_findings = [],
     seq_accounts = 0, seq_regions = 0, seq_findings = 0\<rparr>"

text \<open>
  \<open>open\<close>: a new connection to the file \<open>aws-security.db\<close>. The file is given by its
  tables and by the schema of \<open>aws_regions\<close>, or is absent; \<open>fresh\<close> is the schema the
  caller's \<open>CREATE TABLE IF NOT EXISTS\<close> gives an absent table.
\<close>

definition open_file :: "(tables \<times> bool) option \<Rightarrow> bool \<Rightarrow> database" where
  "open_file file fresh =
     (case file of
        None \<Rightarrow> \<lparr>tabs = empty_tables, journal = None, executed = [], unique_regions = fresh\<rparr>
      | Some (t, u) \<Rightarrow> \<lparr>tabs = t, journal = None, executed = [], unique_regions = u\<rparr>)"

text \<open>
  \<open>DatabaseService.initialize\<close>: its \<open>aws_regions\<close> has no \<open>UNIQUE(account_id, region)\<close>.
\<close>

definition initialize :: "sqlite_env \<Rightarrow> (tables \<times> bool) option \<Rightarrow> (js_error + unit) \<times> database option" where
  "initialize env file =
     (case db_run env CreateTables (open_file file False) of
        (Inl e, db) \<Rightarrow> (Inl e, Some db)
      | (Inr _, db) \<Rightarrow> (Inr (), Some db))"

text \<open>
  \<open>initializeDatabase\<close> of src/db/schema.ts, which no other file calls: three
  \<open>db.exec\<close>, and its \<open>aws_regions\<close> is declared with \<open>UNIQUE(account_id, region)\<close>.
\<close>

definition initializeDatabase :: "sqlite_env \<Rightarrow> (tables \<times> bool) option \<Rightarrow> (js_error + unit) \<times> database" where
  "initializeDatabase env file =
     await (db_run env CreateTables (open_file file True)) (\<lambda>_ db1.
     await (db_run env CreateTables db1) (\<lambda>_ db2.
     await (db_run env CreateTables db2) (\<lambda>_ db3. (Inr (), db3))))"

definition not_initialized :: js_error where
  "not_initialized = Error ''Database not initialized. Call initialize() first.''"

definition ensureInitialized ::
  "(database \<Rightarrow> (js_error + 'a) \<times> database) \<Rightarrow> database option \<Rightarrow> (js_error + 'a) \<times> database option" where
  "ensureInitialized body svc =
     (case svc of
        None \<Rightarrow> (Inl not_initialized, None)
      | Some db \<Rightarrow> (case body db of (r, db') \<Rightarrow> (r, Some db')))"

definition addAccount ::
  "sqlite_env \<Rightarrow> string \<Rightarrow> string \<Rightarrow> string \<Rightarrow> string \<Rightarrow> string option \<Rightarrow> database option
     \<Rightarrow> (js_error + int) \<times> database option" where
  "addAccount env aid aname key secret token =
     ensureInitialized (db_run env (InsertAccount aid aname key secret token))"

definition account_of_row :: "account_row \<Rightarrow> AWSAccount" where
  "account_of_row a = \<lparr>acc_id = a_id a, accountId = a_account_id a, accountName = a_account_name a,
     accessKeyId = a_access_key_id a, secretAccessKey = a_secret_access_key a,
     sessionToken = a_session_token a, createdAt = a_created_at a, updatedAt = a_updated_at a\<rparr>"

definition getAccounts :: "sqlite_env \<Rightarrow> database option \<Rightarrow> (js_error + AWSAccount list) \<times> database option" where
  "getAccounts env =
     ensureInitialized (db_all env SelectAccounts (\<lambda>t. map account_of_row (aws_accounts t)))"

definition getAccount :: "sqlite_env \<Rightarrow> int \<Rightarrow> database option \<Rightarrow> (js_error + AWSAccount option) \<times> database option" where
  "getAccount env i =
     ensureInitialized (db_all env (SelectAccountById i)
       (\<lambda>t. map_option account_of_row (find (\<lambda>a. a_id a = i) (aws_accounts t))))"

text \<open>The \<open>try\<close> block of \<open>deleteAccount\<close>.\<close>

definition deleteAccount_try :: "sqlite_env \<Rightarrow> int \<Rightarrow> database \<Rightarrow> (js_error + unit) \<times> database" where
  "deleteAccount_try env i db =
     await (db_run env (DeleteFindingsByAccount i) db) (\<lambda>_ db1.
     await (db_run env (DeleteRegionsByAccount i) db1) (\<lambda>_ db2.
     await (db_run env (DeleteAccountById i) db2) (\<lambda>_ db3.
     await (db_run env Commit db3) (\<lambda>_ db4. (Inr (), db4)))))"

definition deleteAccount :: "sqlite_env \<Rightarrow> int \<Rightarrow> database option \<Rightarrow> (js_error + unit) \<times> database option" where
  "deleteAccount env i =
     ensureInitialized (\<lambda>db.
       await (db_run env BeginTransaction db) (\<lambda>_ db1.
         case deleteAccount_try env i db1 of
           (Inr u, db2) \<Rightarrow> (Inr u, db2)
         | (Inl error, db2) \<Rightarrow>
             await (db_run env Rollback db2) (\<lambda>_ db3. (Inl error, db3))))"

definition addRegion :: "sqlite_env \<Rightarrow> int \<Rightarrow> string \<Rightarrow> bool \<Rightarrow> database option \<Rightarrow> (js_error + int) \<times> database option" where
  "addRegion env acc reg en = ensureInitialized (db_run env (InsertRegion acc reg en))"

definition getEnabledRegions :: "sqlite_env \<Rightarrow> int \<Rightarrow> database option \<Rightarrow> (js_error + region_row list) \<times> database option" where
  "getEnabledRegions env acc =
     ensureInitialized (db_all env (SelectEnabledRegions acc)
       (\<lambda>t. filter (\<lambda>r. r_account_id r = acc \<and> r_enabled r) (aws_regions t)))"

text \<open>The \<open>for\<close> loop of \<open>storeFindingsForAccount\<close>: one \<open>stmt.run\<close> per finding.\<close>

fun stmt_run_each :: "sqlite_env \<Rightarrow> int \<Rightarrow> RegionFinding list \<Rightarrow> database \<Rightarrow> (js_error + unit) \<times> database" where
  "stmt_run_each env acc [] db = (Inr (), db)"
| "stmt_run_each env acc (f # fs) db =
     (case db_run env (InsertFinding acc f) db of
        (Inl e, db1) \<Rightarrow> (Inl e, db1)
      | (Inr _, db1) \<Rightarrow> stmt_run_each env acc fs db1)"

definition storeFindingsForAccount ::
  "sqlite_env \<Rightarrow> int \<Rightarrow> RegionFinding list \<Rightarrow> database option \<Rightarrow> (js_error + unit) \<times> database option" where
  "storeFindingsForAccount env acc findings =
     ensureInitialized (\<lambda>db.
       await (db_run env PrepareInsertFinding db) (\<lambda>_ db1.
       await (stmt_run_each env acc findings db1) (\<lambda>_ db2.
       await (db_run env FinalizeStatement db2) (\<lambda>_ db3. (Inr (), db3)))))"

text \<open>The optional fields of the \<open>filters\<close> argument of \<open>getFindings\<close>.\<close>

record filters =
  filter_accountId :: "int option"
  filter_region :: "string option"
  filter_service :: "string option"
  filter_severity :: "string option"

text \<open>
  \<open>if (filters.x) { conditions.push('x = ?'); params.push(filters.x); }\<close>: a field that
  is undefined, 0 or the empty string is falsy and adds no condition.
\<close>

definition conditions :: "filters \<Rightarrow> condition list" where
  "conditions fl =
     (case filter_accountId fl of None \<Rightarrow> [] | Some n \<Rightarrow> if n = 0 then [] else [AccountIdEq n]) @
     (case filter_region fl of None \<Rightarrow> [] | Some r \<Rightarrow> if r = [] then [] else [RegionEq r]) @
     (case filter_service fl of None \<Rightarrow> [] | Some v \<Rightarrow> if v = [] then [] else [ServiceEq v]) @
     (case filter_severity fl of None \<Rightarrow> [] | Some v \<Rightarrow> if v = [] then [] else [SeverityEq v])"

fun holds :: "condition \<Rightarrow> finding_row \<Rightarrow> bool" where
  "holds (AccountIdEq i) f = (f_account_id f = i)"
| "holds (RegionEq r) f = (f_region f = r)"
| "holds (ServiceEq s) f = (f_service f = s)"
| "holds (SeverityEq s) f = (f_severity f = s)"

text \<open>
  \<open>SELECT ... FROM asset_findings WHERE c1 AND ... ORDER BY created_at DESC\<close>. SQL leaves
  the order of rows with equal \<open>created_at\<close> open; the model keeps them in table order.
\<close>

definition select_findings :: "condition list \<Rightarrow> tables \<Rightarrow> finding_row list" where
  "select_findings cs t =
     sort_key (\<lambda>f. - f_created_at f) (filter (\<lambda>f. list_all (\<lambda>c. holds c f) cs) (asset_findings t))"

definition getFindings :: "sqlite_env \<Rightarrow> filters \<Rightarrow> database option \<Rightarrow> (js_error + finding_row list) \<times> database option" where
  "getFindings env fl =
     ensureInitialized (db_all env (SelectFindings (conditions fl)) (select_findings (conditions fl)))"

section \<open>The probes\<close>

text \<open>\<open>x || fallback\<close> on an optional string: undefined and the empty string are falsy.\<close>

definition or_else :: "string option \<Rightarrow> string \<Rightarrow> string" where
  "or_else x fallback = (case x of None \<Rightarrow> fallback | Some s \<Rightarrow> if s = [] then fallback else s)"

text \<open>
  Every probe builds its client with \<open>new XClient({credentials, region})\<close> before its
  \<open>try\<close> block. The constructor belongs to the AWS SDK: from the account and the region
  it gives the client or throws (it refuses an empty region with "Region is missing").
  It is the first argument of each \<open>scan\<close>.
\<close>

type_synonym 'client client_constructor = "AWSAccount \<Rightarrow> string \<Rightarrow> js_error + 'client"

subsection \<open>src/scanner/services/guardduty.ts\<close>

text \<open>
  The parts of the AWS responses the probe reads. A client is given by what it answers
  to each command it is sent.
\<close>

record guardduty_resource =
  Resource_Id :: "string option"
  Resource_Type :: "string option"

record guardduty_finding =
  Resource :: "guardduty_resource option"
  Title :: "string option"
  Severity :: "real option"
  Type :: "string option"
  Description :: "string option"

record GuardDutyClient =
  ListDetectorsCommand :: "js_error + string list option"
  ListFindingsCommand :: "string \<Rightarrow> js_error + string list option"
  GetFindingsCommand :: "string \<Rightarrow> string list \<Rightarrow> js_error + guardduty_finding list option"

definition guardduty_severity :: "real option \<Rightarrow> string" where
  "guardduty_severity s =
     (if (case s of None \<Rightarrow> False | Some v \<Rightarrow> v \<noteq> 0 \<and> v \<ge> 7) then ''HIGH''
      else if (case s of None \<Rightarrow> False | Some v \<Rightarrow> v \<noteq> 0 \<and> v \<ge> 4) then ''MEDIUM''
      else ''LOW'')"

definition guardduty_finding_of :: "guardduty_finding \<Rightarrow> Finding" where
  "guardduty_finding_of f =
     \<lparr>resourceId = or_else (case Resource f of None \<Rightarrow> None | Some r \<Rightarrow> Resource_Id r) ''unknown'',
      resourceType = or_else (case Resource f of None \<Rightarrow> None | Some r \<Rightarrow> Resource_Type r) ''GUARDDUTY_FINDING'',
      resourceName = Some (or_else (Title f) ''Unknown Finding''),
      service = ''GuardDuty'',
      severity = guardduty_severity (Severity f),
      finding = or_else (Type f) ''Unknown Finding Type'',
      description = or_else (Description f) ''No description available'',
      remediation = ''Review GuardDuty finding details and take appropriate action.''\<rparr>"

definition guardduty_not_enabled :: Finding where
  "guardduty_not_enabled =
     \<lparr>resourceId = ''account'', resourceType = ''GUARDDUTY_ACCOUNT'',
      resourceName = Some ''Account GuardDuty'', service = ''GuardDuty'', severity = ''HIGH'',
      finding = ''GuardDuty Not Enabled'',
      description = ''GuardDuty is not enabled in this region.'',
      remediation = ''Enable GuardDuty to detect potential security threats and unauthorized behavior.''\<rparr>"

text \<open>The \<open>try\<close> block of \<open>GuardDutyScanner.scan\<close>.\<close>

definition guardduty_try :: "GuardDutyClient \<Rightarrow> js_error + Finding list" where
  "guardduty_try client =
     (case ListDetectorsCommand client of
        Inl e \<Rightarrow> Inl e
      | Inr detectorIds \<Rightarrow>
          (case detectorIds of
             None \<Rightarrow> Inr [guardduty_not_enabled]
           | Some [] \<Rightarrow> Inr [guardduty_not_enabled]
           | Some (detectorId # _) \<Rightarrow>
               (case ListFindingsCommand client detectorId of
                  Inl e \<Rightarrow> Inl e
                | Inr findingIds \<Rightarrow>
                    (case findingIds of
                       None \<Rightarrow> Inr []
                     | Some [] \<Rightarrow> Inr []
                     | Some (i # ids) \<Rightarrow>
                         (case GetFindingsCommand client detectorId (i # ids) of
                            Inl e \<Rightarrow> Inl e
                          | Inr fs \<Rightarrow>
                              Inr (map guardduty_finding_of (case fs of None \<Rightarrow> [] | Some l \<Rightarrow> l)))))))"

text \<open>The \<open>catch\<close> block of \<open>GuardDutyScanner.scan\<close>: what it throws for a caught error.\<close>

definition guardduty_catch :: "js_error \<Rightarrow> js_error" where
  "guardduty_catch error =
     (if instanceofError error then
        if error_name error = Some ''UnrecognizedClientException'' \<or> httpStatusCode error = Some 403
        then error
        else if str_includes (message error) ''credentials''
        then Error (''AWS credentials error: '' @ message error)
        else if str_includes (message error) ''AccessDenied''
        then Error ''Access denied to GuardDuty. Please check IAM permissions.''
        else error
      else error)"

text \<open>
  \<open>GuardDutyScanner.scan\<close>: the test of the credentials, then the constructor, then the
  \<open>try\<close> block. What the first two throw is not caught.
\<close>

definition GuardDutyScanner_scan ::
  "GuardDutyClient client_constructor \<Rightarrow> AWSAccount \<Rightarrow> string \<Rightarrow> js_error + Finding list" where
  "GuardDutyScanner_scan new_GuardDutyClient account reg =
     (if accessKeyId account = [] \<or> secretAccessKey account = []
      then Inl (Error ''Missing AWS credentials'')
      else
        case new_GuardDutyClient account reg of
          Inl e \<Rightarrow> Inl e
        | Inr client \<Rightarrow>
            (case guardduty_try client of
               Inl error \<Rightarrow> Inl (guardduty_catch error)
             | Inr findings \<Rightarrow> Inr findings))"

subsection \<open>src/scanner/services/iam.ts\<close>

record iam_user =
  UserName :: string
  UserId :: string
  PasswordLastUsed :: "int option"

record IAMClient =
  GetAccountSummaryCommand :: "js_error + (string \<Rightarrow> int option) option"
  ListUsersCommand :: "js_error + iam_user list option"
  ListAccessKeysCommand :: "string \<Rightarrow> js_error + string list option"

definition iam_root_mfa :: Finding where
  "iam_root_mfa =
     \<lparr>resourceId = ''account'', resourceType = ''IAM_ACCOUNT'', resourceName = Some ''Root Account'',
      service = ''IAM'', severity = ''HIGH'', finding = ''Root Account MFA Not Enabled'',
      description = ''The root account does not have Multi-Factor Authentication (MFA) enabled.'',
      remediation = ''Enable MFA for the root account to enhance security.''\<rparr>"

definition iam_multiple_keys :: "iam_user \<Rightarrow> Finding" where
  "iam_multiple_keys user =
     \<lparr>resourceId = UserId user, resourceType = ''IAM_USER'', resourceName = Some (UserName user),
      service = ''IAM'', severity = ''MEDIUM'', finding = ''Multiple Access Keys'',
      description = ''User '' @ UserName user @ '' has multiple active access keys.'',
      remediation = ''Review and remove unnecessary access keys. Each user should typically have at most one active access key.''\<rparr>"

definition iam_inactive_user :: "iam_user \<Rightarrow> Finding" where
  "iam_inactive_user user =
     \<lparr>resourceId = UserId user, resourceType = ''IAM_USER'', resourceName = Some (UserName user),
      service = ''IAM'', severity = ''LOW'', finding = ''Inactive User'',
      description = ''User '' @ UserName user @ '' has never signed in or has not signed in recently.'',
      remediation = ''Review and remove inactive users to maintain good security hygiene.''\<rparr>"

text \<open>What the probe pushes after \<open>GetAccountSummaryCommand\<close> has answered.\<close>

definition iam_summary_findings :: "(string \<Rightarrow> int option) option \<Rightarrow> Finding list" where
  "iam_summary_findings summaryMap =
     (let mfa = (case summaryMap of None \<Rightarrow> None | Some m \<Rightarrow> m ''AccountMFAEnabled'')
      in if mfa = None \<or> mfa = Some 0 then [iam_root_mfa] else [])"

text \<open>What the loop pushes for a user whose \<open>ListAccessKeysCommand\<close> has answered.\<close>

definition iam_user_findings :: "iam_user \<Rightarrow> string list option \<Rightarrow> Finding list" where
  "iam_user_findings user keys =
     (if length (case keys of None \<Rightarrow> [] | Some l \<Rightarrow> l) > 1 then [iam_multiple_keys user] else [])
     @ (if PasswordLastUsed user = None then [iam_inactive_user user] else [])"

text \<open>
  The loop over the users. An error of \<open>ListAccessKeysCommand\<close> leaves the loop and the
  \<open>try\<close> block; \<open>findings\<close> keeps what was pushed before.
\<close>

fun iam_users_loop :: "IAMClient \<Rightarrow> iam_user list \<Rightarrow> Finding list \<Rightarrow> Finding list" where
  "iam_users_loop client [] findings = findings"
| "iam_users_loop client (user # users) findings =
     (case ListAccessKeysCommand client (UserName user) of
        Inl e \<Rightarrow> findings
      | Inr keys \<Rightarrow> iam_users_loop client users (findings @ iam_user_findings user keys))"

text \<open>
  \<open>IAMScanner.scan\<close>: the constructor, whose error is not caught, then the \<open>try\<close>
  block, whose \<open>catch\<close> logs the error and falls through to \<open>return findings\<close>.
\<close>

definition IAMScanner_scan ::
  "IAMClient client_constructor \<Rightarrow> AWSAccount \<Rightarrow> string \<Rightarrow> js_error + Finding list" where
  "IAMScanner_scan new_IAMClient account reg =
     (case new_IAMClient account reg of
        Inl e \<Rightarrow> Inl e
      | Inr client \<Rightarrow>
          (case GetAccountSummaryCommand client of
             Inl e \<Rightarrow> Inr []
           | Inr summaryMap \<Rightarrow>
               (let findings = iam_summary_findings summaryMap
                in case ListUsersCommand client of
                     Inl e \<Rightarrow> Inr findings
                   | Inr users \<Rightarrow>
                       Inr (iam_users_loop client (case users of None \<Rightarrow> [] | Some l \<Rightarrow> l) findings))))"

subsection \<open>src/scanner/services/cloudwatch.ts\<close>

record metric_alarm =
  ActionsEnabled :: "bool option"
  AlarmActions :: "string list option"
  OKActions :: "string list option"
  InsufficientDataActions :: "string list option"

record CloudWatchClient =
  DescribeAlarmsCommand :: "js_error + metric_alarm list option"

definition cloudwatch_finding :: "string \<Rightarrow> string \<Rightarrow> string \<Rightarrow> string \<Rightarrow> Finding" where
  "cloudwatch_finding sev title descr remed =
     \<lparr>resourceId = ''account'', resourceType = ''CLOUDWATCH_ACCOUNT'',
      resourceName = Some ''Account CloudWatch'', service = ''CloudWatch'', severity = sev,
      finding = title, description = descr, remediation = remed\<rparr>"

definition cloudwatch_no_alarms :: Finding where
  "cloudwatch_no_alarms =
     cloudwatch_finding ''MEDIUM'' ''No CloudWatch Alarms''
       ''No CloudWatch alarms are configured in this region.''
       ''Configure CloudWatch alarms to monitor critical metrics and receive notifications.''"

definition cloudwatch_disabled_alarms :: "nat \<Rightarrow> Finding" where
  "cloudwatch_disabled_alarms n =
     cloudwatch_finding ''LOW'' ''Disabled CloudWatch Alarms''
       (decimal n @ '' CloudWatch alarms are disabled.'')
       ''Review and enable important CloudWatch alarms or remove unnecessary ones.''"

definition cloudwatch_alarms_without_actions :: "nat \<Rightarrow> Finding" where
  "cloudwatch_alarms_without_actions n =
     cloudwatch_finding ''MEDIUM'' ''Alarms Without Actions''
       (decimal n @ '' CloudWatch alarms have no actions configured.'')
       ''Configure actions (such as SNS notifications) for alarms to ensure proper notification of events.''"

text \<open>\<open>!xs || xs.length === 0\<close>\<close>

definition absent_or_empty :: "'a list option \<Rightarrow> bool" where
  "absent_or_empty xs = (xs = None \<or> xs = Some [])"

text \<open>What the probe pushes for the alarms of a region that has some.\<close>

definition cloudwatch_alarm_findings :: "metric_alarm list \<Rightarrow> Finding list" where
  "cloudwatch_alarm_findings alarms =
     (let disabledAlarms = filter (\<lambda>alarm. ActionsEnabled alarm = Some False) alarms;
          alarmsWithoutActions =
            filter (\<lambda>alarm. absent_or_empty (AlarmActions alarm)
                      \<and> absent_or_empty (OKActions alarm)
                      \<and> absent_or_empty (InsufficientDataActions alarm)) alarms
      in (if length disabledAlarms > 0
          then [cloudwatch_disabled_alarms (length disabledAlarms)] else [])
         @ (if length alarmsWithoutActions > 0
            then [cloudwatch_alarms_without_actions (length alarmsWithoutActions)] else []))"

text \<open>
  \<open>CloudWatchScanner.scan\<close>: the constructor, whose error is not caught, then the \<open>try\<close>
  block around the one command.
\<close>

definition CloudWatchScanner_scan ::
  "CloudWatchClient client_constructor \<Rightarrow> AWSAccount \<Rightarrow> string \<Rightarrow> js_error + Finding list" where
  "CloudWatchScanner_scan new_CloudWatchClient account reg =
     (case new_CloudWatchClient account reg of
        Inl e \<Rightarrow> Inl e
      | Inr client \<Rightarrow>
          (case DescribeAlarmsCommand client of
             Inl e \<Rightarrow> Inr []
           | Inr alarms \<Rightarrow>
               (case alarms of
                  None \<Rightarrow> Inr [cloudwatch_no_alarms]
                | Some [] \<Rightarrow> Inr [cloudwatch_no_alarms]
                | Some (a # as) \<Rightarrow> Inr (cloudwatch_alarm_findings (a # as)))))"

subsection \<open>src/scanner/services/cloudtrail.ts\<close>

record trail =
  Name :: "string option"
  TrailARN :: "string option"
  IsMultiRegionTrail :: "bool option"
  LogFileValidationEnabled :: "bool option"

text \<open>\<open>GetTrailStatusCommand\<close> is given by the \<open>IsLogging\<close> of its response.\<close>

record CloudTrailClient =
  DescribeTrailsCommand :: "js_error + trail list option"
  GetTrailStatusCommand :: "string \<Rightarrow> js_error + bool option"

definition cloudtrail_not_configured :: Finding where
  "cloudtrail_not_configured =
     \<lparr>resourceId = ''account'', resourceType = ''CLOUDTRAIL_ACCOUNT'',
      resourceName = Some ''Account CloudTrail'', service = ''CloudTrail'', severity = ''HIGH'',
      finding = ''No CloudTrail Configured'',
      description = ''No CloudTrail trails are configured in this region.'',
      remediation = ''Configure CloudTrail to track API activity in your AWS account.''\<rparr>"

definition cloudtrail_finding :: "trail \<Rightarrow> string \<Rightarrow> string \<Rightarrow> string \<Rightarrow> string \<Rightarrow> string \<Rightarrow> Finding" where
  "cloudtrail_finding t name sev title descr remed =
     \<lparr>resourceId = or_else (TrailARN t) name, resourceType = ''CLOUDTRAIL_TRAIL'',
      resourceName = Some name, service = ''CloudTrail'', severity = sev,
      finding = title, description = descr, remediation = remed\<rparr>"

definition cloudtrail_trail_findings :: "trail \<Rightarrow> string \<Rightarrow> bool option \<Rightarrow> Finding list" where
  "cloudtrail_trail_findings t name isLogging =
     (if isLogging \<noteq> Some True
      then [cloudtrail_finding t name ''HIGH'' ''CloudTrail Logging Disabled''
              (''CloudTrail '' @ name @ '' is not actively logging.'')
              ''Enable logging for the CloudTrail trail to maintain audit records.'']
      else [])
     @ (if IsMultiRegionTrail t \<noteq> Some True
        then [cloudtrail_finding t name ''MEDIUM'' ''Single-Region Trail''
                (''CloudTrail '' @ name @ '' is only logging events for a single region.'')
                ''Consider enabling multi-region logging to capture events across all regions.'']
        else [])
     @ (if LogFileValidationEnabled t \<noteq> Some True
        then [cloudtrail_finding t name ''MEDIUM'' ''Log File Validation Disabled''
                (''CloudTrail '' @ name @ '' does not have log file validation enabled.'')
                ''Enable log file validation to ensure log file integrity.'']
        else [])"

text \<open>
  The loop over the trails: a trail without a name is skipped; an error of
  \<open>GetTrailStatusCommand\<close> leaves the loop with the findings pushed so far.
\<close>

fun cloudtrail_loop :: "CloudTrailClient \<Rightarrow> trail list \<Rightarrow> Finding list \<Rightarrow> Finding list" where
  "cloudtrail_loop client [] findings = findings"
| "cloudtrail_loop client (t # ts) findings =
     (case Name t of
        None \<Rightarrow> cloudtrail_loop client ts findings
      | Some name \<Rightarrow>
          if name = [] then cloudtrail_loop client ts findings
          else
            case GetTrailStatusCommand client name of
              Inl e \<Rightarrow> findings
            | Inr isLogging \<Rightarrow>
                cloudtrail_loop client ts (findings @ cloudtrail_trail_findings t name isLogging))"

text \<open>
  \<open>CloudTrailScanner.scan\<close>: the constructor, whose error is not caught, then the \<open>try\<close>
  block.
\<close>

definition CloudTrailScanner_scan ::
  "CloudTrailClient client_constructor \<Rightarrow> AWSAccount \<Rightarrow> string \<Rightarrow> js_error + Finding list" where
  "CloudTrailScanner_scan new_CloudTrailClient account reg =
     (case new_CloudTrailClient account reg of
        Inl e \<Rightarrow> Inl e
      | Inr client \<Rightarrow>
          (case DescribeTrailsCommand client of
             Inl e \<Rightarrow> Inr []
           | Inr trailList \<Rightarrow>
               (case trailList of
                  None \<Rightarrow> Inr [cloudtrail_not_configured]
                | Some [] \<Rightarrow> Inr [cloudtrail_not_configured]
                | Some (t # ts) \<Rightarrow> Inr (cloudtrail_loop client (t # ts) []))))"

subsection \<open>src/scanner/services/kms.ts\<close>

record key_metadata =
  Arn :: "string option"
  KeyId :: "string option"
  KeyState :: "string option"
  Origin :: "string option"

text \<open>
  \<open>ListKeysCommand\<close> is given by the \<open>KeyId\<close> of each entry of \<open>Keys\<close>, and
  \<open>DescribeKeyCommand\<close> by the \<open>KeyMetadata\<close> of its response.
\<close>

record KMSClient =
  ListKeysCommand :: "js_error + string option list option"
  DescribeKeyCommand :: "string \<Rightarrow> js_error + key_metadata option"

definition kms_no_keys :: Finding where
  "kms_no_keys =
     \<lparr>resourceId = ''account'', resourceType = ''KMS_ACCOUNT'', resourceName = Some ''Account KMS'',
      service = ''KMS'', severity = ''LOW'', finding = ''No KMS Keys'',
      description = ''No KMS keys are configured in this region.'',
      remediation = ''Consider using KMS keys for encrypting sensitive data.''\<rparr>"

text \<open>An optional string inside a template literal.\<close>

definition template :: "string option \<Rightarrow> string" where
  "template x = (case x of None \<Rightarrow> ''undefined'' | Some s \<Rightarrow> s)"

definition kms_finding :: "key_metadata \<Rightarrow> string \<Rightarrow> string \<Rightarrow> string \<Rightarrow> string \<Rightarrow> Finding" where
  "kms_finding m sev title descr remed =
     \<lparr>resourceId = or_else (Arn m) (or_else (KeyId m) ''unknown''), resourceType = ''KMS_KEY'',
      resourceName = Some (or_else (KeyId m) ''unknown''), service = ''KMS'', severity = sev,
      finding = title, description = descr, remediation = remed\<rparr>"

definition kms_key_findings :: "key_metadata \<Rightarrow> Finding list" where
  "kms_key_findings m =
     (if KeyState m = Some ''Disabled''
      then [kms_finding m ''MEDIUM'' ''Disabled KMS Key''
              (''KMS key '' @ template (KeyId m) @ '' is disabled.'')
              ''Review and enable important KMS keys or schedule them for deletion if no longer needed.'']
      else [])
     @ (if KeyState m = Some ''PendingDeletion''
        then [kms_finding m ''HIGH'' ''KMS Key Pending Deletion''
                (''KMS key '' @ template (KeyId m) @ '' is scheduled for deletion.'')
                ''Review if the key should be deleted. Cancel deletion if the key is still needed.'']
        else [])
     @ (if Origin m = Some ''AWS_KMS''
        then [kms_finding m ''LOW'' ''AWS Managed Key Material''
                (''KMS key '' @ template (KeyId m) @ '' uses AWS-managed key material.'')
                ''Consider using customer-managed key material for better control over the key lifecycle.'']
        else [])"

fun kms_loop :: "KMSClient \<Rightarrow> string option list \<Rightarrow> Finding list \<Rightarrow> Finding list" where
  "kms_loop client [] findings = findings"
| "kms_loop client (key # keys) findings =
     (case key of
        None \<Rightarrow> kms_loop client keys findings
      | Some keyId \<Rightarrow>
          if keyId = [] then kms_loop client keys findings
          else
            case DescribeKeyCommand client keyId of
              Inl e \<Rightarrow> findings
            | Inr None \<Rightarrow> kms_loop client keys findings
            | Inr (Some metadata) \<Rightarrow> kms_loop client keys (findings @ kms_key_findings metadata))"

text \<open>
  \<open>KMSScanner.scan\<close>: the constructor, whose error is not caught, then the \<open>try\<close>
  block.
\<close>

definition KMSScanner_scan ::
  "KMSClient client_constructor \<Rightarrow> AWSAccount \<Rightarrow> string \<Rightarrow> js_error + Finding list" where
  "KMSScanner_scan new_KMSClient account reg =
     (case new_KMSClient account reg of
        Inl e \<Rightarrow> Inl e
      | Inr client \<Rightarrow>
          (case ListKeysCommand client of
             Inl e \<Rightarrow> Inr []
           | Inr keys \<Rightarrow>
               (case keys of
                  None \<Rightarrow> Inr [kms_no_keys]
                | Some [] \<Rightarrow> Inr [kms_no_keys]
                | Some (k # ks) \<Rightarrow> Inr (kms_loop client (k # ks) []))))"

subsection \<open>src/scanner/services/securityhub.ts\<close>

record securityhub_resource =
  SecurityHub_Id :: "string option"
  SecurityHub_Type :: "string option"

text \<open>
  \<open>Severity_Label\<close> is \<open>finding.Severity?.Label\<close> and \<open>Remediation_Text\<close> is
  \<open>finding.Remediation?.Recommendation?.Text\<close>.
\<close>

record securityhub_finding =
  Resources :: "securityhub_resource list option"
  Severity_Label :: "string option"
  SecurityHub_Title :: "string option"
  SecurityHub_Description :: "string option"
  Remediation_Text :: "string option"

record SecurityHubClient =
  GetEnabledStandardsCommand :: "js_error + unit"
  SecurityHub_GetFindingsCommand :: "js_error + securityhub_finding list option"

text \<open>
  \<open>toUpperCase\<close> on the letters a to z; the severity labels are ASCII, and any other
  character is left as it is.
\<close>

definition toUpperCase :: "string \<Rightarrow> string" where
  "toUpperCase s =
     map (\<lambda>c. if 97 \<le> (of_char c :: nat) \<and> (of_char c :: nat) \<le> 122
               then char_of ((of_char c :: nat) - 32) else c) s"

definition mapSeverity :: "string option \<Rightarrow> string" where
  "mapSeverity severityLabel =
     (let l = map_option toUpperCase severityLabel in
      if l = Some ''CRITICAL'' \<or> l = Some ''HIGH'' then ''HIGH''
      else if l = Some ''MEDIUM'' then ''MEDIUM''
      else ''LOW'')"

text \<open>\<open>id.split('/').pop()\<close>: what follows the last slash.\<close>

definition last_segment :: "string \<Rightarrow> string" where
  "last_segment s = rev (takeWhile (\<lambda>c. c \<noteq> CHR ''/'') (rev s))"

definition securityhub_not_enabled :: Finding where
  "securityhub_not_enabled =
     \<lparr>resourceId = ''account'', resourceType = ''SECURITYHUB_ACCOUNT'',
      resourceName = Some ''Account SecurityHub'', service = ''SecurityHub'', severity = ''HIGH'',
      finding = ''SecurityHub Not Enabled'',
      description = ''AWS SecurityHub is not enabled in this region.'',
      remediation = ''Enable SecurityHub to aggregate, organize, and prioritize security findings.''\<rparr>"

definition securityhub_finding_of :: "securityhub_finding \<Rightarrow> securityhub_resource \<Rightarrow> Finding" where
  "securityhub_finding_of f resource =
     \<lparr>resourceId = or_else (SecurityHub_Id resource) ''unknown'',
      resourceType = or_else (SecurityHub_Type resource) ''SECURITYHUB_FINDING'',
      resourceName = Some (or_else (map_option last_segment (SecurityHub_Id resource)) ''Unknown Resource''),
      service = ''SecurityHub'',
      severity = mapSeverity (Severity_Label f),
      finding = or_else (SecurityHub_Title f) ''Unknown Finding'',
      description = or_else (SecurityHub_Description f) ''No description available'',
      remediation = or_else (Remediation_Text f)
        ''Review SecurityHub finding details and take appropriate action.''\<rparr>"

text \<open>The loop over the findings: one without resources is skipped.\<close>

definition securityhub_findings :: "securityhub_finding list \<Rightarrow> Finding list" where
  "securityhub_findings fs =
     concat (map (\<lambda>f. case Resources f of
                         None \<Rightarrow> []
                       | Some [] \<Rightarrow> []
                       | Some (resource # _) \<Rightarrow> [securityhub_finding_of f resource]) fs)"

text \<open>
  \<open>SecurityHubScanner.scan\<close>: the constructor, whose error is not caught, then the
  \<open>try\<close> block. An error of \<open>GetEnabledStandardsCommand\<close> other than the two the inner
  \<open>catch\<close> names is thrown again and caught by the outer \<open>catch\<close>, with no finding
  pushed yet.
\<close>

definition SecurityHubScanner_scan ::
  "SecurityHubClient client_constructor \<Rightarrow> AWSAccount \<Rightarrow> string \<Rightarrow> js_error + Finding list" where
  "SecurityHubScanner_scan new_SecurityHubClient account reg =
     (case new_SecurityHubClient account reg of
        Inl e \<Rightarrow> Inl e
      | Inr client \<Rightarrow>
          (case GetEnabledStandardsCommand client of
             Inl error \<Rightarrow>
               if error_name error = Some ''InvalidAccessException''
                  \<or> error_name error = Some ''ResourceNotFoundException''
               then Inr [securityhub_not_enabled]
               else Inr []
           | Inr _ \<Rightarrow>
               (case SecurityHub_GetFindingsCommand client of
                  Inl e \<Rightarrow> Inr []
                | Inr fs \<Rightarrow> Inr (securityhub_findings (case fs of None \<Rightarrow> [] | Some l \<Rightarrow> l)))))"

section \<open>src/scanner/index.ts: SecurityScanner\<close>

datatype probe = IAM | CloudTrail | CloudWatch | KMS | GuardDuty | SecurityHub

text \<open>
  A scanner's \<open>scan(account, region)\<close>. What it returns depends on AWS at the time of
  the call, so the first argument is the number of scans the orchestrator has started
  before this one.
\<close>

type_synonym scan = "nat \<Rightarrow> AWSAccount \<Rightarrow> string \<Rightarrow> js_error + Finding list"

record scanners =
  iamScanner :: scan
  cloudTrailScanner :: scan
  cloudWatchScanner :: scan
  kmsScanner :: scan
  guardDutyScanner :: scan
  securityHubScanner :: scan

text \<open>
  The orchestrator's state: its \<open>dbService\<close>, and the scans it has started so far, oldest
  first (a record of its calls; the code keeps no such list).
\<close>

record SecurityScanner =
  dbService :: "database option"
  invoked :: "(probe \<times> string) list"

fun scanner_of :: "scanners \<Rightarrow> probe \<Rightarrow> scan" where
  "scanner_of sc IAM = iamScanner sc"
| "scanner_of sc CloudTrail = cloudTrailScanner sc"
| "scanner_of sc CloudWatch = cloudWatchScanner sc"
| "scanner_of sc KMS = kmsScanner sc"
| "scanner_of sc GuardDuty = guardDutyScanner sc"
| "scanner_of sc SecurityHub = securityHubScanner sc"

definition invoke ::
  "scanners \<Rightarrow> probe \<Rightarrow> AWSAccount \<Rightarrow> string \<Rightarrow> (probe \<times> string) list
     \<Rightarrow> (js_error + Finding list) \<times> (probe \<times> string) list" where
  "invoke sc p account reg calls = (scanner_of sc p (length calls) account reg, calls @ [(p, reg)])"

text \<open>
  The test of the inner \<open>catch\<close>:
  \<open>error?.name === 'UnrecognizedClientException' || error?.$metadata?.httpStatusCode === 403\<close>.
\<close>

definition credential_class :: "js_error \<Rightarrow> bool" where
  "credential_class error =
     (error_name error = Some ''UnrecognizedClientException'' \<or> httpStatusCode error = Some 403)"

text \<open>\<open>.catch(e => { logger.error(...); return []; })\<close>\<close>

definition catch_empty :: "js_error + Finding list \<Rightarrow> Finding list" where
  "catch_empty r = (case r of Inl e \<Rightarrow> [] | Inr fs \<Rightarrow> fs)"

text \<open>
  \<open>Promise.all\<close> over the six scans, each with its own \<open>.catch\<close>: the results in the
  order of the array.
\<close>

definition fan_out ::
  "scanners \<Rightarrow> AWSAccount \<Rightarrow> string \<Rightarrow> (probe \<times> string) list \<Rightarrow> Finding list list \<times> (probe \<times> string) list" where
  "fan_out sc account reg calls =
     (case invoke sc IAM account reg calls of (r1, l1) \<Rightarrow>
      case invoke sc CloudTrail account reg l1 of (r2, l2) \<Rightarrow>
      case invoke sc CloudWatch account reg l2 of (r3, l3) \<Rightarrow>
      case invoke sc KMS account reg l3 of (r4, l4) \<Rightarrow>
      case invoke sc GuardDuty account reg l4 of (r5, l5) \<Rightarrow>
      case invoke sc SecurityHub account reg l5 of (r6, l6) \<Rightarrow>
        ([catch_empty r1, catch_empty r2, catch_empty r3, catch_empty r4, catch_empty r5,
          catch_empty r6], l6))"

text \<open>\<open>{...finding, region: region.region}\<close>\<close>

definition stamp :: "string \<Rightarrow> Finding \<Rightarrow> RegionFinding" where
  "stamp reg f =
     \<lparr>resourceId = resourceId f, resourceType = resourceType f, resourceName = resourceName f,
      service = service f, severity = severity f, finding = finding f,
      description = description f, remediation = remediation f, region = reg\<rparr>"

text \<open>The body of the loop over the enabled regions.\<close>

definition scanRegion ::
  "scanners \<Rightarrow> AWSAccount \<Rightarrow> string \<Rightarrow> (probe \<times> string) list
     \<Rightarrow> (js_error + RegionFinding list) \<times> (probe \<times> string) list" where
  "scanRegion sc account reg calls =
     (case invoke sc GuardDuty account reg calls of (canary, calls1) \<Rightarrow>
        if (case canary of Inl error \<Rightarrow> credential_class error | Inr _ \<Rightarrow> False)
        then (Inl (Error (''Invalid AWS credentials for account '' @ accountName account)), calls1)
        else
          case fan_out sc account reg calls1 of (findings, calls2) \<Rightarrow>
            (Inr (map (stamp reg) (concat findings)), calls2))"

fun scanRegions ::
  "scanners \<Rightarrow> AWSAccount \<Rightarrow> region_row list \<Rightarrow> RegionFinding list \<Rightarrow> (probe \<times> string) list
     \<Rightarrow> (js_error + RegionFinding list) \<times> (probe \<times> string) list" where
  "scanRegions sc account [] allFindings calls = (Inr allFindings, calls)"
| "scanRegions sc account (r # rs) allFindings calls =
     (case scanRegion sc account (r_region r) calls of
        (Inl error, calls1) \<Rightarrow> (Inl error, calls1)
      | (Inr regionFindings, calls1) \<Rightarrow>
          scanRegions sc account rs (allFindings @ regionFindings) calls1)"

definition scanAccount ::
  "sqlite_env \<Rightarrow> scanners \<Rightarrow> int \<Rightarrow> SecurityScanner \<Rightarrow> (js_error + RegionFinding list) \<times> SecurityScanner" where
  "scanAccount env sc i s =
     (case getAccount env i (dbService s) of
        (Inl e, svc1) \<Rightarrow> (Inl e, s\<lparr>dbService := svc1\<rparr>)
      | (Inr None, svc1) \<Rightarrow>
          (Inl (Error (''Account '' @ number_text i @ '' not found'')), s\<lparr>dbService := svc1\<rparr>)
      | (Inr (Some account), svc1) \<Rightarrow>
          (case getEnabledRegions env i svc1 of
             (Inl e, svc2) \<Rightarrow> (Inl e, s\<lparr>dbService := svc2\<rparr>)
           | (Inr enabledRegions, svc2) \<Rightarrow>
               (case scanRegions sc account enabledRegions [] (invoked s) of
                  (Inl error, calls1) \<Rightarrow> (Inl error, \<lparr>dbService = svc2, invoked = calls1\<rparr>)
                | (Inr allFindings, calls1) \<Rightarrow>
                    (case storeFindingsForAccount env i allFindings svc2 of
                       (Inl error, svc3) \<Rightarrow> (Inl error, \<lparr>dbService = svc3, invoked = calls1\<rparr>)
                     | (Inr _, svc3) \<Rightarrow> (Inr allFindings, \<lparr>dbService = svc3, invoked = calls1\<rparr>)))))"

text \<open>An element of the array \<open>scanAllAccounts\<close> returns: \<open>{accountId, findings}\<close> or \<open>{accountId, error}\<close>.\<close>

datatype scan_entry =
  Scanned int "RegionFinding list"
| Failed int string

fun entry_accountId :: "scan_entry \<Rightarrow> int" where
  "entry_accountId (Scanned i fs) = i"
| "entry_accountId (Failed i msg) = i"

text \<open>\<open>error instanceof Error ? error.message : 'Unknown error occurred'\<close>\<close>

definition error_text :: "js_error \<Rightarrow> string" where
  "error_text error = (if instanceofError error then message error else ''Unknown error occurred'')"

definition scan_entry_of :: "int \<Rightarrow> js_error + RegionFinding list \<Rightarrow> scan_entry" where
  "scan_entry_of i r = (case r of Inr findings \<Rightarrow> Scanned i findings | Inl error \<Rightarrow> Failed i (error_text error))"

fun scanEach ::
  "sqlite_env \<Rightarrow> scanners \<Rightarrow> AWSAccount list \<Rightarrow> scan_entry list \<Rightarrow> SecurityScanner
     \<Rightarrow> scan_entry list \<times> SecurityScanner" where
  "scanEach env sc [] allFindings s = (allFindings, s)"
| "scanEach env sc (account # accounts) allFindings s =
     (case scanAccount env sc (acc_id account) s of (r, s1) \<Rightarrow>
        scanEach env sc accounts (allFindings @ [scan_entry_of (acc_id account) r]) s1)"

definition scanAllAccounts ::
  "sqlite_env \<Rightarrow> scanners \<Rightarrow> SecurityScanner \<Rightarrow> (js_error + scan_entry list) \<times> SecurityScanner" where
  "scanAllAccounts env sc s =
     (case getAccounts env (dbService s) of
        (Inl e, svc1) \<Rightarrow> (Inl e, s\<lparr>dbService := svc1\<rparr>)
      | (Inr accounts, svc1) \<Rightarrow>
          (case scanEach env sc accounts [] (s\<lparr>dbService := svc1\<rparr>) of
             (allFindings, s1) \<Rightarrow> (Inr allFindings, s1)))"

text \<open>
  AWS and its SDK, as the orchestrator's scanners meet them: the client constructors at
  the time of each scan. A constructor gives the client, with the answers the service
  will give it, or throws.
\<close>

record aws =
  iamClient :: "nat \<Rightarrow> IAMClient client_constructor"
  cloudTrailClient :: "nat \<Rightarrow> CloudTrailClient client_constructor"
  cloudWatchClient :: "nat \<Rightarrow> CloudWatchClient client_constructor"
  kmsClient :: "nat \<Rightarrow> KMSClient client_constructor"
  guardDutyClient :: "nat \<Rightarrow> GuardDutyClient client_constructor"
  securityHubClient :: "nat \<Rightarrow> SecurityHubClient client_constructor"

text \<open>The six scanners the constructor of \<open>SecurityScanner\<close> creates.\<close>

definition constructor :: "aws \<Rightarrow> scanners" where
  "constructor w =
     \<lparr>iamScanner = (\<lambda>n account reg. IAMScanner_scan (iamClient w n) account reg),
      cloudTrailScanner = (\<lambda>n account reg. CloudTrailScanner_scan (cloudTrailClient w n) account reg),
      cloudWatchScanner = (\<lambda>n account reg. CloudWatchScanner_scan (cloudWatchClient w n) account reg),
      kmsScanner = (\<lambda>n account reg. KMSScanner_scan (kmsClient w n) account reg),
      guardDutyScanner = (\<lambda>n account reg. GuardDutyScanner_scan (guardDutyClient w n) account reg),
      securityHubScanner = (\<lambda>n account reg. SecurityHubScanner_scan (securityHubClient w n) account reg)\<rparr>"

text \<open>The position of each scan in the array given to \<open>Promise.all\<close>.\<close>

fun fan_out_index :: "probe \<Rightarrow> nat" where
  "fan_out_index IAM = 0"
| "fan_out_index CloudTrail = 1"
| "fan_out_index CloudWatch = 2"
| "fan_out_index KMS = 3"
| "fan_out_index GuardDuty = 4"
| "fan_out_index SecurityHub = 5"

text \<open>The finding a row of \<open>asset_findings\<close> holds: the columns the INSERT binds.\<close>

definition stored_finding :: "finding_row \<Rightarrow> RegionFinding" where
  "stored_finding row =
     \<lparr>resourceId = f_resource_id row, resourceType = f_resource_type row,
      resourceName = f_resource_name row, service = f_service row, severity = f_severity row,
      finding = f_finding row, description = f_description row, remediation = f_remediation row,
      region = f_region row\<rparr>"

section \<open>Concrete inputs\<close>

text \<open>A driver that refuses nothing, with a clock that ticks once per statement.\<close>

definition quiet :: sqlite_env where
  "quiet = \<lparr>fault = (\<lambda>n. None), now = (\<lambda>n. int n)\<rparr>"

text \<open>
  The database \<open>DatabaseService.initialize\<close> creates from an absent file, after one
  \<open>addRegion\<close> of us-east-1 for account 1.
\<close>

definition one_region :: database where
  "one_region =
     \<lparr>tabs = \<lparr>aws_accounts = [],
               aws_regions = [\<lparr>r_id = 1, r_account_id = 1, r_region = ''us-east-1'', r_enabled = True,
                               r_created_at = 1, r_updated_at = 1\<rparr>],
               asset_findings = [], seq_accounts = 0, seq_regions = 1, seq_findings = 0\<rparr>,
      journal = None, executed = [CreateTables, InsertRegion 1 ''us-east-1'' True],
      unique_regions = False\<rparr>"

text \<open>A driver that refuses the statement number \<open>k\<close> of the connection with an I/O error.\<close>

definition io_error :: js_error where
  "io_error = Error ''SQLITE_IOERR: disk I/O error''"

definition refusing :: "nat \<Rightarrow> sqlite_env" where
  "refusing k = \<lparr>fault = (\<lambda>n. if n = k then Some io_error else None), now = (\<lambda>n. int n)\<rparr>"

text \<open>
  A store with two accounts: prod (id 1) with two enabled regions and one finding, dev
  (id 2) with one region, not enabled, and one finding.
\<close>

definition prod_row :: account_row where
  "prod_row = \<lparr>a_id = 1, a_account_id = ''111122223333'', a_account_name = ''prod'',
     a_access_key_id = ''AKIAPROD'', a_secret_access_key = ''s3cret'', a_session_token = None,
     a_created_at = 0, a_updated_at = 0\<rparr>"

definition dev_row :: account_row where
  "dev_row = \<lparr>a_id = 2, a_account_id = ''444455556666'', a_account_name = ''dev'',
     a_access_key_id = ''AKIADEV'', a_secret_access_key = ''hunter2'', a_session_token = None,
     a_created_at = 0, a_updated_at = 0\<rparr>"

definition old_finding :: "int \<Rightarrow> int \<Rightarrow> finding_row" where
  "old_finding i acc = \<lparr>f_id = i, f_account_id = acc, f_region = ''us-east-1'',
     f_resource_id = ''account'', f_resource_type = ''IAM_ACCOUNT'', f_resource_name = Some ''Root Account'',
     f_service = ''IAM'', f_severity = ''HIGH'', f_finding = ''Root Account MFA Not Enabled'',
     f_description = ''d'', f_remediation = ''r'', f_created_at = 0, f_updated_at = 0\<rparr>"

definition sample_db :: database where
  "sample_db =
     \<lparr>tabs = \<lparr>aws_accounts = [prod_row, dev_row],
               aws_regions =
                 [\<lparr>r_id = 1, r_account_id = 1, r_region = ''us-east-1'', r_enabled = True,
                   r_created_at = 0, r_updated_at = 0\<rparr>,
                  \<lparr>r_id = 2, r_account_id = 1, r_region = ''eu-west-1'', r_enabled = True,
                   r_created_at = 0, r_updated_at = 0\<rparr>,
                  \<lparr>r_id = 3, r_account_id = 2, r_region = ''us-east-1'', r_enabled = False,
                   r_created_at = 0, r_updated_at = 0\<rparr>],
               asset_findings = [old_finding 1 1, old_finding 2 2],
               seq_accounts = 2, seq_regions = 3, seq_findings = 2\<rparr>,
      journal = None, executed = [], unique_regions = False\<rparr>"

text \<open>Errors of AWS, and scanners with fixed answers.\<close>

definition throttled :: js_error where
  "throttled = \<lparr>instanceofError = True, error_name = Some ''ThrottlingException'',
     message = ''Rate exceeded'', httpStatusCode = Some 400\<rparr>"

definition forbidden :: js_error where
  "forbidden = \<lparr>instanceofError = True, error_name = Some ''AccessDeniedException'',
     message = ''The security token included in the request is invalid'', httpStatusCode = Some 403\<rparr>"

definition sample_scanners :: scanners where
  "sample_scanners =
     \<lparr>iamScanner = (\<lambda>n account reg. Inl throttled),
      cloudTrailScanner = (\<lambda>n account reg. Inr [cloudtrail_not_configured]),
      cloudWatchScanner = (\<lambda>n account reg. Inr []),
      kmsScanner = (\<lambda>n account reg. Inr [kms_no_keys]),
      guardDutyScanner = (\<lambda>n account reg. Inr []),
      securityHubScanner = (\<lambda>n account reg. Inr [])\<rparr>"

definition denied_in_eu :: scanners where
  "denied_in_eu = sample_scanners\<lparr>guardDutyScanner :=
     (\<lambda>n account reg. if reg = ''eu-west-1'' then Inl forbidden else Inr [])\<rparr>"

definition prod_account :: AWSAccount where
  "prod_account = account_of_row prod_row"

definition us_east_1 :: region_row where
  "us_east_1 = \<lparr>r_id = 1, r_account_id = 1, r_region = ''us-east-1'', r_enabled = True,
                   r_created_at = 0, r_updated_at = 0\<rparr>"

definition eu_west_1 :: region_row where
  "eu_west_1 = \<lparr>r_id = 2, r_account_id = 1, r_region = ''eu-west-1'', r_enabled = True,
                   r_created_at = 0, r_updated_at = 0\<rparr>"

definition invalid_access :: js_error where
  "invalid_access = \<lparr>instanceofError = True, error_name = Some ''InvalidAccessException'',
     message = ''Account is not subscribed to AWS Security Hub'', httpStatusCode = Some 401\<rparr>"

definition no_provider :: js_error where
  "no_provider = \<lparr>instanceofError = True, error_name = Some ''CredentialsProviderError'',
     message = ''Could not load credentials from any providers'', httpStatusCode = None\<rparr>"

text \<open>The SDK's constructors: an empty region is refused, any other gives a client.\<close>

definition region_missing :: js_error where
  "region_missing = Error ''Region is missing''"

definition new_client :: "'client \<Rightarrow> 'client client_constructor" where
  "new_client client account reg = (if reg = [] then Inl region_missing else Inr client)"

definition sample_aws :: aws where
  "sample_aws =
     \<lparr>iamClient = (\<lambda>n. new_client
        \<lparr>GetAccountSummaryCommand = Inr None, ListUsersCommand = Inl throttled,
         ListAccessKeysCommand = (\<lambda>u. Inr None)\<rparr>),
      cloudTrailClient = (\<lambda>n. new_client
        \<lparr>DescribeTrailsCommand = Inr None, GetTrailStatusCommand = (\<lambda>t. Inr None)\<rparr>),
      cloudWatchClient = (\<lambda>n. new_client \<lparr>DescribeAlarmsCommand = Inl throttled\<rparr>),
      kmsClient = (\<lambda>n. new_client
        \<lparr>ListKeysCommand = Inr (Some []), DescribeKeyCommand = (\<lambda>k. Inr None)\<rparr>),
      guardDutyClient = (\<lambda>n. new_client
        \<lparr>ListDetectorsCommand = (if n = 0 then Inl throttled else Inr (Some [])),
         ListFindingsCommand = (\<lambda>d. Inr None), GetFindingsCommand = (\<lambda>d ids. Inr None)\<rparr>),
      securityHubClient = (\<lambda>n. new_client
        \<lparr>GetEnabledStandardsCommand = Inl invalid_access, SecurityHub_GetFindingsCommand = Inr None\<rparr>)\<rparr>"

text \<open>
  Clients whose second command of a loop is throttled: two users, two trails, two keys.
\<close>

definition alice :: iam_user where
  "alice = \<lparr>UserName = ''alice'', UserId = ''AIDA1'', PasswordLastUsed = None\<rparr>"

definition bob :: iam_user where
  "bob = \<lparr>UserName = ''bob'', UserId = ''AIDA2'', PasswordLastUsed = Some 1700000000\<rparr>"

definition two_users :: IAMClient where
  "two_users =
     \<lparr>GetAccountSummaryCommand = Inr None, ListUsersCommand = Inr (Some [alice, bob]),
      ListAccessKeysCommand = (\<lambda>u. if u = ''bob'' then Inl throttled else Inr None)\<rparr>"

definition main_trail :: trail where
  "main_trail = \<lparr>Name = Some ''main'', TrailARN = None, IsMultiRegionTrail = Some True,
     LogFileValidationEnabled = Some True\<rparr>"

definition audit_trail :: trail where
  "audit_trail = \<lparr>Name = Some ''audit'', TrailARN = None, IsMultiRegionTrail = Some True,
     LogFileValidationEnabled = Some True\<rparr>"

definition two_trails :: CloudTrailClient where
  "two_trails =
     \<lparr>DescribeTrailsCommand = Inr (Some [main_trail, audit_trail]),
      GetTrailStatusCommand = (\<lambda>n. if n = ''audit'' then Inl throttled else Inr (Some False))\<rparr>"

definition disabled_key :: key_metadata where
  "disabled_key = \<lparr>Arn = None, KeyId = Some ''k1'', KeyState = Some ''Disabled'',
     Origin = Some ''EXTERNAL''\<rparr>"

definition two_keys :: KMSClient where
  "two_keys =
     \<lparr>ListKeysCommand = Inr (Some [Some ''k1'', Some ''k2'']),
      DescribeKeyCommand = (\<lambda>k. if k = ''k2'' then Inl throttled else Inr (Some disabled_key))\<rparr>"

definition sample_findings :: "RegionFinding list" where
  "sample_findings =
     [stamp ''us-east-1'' cloudtrail_not_configured, stamp ''us-east-1'' kms_no_keys,
      stamp ''eu-west-1'' cloudtrail_not_configured, stamp ''eu-west-1'' kms_no_keys]"

section \<open>The store\<close>

lemma db_all_eq:
  "db_all env q rows db =
     ((case fault env (length (executed db)) of Some e \<Rightarrow> Inl e | None \<Rightarrow> Inr (rows (tabs db))),
      db\<lparr>executed := executed db @ [q]\<rparr>)"
  by (simp add: db_all_def Let_def split: option.splits)

lemma one_region_reached:
  "addRegion quiet 1 ''us-east-1'' True (snd (initialize quiet None)) = (Inr 1, Some one_region)"
  by (simp add: one_region_def addRegion_def initialize_def ensureInitialized_def db_run_def
      apply_sql_def Let_def quiet_def open_file_def empty_tables_def next_rowid_def)

subsection \<open>Falsy filters of getFindings\<close>

text \<open>
  C10. In \<open>getFindings\<close> a filter field whose value is falsy is treated as absent: with
  \<open>accountId\<close> 0, or with an empty \<open>region\<close>, \<open>service\<close> or \<open>severity\<close>, the call
  returns what it returns with the field omitted, and the WHERE clause never holds a
  condition on account id 0 or on an empty string, so no finding is selected by such a
  value.
\<close>

theorem getFindings_falsy_filter_absent:
  "getFindings env (fl\<lparr>filter_accountId := Some 0\<rparr>) svc = getFindings env (fl\<lparr>filter_accountId := None\<rparr>) svc
   \<and> getFindings env (fl\<lparr>filter_region := Some ''''\<rparr>) svc = getFindings env (fl\<lparr>filter_region := None\<rparr>) svc
   \<and> getFindings env (fl\<lparr>filter_service := Some ''''\<rparr>) svc = getFindings env (fl\<lparr>filter_service := None\<rparr>) svc
   \<and> getFindings env (fl\<lparr>filter_severity := Some ''''\<rparr>) svc = getFindings env (fl\<lparr>filter_severity := None\<rparr>) svc
   \<and> AccountIdEq 0 \<notin> set (conditions fl) \<and> RegionEq '''' \<notin> set (conditions fl)
   \<and> ServiceEq '''' \<notin> set (conditions fl) \<and> SeverityEq '''' \<notin> set (conditions fl)"
  by (auto simp add: getFindings_def conditions_def split: option.splits)

subsection \<open>Duplicate regions\<close>

text \<open>
  C6 says that adding a region whose (accountId, region) pair is already stored fails.
  On the table \<open>DatabaseService.initialize\<close> creates, which has no UNIQUE constraint on
  the pair, \<open>addRegion\<close> succeeds instead and appends a second row with the same pair.
\<close>

theorem addRegion_duplicate_pair_second_row:
  assumes "\<not> unique_regions db"
    and "fault env (length (executed db)) = None"
    and "(acc, reg) \<in> set (map (\<lambda>r. (r_account_id r, r_region r)) (aws_regions (tabs db)))"
  shows "\<exists>i db'. addRegion env acc reg en (Some db) = (Inr i, Some db')
           \<and> aws_regions (tabs db') = aws_regions (tabs db) @
                [\<lparr>r_id = i, r_account_id = acc, r_region = reg, r_enabled = en,
                  r_created_at = now env (length (executed db)),
                  r_updated_at = now env (length (executed db))\<rparr>]"
  using assms
  by (simp add: addRegion_def ensureInitialized_def db_run_def apply_sql_def Let_def)

theorem addRegion_duplicate_pair_second_row_witness:
  "\<not> unique_regions one_region
   \<and> fault quiet (length (executed one_region)) = None
   \<and> (1, ''us-east-1'') \<in> set (map (\<lambda>r. (r_account_id r, r_region r)) (aws_regions (tabs one_region)))
   \<and> (\<exists>i db'. addRegion quiet 1 ''us-east-1'' True (Some one_region) = (Inr i, Some db')
         \<and> aws_regions (tabs db') = aws_regions (tabs one_region) @
              [\<lparr>r_id = i, r_account_id = 1, r_region = ''us-east-1'', r_enabled = True,
                r_created_at = now quiet (length (executed one_region)),
                r_updated_at = now quiet (length (executed one_region))\<rparr>])"
proof -
  have h1: "\<not> unique_regions one_region"
    by (simp add: one_region_def)
  have h2: "fault quiet (length (executed one_region)) = None"
    by (simp add: quiet_def)
  have h3: "(1, ''us-east-1'') \<in> set (map (\<lambda>r. (r_account_id r, r_region r)) (aws_regions (tabs one_region)))"
    by (simp add: one_region_def)
  from addRegion_duplicate_pair_second_row [OF h1 h2 h3, of True] h1 h2 h3
  show ?thesis by blast
qed

text \<open>
  With the schema of \<open>initializeDatabase\<close> in src/db/schema.ts, which declares
  \<open>UNIQUE(account_id, region)\<close>, the same call is refused and the table keeps its rows.
\<close>

lemma initialize_schema:
  "unique_regions (the (snd (initialize env None))) = False
   \<and> unique_regions (snd (initializeDatabase env None)) = True"
  by (simp add: initialize_def initializeDatabase_def open_file_def db_run_def apply_sql_def
      await_def Let_def split: option.splits)

lemma addRegion_unique_schema_refuses:
  assumes "unique_regions db"
    and "(acc, reg) \<in> set (map (\<lambda>r. (r_account_id r, r_region r)) (aws_regions (tabs db)))"
  shows "\<exists>e db'. addRegion env acc reg en (Some db) = (Inl e, Some db') \<and> tabs db' = tabs db"
  using assms
  by (auto simp add: addRegion_def ensureInitialized_def db_run_def apply_sql_def Let_def
      split: option.splits)

subsection \<open>Account ids\<close>

text \<open>
  An id that \<open>addAccount\<close> hands out is positive, so no account it has stored has the
  id 0.
\<close>

lemma fold_max_lower: "(a::int) \<le> fold max ids a"
proof (induction ids arbitrary: a)
  case Nil
  then show ?case by simp
next
  case (Cons x xs)
  have "a \<le> max x a" by simp
  also have "\<dots> \<le> fold max xs (max x a)" by (rule Cons.IH)
  finally show ?case by simp
qed

lemma next_rowid_positive: "0 < next_rowid s ids"
  using fold_max_lower [of 0 ids] by (simp add: next_rowid_def)

lemma addAccount_id_positive:
  assumes "addAccount env aid aname key secret token svc = (Inr i, svc')"
  shows "0 < i"
  using assms next_rowid_positive
  by (auto simp add: addAccount_def ensureInitialized_def db_run_def apply_sql_def Let_def
      split: option.splits if_splits sum.splits prod.splits)

subsection \<open>Deleting an account\<close>

lemma db_run_failed:
  "db_run env q db = (Inl e, db') \<Longrightarrow> db' = db\<lparr>executed := executed db @ [q]\<rparr>"
  by (auto simp add: db_run_def Let_def split: option.splits sum.splits if_splits)

lemma db_run_delete:
  "q = DeleteFindingsByAccount i \<or> q = DeleteRegionsByAccount i \<or> q = DeleteAccountById i \<Longrightarrow>
   db_run env q db = (Inr x, db') \<Longrightarrow> journal db' = journal db"
  by (auto simp add: db_run_def apply_sql_def Let_def split: option.splits sum.splits if_splits)

lemma db_run_begin:
  "db_run env BeginTransaction db = (Inr x, db') \<Longrightarrow>
     journal db = None \<and> journal db' = Some (tabs db) \<and> tabs db' = tabs db"
  by (auto simp add: db_run_def apply_sql_def Let_def split: option.splits sum.splits if_splits)

lemma db_run_rollback:
  "journal db = Some t \<Longrightarrow>
   db_run env Rollback db = (Inr 0, db\<lparr>executed := executed db @ [Rollback], tabs := t, journal := None\<rparr>)"
  by (simp add: db_run_def apply_sql_def Let_def)

lemma deleteAccount_try_failed:
  assumes "deleteAccount_try env i db = (Inl e, db')"
  shows "journal db' = journal db"
  using assms
  apply (simp add: deleteAccount_try_def await_def split: prod.splits sum.splits)
  apply (auto dest!: db_run_failed db_run_delete[OF disjI1[OF refl]] db_run_delete[OF disjI2[OF disjI1[OF refl]]] db_run_delete[OF disjI2[OF disjI2[OF refl]]])
  done

lemma deleteAccount_try_done:
  assumes "deleteAccount_try env i db = (Inr u, db')"
  shows "asset_findings (tabs db') = filter (\<lambda>f. f_account_id f \<noteq> i) (asset_findings (tabs db))
       \<and> aws_regions (tabs db') = filter (\<lambda>r. r_account_id r \<noteq> i) (aws_regions (tabs db))
       \<and> aws_accounts (tabs db') = filter (\<lambda>a. a_id a \<noteq> i) (aws_accounts (tabs db))
       \<and> journal db' = None"
  using assms
  by (auto simp add: deleteAccount_try_def await_def db_run_def apply_sql_def Let_def
      split: prod.splits sum.splits option.splits if_splits)

lemma select_findings_deleted:
  assumes "i \<noteq> 0" and "filter_accountId fl = Some i"
    and "asset_findings t = filter (\<lambda>f. f_account_id f \<noteq> i) fs"
  shows "select_findings (conditions fl) t = []"
proof -
  have "AccountIdEq i \<in> set (conditions fl)"
    using assms(1,2) by (simp add: conditions_def)
  then have "\<And>f. f_account_id f \<noteq> i \<Longrightarrow> \<not> list_all (\<lambda>c. holds c f) (conditions fl)"
    by (force simp add: list_all_iff)
  then have "filter (\<lambda>f. list_all (\<lambda>c. holds c f) (conditions fl)) (asset_findings t) = []"
    by (auto simp add: assms(3) filter_empty_conv)
  then show ?thesis
    by (simp add: select_findings_def)
qed

text \<open>
  C5. Account deletion is an atomic cascade. When \<open>deleteAccount\<close> succeeds, the rows
  of the account are gone from the three tables and every other row is kept, and a
  findings query for that account id then returns the empty list (for an id other than
  0, which \<open>getFindings\<close> reads as "no filter"; AUTOINCREMENT ids start at 1). When it
  fails, at whichever statement, the three tables and their counters are what they
  were before the call.
\<close>

theorem deleteAccount_atomic_cascade:
  "case deleteAccount env i (Some db) of (res, svc') \<Rightarrow>
     (\<exists>db'. svc' = Some db' \<and>
        (case res of
           Inr _ \<Rightarrow>
             asset_findings (tabs db') = filter (\<lambda>f. f_account_id f \<noteq> i) (asset_findings (tabs db))
             \<and> aws_regions (tabs db') = filter (\<lambda>r. r_account_id r \<noteq> i) (aws_regions (tabs db))
             \<and> aws_accounts (tabs db') = filter (\<lambda>a. a_id a \<noteq> i) (aws_accounts (tabs db))
             \<and> journal db' = None
             \<and> (i \<noteq> 0 \<and> filter_accountId fl = Some i \<and> fault env (length (executed db')) = None
                  \<longrightarrow> fst (getFindings env fl svc') = Inr [])
         | Inl _ \<Rightarrow> tabs db' = tabs db \<and> journal db' = journal db))"
proof (cases "db_run env BeginTransaction db")
  case (Pair r1 db1)
  show ?thesis
  proof (cases r1)
    case (Inl e)
    with Pair have "db1 = db\<lparr>executed := executed db @ [BeginTransaction]\<rparr>"
      by (simp add: db_run_failed)
    with Pair Inl show ?thesis
      by (simp add: deleteAccount_def ensureInitialized_def await_def)
  next
    case (Inr x)
    with Pair have b: "journal db = None" "journal db1 = Some (tabs db)" "tabs db1 = tabs db"
      using db_run_begin by blast+
    show ?thesis
    proof (cases "deleteAccount_try env i db1")
      case T: (Pair r2 db2)
      show ?thesis
      proof (cases r2)
        case F: (Inl e)
        with T have "journal db2 = Some (tabs db)"
          using deleteAccount_try_failed b(2) by metis
        then have "db_run env Rollback db2 =
            (Inr 0, db2\<lparr>executed := executed db2 @ [Rollback], tabs := tabs db, journal := None\<rparr>)"
          by (rule db_run_rollback)
        with Pair Inr T F b(1) show ?thesis
          by (simp add: deleteAccount_def ensureInitialized_def await_def)
      next
        case D: (Inr u)
        with T have d: "asset_findings (tabs db2) = filter (\<lambda>f. f_account_id f \<noteq> i) (asset_findings (tabs db))"
          "aws_regions (tabs db2) = filter (\<lambda>r. r_account_id r \<noteq> i) (aws_regions (tabs db))"
          "aws_accounts (tabs db2) = filter (\<lambda>a. a_id a \<noteq> i) (aws_accounts (tabs db))"
          "journal db2 = None"
          using deleteAccount_try_done [of env i db1 u db2] b(3) by simp_all
        have q: "i \<noteq> 0 \<and> filter_accountId fl = Some i \<and> fault env (length (executed db2)) = None
                  \<longrightarrow> fst (getFindings env fl (Some db2)) = Inr []"
          using select_findings_deleted [OF _ _ d(1)]
          by (simp add: getFindings_def ensureInitialized_def db_all_eq)
        from Pair Inr T D d q show ?thesis
          by (simp add: deleteAccount_def ensureInitialized_def await_def)
      qed
    qed
  qed
qed

lemmas store_defs = deleteAccount_def deleteAccount_try_def ensureInitialized_def await_def db_run_def db_all_eq
  apply_sql_def Let_def refusing_def quiet_def sample_db_def io_error_def

theorem deleteAccount_atomic_cascade_witness:
  "fst (deleteAccount (refusing 2) 1 (Some sample_db)) = Inl io_error
   \<and> executed (the (snd (deleteAccount (refusing 2) 1 (Some sample_db))))
       = [BeginTransaction, DeleteFindingsByAccount 1, DeleteRegionsByAccount 1, Rollback]
   \<and> tabs (the (snd (deleteAccount (refusing 2) 1 (Some sample_db)))) = tabs sample_db
   \<and> fst (deleteAccount quiet 1 (Some sample_db)) = Inr ()
   \<and> asset_findings (tabs (the (snd (deleteAccount quiet 1 (Some sample_db))))) = [old_finding 2 2]
   \<and> map r_id (aws_regions (tabs (the (snd (deleteAccount quiet 1 (Some sample_db)))))) = [3]
   \<and> aws_accounts (tabs (the (snd (deleteAccount quiet 1 (Some sample_db))))) = [dev_row]
   \<and> fst (getFindings quiet \<lparr>filter_accountId = Some 1, filter_region = None, filter_service = None,
             filter_severity = None\<rparr> (snd (deleteAccount quiet 1 (Some sample_db)))) = Inr []"
proof -
  have failing: "deleteAccount (refusing 2) 1 (Some sample_db) =
      (Inl io_error, Some (sample_db\<lparr>executed :=
         [BeginTransaction, DeleteFindingsByAccount 1, DeleteRegionsByAccount 1, Rollback]\<rparr>))"
    by (simp add: store_defs)
  have working: "fst (deleteAccount quiet 1 (Some sample_db)) = Inr ()"
    "executed (the (snd (deleteAccount quiet 1 (Some sample_db)))) =
       [BeginTransaction, DeleteFindingsByAccount 1, DeleteRegionsByAccount 1, DeleteAccountById 1, Commit]"
    by (simp_all add: store_defs)
  have rows: "filter (\<lambda>f. f_account_id f \<noteq> 1) (asset_findings (tabs sample_db)) = [old_finding 2 2]"
    "map r_id (filter (\<lambda>r. r_account_id r \<noteq> 1) (aws_regions (tabs sample_db))) = [3]"
    "filter (\<lambda>a. a_id a \<noteq> 1) (aws_accounts (tabs sample_db)) = [dev_row]"
    by (simp_all add: sample_db_def old_finding_def prod_row_def dev_row_def)
  from deleteAccount_atomic_cascade [where env = "refusing 2" and i = 1 and db = sample_db] failing
  have a: "tabs (the (snd (deleteAccount (refusing 2) 1 (Some sample_db)))) = tabs sample_db"
    by simp
  from deleteAccount_atomic_cascade [where env = quiet and i = 1 and db = sample_db and fl =
      "\<lparr>filter_accountId = Some 1, filter_region = None, filter_service = None, filter_severity = None\<rparr>"]
    working rows
  have b: "asset_findings (tabs (the (snd (deleteAccount quiet 1 (Some sample_db))))) = [old_finding 2 2]
   \<and> map r_id (aws_regions (tabs (the (snd (deleteAccount quiet 1 (Some sample_db)))))) = [3]
   \<and> aws_accounts (tabs (the (snd (deleteAccount quiet 1 (Some sample_db))))) = [dev_row]
   \<and> fst (getFindings quiet \<lparr>filter_accountId = Some 1, filter_region = None, filter_service = None,
             filter_severity = None\<rparr> (snd (deleteAccount quiet 1 (Some sample_db)))) = Inr []"
    by (auto simp add: quiet_def split: prod.splits sum.splits)
  from failing working a b show ?thesis by simp
qed

subsection \<open>The bulk insert of findings\<close>

lemma db_run_insert_finding:
  assumes "db_run env (InsertFinding acc f) db = (Inr x, db')"
  shows "\<exists>row. asset_findings (tabs db') = asset_findings (tabs db) @ [row]
           \<and> stored_finding row = f \<and> f_account_id row = acc
           \<and> aws_accounts (tabs db') = aws_accounts (tabs db)
           \<and> aws_regions (tabs db') = aws_regions (tabs db)
           \<and> journal db' = journal db"
  using assms
  by (auto simp add: db_run_def apply_sql_def Let_def stored_finding_def
      split: option.splits sum.splits if_splits)

lemma stmt_run_each_prefix:
  "stmt_run_each env acc fs db = (res, db') \<Longrightarrow>
     \<exists>k rows. k \<le> length fs
       \<and> asset_findings (tabs db') = asset_findings (tabs db) @ rows
       \<and> map stored_finding rows = take k fs
       \<and> list_all (\<lambda>row. f_account_id row = acc) rows
       \<and> (res = Inr () \<longrightarrow> k = length fs)
       \<and> aws_accounts (tabs db') = aws_accounts (tabs db)
       \<and> aws_regions (tabs db') = aws_regions (tabs db)
       \<and> journal db' = journal db"
proof (induction fs arbitrary: db)
  case Nil
  then show ?case by auto
next
  case (Cons f fs)
  obtain r1 db1 where run: "db_run env (InsertFinding acc f) db = (r1, db1)"
    by (cases "db_run env (InsertFinding acc f) db")
  show ?case
  proof (cases r1)
    case (Inl e)
    with run have "db1 = db\<lparr>executed := executed db @ [InsertFinding acc f]\<rparr>"
      by (simp add: db_run_failed)
    with Cons.prems run Inl have "res = Inl e" "tabs db' = tabs db" "journal db' = journal db"
      by auto
    then have "0 \<le> length (f # fs) \<and> asset_findings (tabs db') = asset_findings (tabs db) @ []
       \<and> map stored_finding [] = take 0 (f # fs) \<and> list_all (\<lambda>row. f_account_id row = acc) []
       \<and> (res = Inr () \<longrightarrow> 0 = length (f # fs))
       \<and> aws_accounts (tabs db') = aws_accounts (tabs db)
       \<and> aws_regions (tabs db') = aws_regions (tabs db)
       \<and> journal db' = journal db"
      by simp
    then show ?thesis by blast
  next
    case (Inr x)
    with run obtain row where row: "asset_findings (tabs db1) = asset_findings (tabs db) @ [row]"
        "stored_finding row = f" "f_account_id row = acc"
        "aws_accounts (tabs db1) = aws_accounts (tabs db)"
        "aws_regions (tabs db1) = aws_regions (tabs db)" "journal db1 = journal db"
      using db_run_insert_finding by blast
    from Cons.prems run Inr have "stmt_run_each env acc fs db1 = (res, db')"
      by simp
    from Cons.IH [OF this] obtain k rows where ih: "k \<le> length fs"
        "asset_findings (tabs db') = asset_findings (tabs db1) @ rows"
        "map stored_finding rows = take k fs" "list_all (\<lambda>row. f_account_id row = acc) rows"
        "res = Inr () \<longrightarrow> k = length fs"
        "aws_accounts (tabs db') = aws_accounts (tabs db1)"
        "aws_regions (tabs db') = aws_regions (tabs db1)" "journal db' = journal db1"
      by blast
    with row have "Suc k \<le> length (f # fs)
       \<and> asset_findings (tabs db') = asset_findings (tabs db) @ (row # rows)
       \<and> map stored_finding (row # rows) = take (Suc k) (f # fs)
       \<and> list_all (\<lambda>row. f_account_id row = acc) (row # rows)
       \<and> (res = Inr () \<longrightarrow> Suc k = length (f # fs))
       \<and> aws_accounts (tabs db') = aws_accounts (tabs db)
       \<and> aws_regions (tabs db') = aws_regions (tabs db)
       \<and> journal db' = journal db"
      by simp
    then show ?thesis by blast
  qed
qed

lemma db_run_prepare_finalize:
  "q = PrepareInsertFinding \<or> q = FinalizeStatement \<Longrightarrow> db_run env q db = (r, db') \<Longrightarrow>
     tabs db' = tabs db \<and> journal db' = journal db"
  by (auto simp add: db_run_def apply_sql_def Let_def split: option.splits sum.splits if_splits)

lemma storeFindingsForAccount_prefix:
  assumes "storeFindingsForAccount env acc fs (Some db) = (res, svc')"
  shows "\<exists>db' k rows. svc' = Some db' \<and> k \<le> length fs
       \<and> asset_findings (tabs db') = asset_findings (tabs db) @ rows
       \<and> map stored_finding rows = take k fs
       \<and> list_all (\<lambda>row. f_account_id row = acc) rows
       \<and> (res = Inr () \<longrightarrow> k = length fs)
       \<and> aws_accounts (tabs db') = aws_accounts (tabs db)
       \<and> aws_regions (tabs db') = aws_regions (tabs db)
       \<and> journal db' = journal db"
proof -
  obtain r1 db1 where p: "db_run env PrepareInsertFinding db = (r1, db1)"
    by (cases "db_run env PrepareInsertFinding db")
  then have t1: "tabs db1 = tabs db" "journal db1 = journal db"
    using db_run_prepare_finalize by blast+
  show ?thesis
  proof (cases r1)
    case (Inl e)
    with assms p t1 have "svc' = Some db1 \<and> 0 \<le> length fs
       \<and> asset_findings (tabs db1) = asset_findings (tabs db) @ []
       \<and> map stored_finding [] = take 0 fs
       \<and> list_all (\<lambda>row. f_account_id row = acc) []
       \<and> (res = Inr () \<longrightarrow> 0 = length fs)
       \<and> aws_accounts (tabs db1) = aws_accounts (tabs db)
       \<and> aws_regions (tabs db1) = aws_regions (tabs db)
       \<and> journal db1 = journal db"
      by (auto simp add: storeFindingsForAccount_def ensureInitialized_def await_def)
    then show ?thesis by blast
  next
    case (Inr x)
    obtain r2 db2 where l: "stmt_run_each env acc fs db1 = (r2, db2)"
      by (cases "stmt_run_each env acc fs db1")
    from stmt_run_each_prefix [OF l] t1 obtain k rows where kr: "k \<le> length fs"
        "asset_findings (tabs db2) = asset_findings (tabs db) @ rows"
        "map stored_finding rows = take k fs" "list_all (\<lambda>row. f_account_id row = acc) rows"
        "r2 = Inr () \<longrightarrow> k = length fs"
        "aws_accounts (tabs db2) = aws_accounts (tabs db)"
        "aws_regions (tabs db2) = aws_regions (tabs db)" "journal db2 = journal db"
      by auto
    show ?thesis
    proof (cases r2)
      case e: (Inl e)
      with assms p Inr l have "svc' = Some db2" "res = Inl e"
        by (simp_all add: storeFindingsForAccount_def ensureInitialized_def await_def)
      with kr show ?thesis by blast
    next
      case u: (Inr u)
      obtain r3 db3 where f: "db_run env FinalizeStatement db2 = (r3, db3)"
        by (cases "db_run env FinalizeStatement db2")
      then have t3: "tabs db3 = tabs db2" "journal db3 = journal db2"
        using db_run_prepare_finalize by blast+
      from assms p Inr l u f have "svc' = Some db3"
        by (auto simp add: storeFindingsForAccount_def ensureInitialized_def await_def split: sum.splits)
      with kr u t3 show ?thesis by auto
    qed
  qed
qed

lemma db_run_insert_accepted:
  assumes "fault env (length (executed db)) = None" and "severity_check (severity f)"
  shows "\<exists>x db' row. db_run env (InsertFinding acc f) db = (Inr x, db')
           \<and> asset_findings (tabs db') = asset_findings (tabs db) @ [row]
           \<and> stored_finding row = f \<and> f_account_id row = acc
           \<and> executed db' = executed db @ [InsertFinding acc f]
           \<and> aws_accounts (tabs db') = aws_accounts (tabs db)
           \<and> aws_regions (tabs db') = aws_regions (tabs db)
           \<and> journal db' = journal db"
  using assms by (simp add: db_run_def apply_sql_def Let_def stored_finding_def)

lemma db_run_insert_refused:
  assumes "\<not> (fault env (length (executed db)) = None \<and> severity_check (severity f))"
  shows "\<exists>e. db_run env (InsertFinding acc f) db = (Inl e, db\<lparr>executed := executed db @ [InsertFinding acc f]\<rparr>)
           \<and> (\<forall>e'. fault env (length (executed db)) = Some e' \<longrightarrow> e = e')"
  using assms by (auto simp add: db_run_def apply_sql_def Let_def split: option.splits)

lemma stmt_run_each_first_refused:
  assumes "j < length fs"
    and "\<forall>m<j. fault env (length (executed db) + m) = None \<and> severity_check (severity (fs ! m))"
    and "\<not> (fault env (length (executed db) + j) = None \<and> severity_check (severity (fs ! j)))"
  shows "\<exists>e db' rows. stmt_run_each env acc fs db = (Inl e, db')
           \<and> asset_findings (tabs db') = asset_findings (tabs db) @ rows
           \<and> map stored_finding rows = take j fs
           \<and> list_all (\<lambda>row. f_account_id row = acc) rows
           \<and> executed db' = executed db @ map (InsertFinding acc) (take (Suc j) fs)
           \<and> (\<forall>e'. fault env (length (executed db) + j) = Some e' \<longrightarrow> e = e')
           \<and> aws_accounts (tabs db') = aws_accounts (tabs db)
           \<and> aws_regions (tabs db') = aws_regions (tabs db)
           \<and> journal db' = journal db"
  using assms
proof (induction fs arbitrary: db j)
  case Nil
  then show ?case by simp
next
  case (Cons f fs)
  show ?case
  proof (cases j)
    case 0
    with Cons.prems(3) have "\<not> (fault env (length (executed db)) = None \<and> severity_check (severity f))"
      by simp
    from db_run_insert_refused [OF this, of acc] obtain e where
      e: "db_run env (InsertFinding acc f) db = (Inl e, db\<lparr>executed := executed db @ [InsertFinding acc f]\<rparr>)"
         "\<forall>e'. fault env (length (executed db)) = Some e' \<longrightarrow> e = e'"
      by blast
    let ?db' = "db\<lparr>executed := executed db @ [InsertFinding acc f]\<rparr>"
    from e 0 have "stmt_run_each env acc (f # fs) db = (Inl e, ?db')
           \<and> asset_findings (tabs ?db') = asset_findings (tabs db) @ []
           \<and> map stored_finding [] = take j (f # fs)
           \<and> list_all (\<lambda>row. f_account_id row = acc) []
           \<and> executed ?db' = executed db @ map (InsertFinding acc) (take (Suc j) (f # fs))
           \<and> (\<forall>e'. fault env (length (executed db) + j) = Some e' \<longrightarrow> e = e')
           \<and> aws_accounts (tabs ?db') = aws_accounts (tabs db)
           \<and> aws_regions (tabs ?db') = aws_regions (tabs db)
           \<and> journal ?db' = journal db"
      by simp
    then show ?thesis by blast
  next
    case (Suc i)
    from Cons.prems(2) Suc have "fault env (length (executed db)) = None \<and> severity_check (severity f)"
      by (metis add.right_neutral nth_Cons_0 zero_less_Suc)
    from db_run_insert_accepted [OF conjunct1 [OF this] conjunct2 [OF this], of acc]
    obtain x db1 row where run: "db_run env (InsertFinding acc f) db = (Inr x, db1)"
        "asset_findings (tabs db1) = asset_findings (tabs db) @ [row]"
        "stored_finding row = f" "f_account_id row = acc"
        "executed db1 = executed db @ [InsertFinding acc f]"
        "aws_accounts (tabs db1) = aws_accounts (tabs db)"
        "aws_regions (tabs db1) = aws_regions (tabs db)" "journal db1 = journal db"
      by blast
    have len: "length (executed db1) = Suc (length (executed db))"
      using run(5) by simp
    have p1: "i < length fs" using Cons.prems(1) Suc by simp
    have p2: "\<forall>m<i. fault env (length (executed db1) + m) = None \<and> severity_check (severity (fs ! m))"
    proof (intro allI impI)
      fix m assume "m < i"
      then have "Suc m < j" using Suc by simp
      with Cons.prems(2) have "fault env (length (executed db) + Suc m) = None
          \<and> severity_check (severity ((f # fs) ! Suc m))"
        by blast
      then show "fault env (length (executed db1) + m) = None \<and> severity_check (severity (fs ! m))"
        using len by simp
    qed
    have p3: "\<not> (fault env (length (executed db1) + i) = None \<and> severity_check (severity (fs ! i)))"
      using Cons.prems(3) Suc len by simp
    from Cons.IH [OF p1 p2 p3] obtain e db' rows where ih:
        "stmt_run_each env acc fs db1 = (Inl e, db')"
        "asset_findings (tabs db') = asset_findings (tabs db1) @ rows"
        "map stored_finding rows = take i fs"
        "list_all (\<lambda>row. f_account_id row = acc) rows"
        "executed db' = executed db1 @ map (InsertFinding acc) (take (Suc i) fs)"
        "\<forall>e'. fault env (length (executed db1) + i) = Some e' \<longrightarrow> e = e'"
        "aws_accounts (tabs db') = aws_accounts (tabs db1)"
        "aws_regions (tabs db') = aws_regions (tabs db1)" "journal db' = journal db1"
      by blast
    from run ih Suc len have "stmt_run_each env acc (f # fs) db = (Inl e, db')
           \<and> asset_findings (tabs db') = asset_findings (tabs db) @ (row # rows)
           \<and> map stored_finding (row # rows) = take j (f # fs)
           \<and> list_all (\<lambda>row. f_account_id row = acc) (row # rows)
           \<and> executed db' = executed db @ map (InsertFinding acc) (take (Suc j) (f # fs))
           \<and> (\<forall>e'. fault env (length (executed db) + j) = Some e' \<longrightarrow> e = e')
           \<and> aws_accounts (tabs db') = aws_accounts (tabs db)
           \<and> aws_regions (tabs db') = aws_regions (tabs db)
           \<and> journal db' = journal db"
      by simp
    then show ?thesis by blast
  qed
qed

lemma stmt_run_each_all_accepted:
  assumes "\<forall>m<length fs. fault env (length (executed db) + m) = None \<and> severity_check (severity (fs ! m))"
  shows "\<exists>db' rows. stmt_run_each env acc fs db = (Inr (), db')
           \<and> asset_findings (tabs db') = asset_findings (tabs db) @ rows
           \<and> map stored_finding rows = fs
           \<and> list_all (\<lambda>row. f_account_id row = acc) rows
           \<and> executed db' = executed db @ map (InsertFinding acc) fs
           \<and> aws_accounts (tabs db') = aws_accounts (tabs db)
           \<and> aws_regions (tabs db') = aws_regions (tabs db)
           \<and> journal db' = journal db"
  using assms
proof (induction fs arbitrary: db)
  case Nil
  then show ?case by simp
next
  case (Cons f fs)
  from Cons.prems have "fault env (length (executed db)) = None \<and> severity_check (severity f)"
    by (metis add.right_neutral length_greater_0_conv list.distinct(1) nth_Cons_0)
  from db_run_insert_accepted [OF conjunct1 [OF this] conjunct2 [OF this], of acc]
  obtain x db1 row where run: "db_run env (InsertFinding acc f) db = (Inr x, db1)"
      "asset_findings (tabs db1) = asset_findings (tabs db) @ [row]"
      "stored_finding row = f" "f_account_id row = acc"
      "executed db1 = executed db @ [InsertFinding acc f]"
      "aws_accounts (tabs db1) = aws_accounts (tabs db)"
      "aws_regions (tabs db1) = aws_regions (tabs db)" "journal db1 = journal db"
    by blast
  have len: "length (executed db1) = Suc (length (executed db))"
    using run(5) by simp
  have p: "\<forall>m<length fs. fault env (length (executed db1) + m) = None \<and> severity_check (severity (fs ! m))"
  proof (intro allI impI)
    fix m assume "m < length fs"
    then have "Suc m < length (f # fs)" by simp
    with Cons.prems have "fault env (length (executed db) + Suc m) = None
        \<and> severity_check (severity ((f # fs) ! Suc m))"
      by blast
    then show "fault env (length (executed db1) + m) = None \<and> severity_check (severity (fs ! m))"
      using len by simp
  qed
  from Cons.IH [OF p] obtain db' rows where ih:
      "stmt_run_each env acc fs db1 = (Inr (), db')"
      "asset_findings (tabs db') = asset_findings (tabs db1) @ rows"
      "map stored_finding rows = fs"
      "list_all (\<lambda>row. f_account_id row = acc) rows"
      "executed db' = executed db1 @ map (InsertFinding acc) fs"
      "aws_accounts (tabs db') = aws_accounts (tabs db1)"
      "aws_regions (tabs db') = aws_regions (tabs db1)" "journal db' = journal db1"
    by blast
  from run ih have "stmt_run_each env acc (f # fs) db = (Inr (), db')
           \<and> asset_findings (tabs db') = asset_findings (tabs db) @ (row # rows)
           \<and> map stored_finding (row # rows) = f # fs
           \<and> list_all (\<lambda>row. f_account_id row = acc) (row # rows)
           \<and> executed db' = executed db @ map (InsertFinding acc) (f # fs)
           \<and> aws_accounts (tabs db') = aws_accounts (tabs db)
           \<and> aws_regions (tabs db') = aws_regions (tabs db)
           \<and> journal db' = journal db"
    by simp
  then show ?case by (intro exI)
qed


lemma db_run_prepare:
  "db_run env PrepareInsertFinding db =
     ((case fault env (length (executed db)) of Some e \<Rightarrow> Inl e | None \<Rightarrow> Inr 0),
      db\<lparr>executed := executed db @ [PrepareInsertFinding]\<rparr>)"
  by (simp add: db_run_def apply_sql_def Let_def split: option.splits)

lemma db_run_finalize:
  "db_run env FinalizeStatement db =
     ((case fault env (length (executed db)) of Some e \<Rightarrow> Inl e | None \<Rightarrow> Inr 0),
      db\<lparr>executed := executed db @ [FinalizeStatement]\<rparr>)"
  by (simp add: db_run_def apply_sql_def Let_def split: option.splits)

lemma storeFindingsForAccount_prepare_refused:
  assumes "fault env (length (executed db)) = Some e"
  shows "storeFindingsForAccount env acc fs (Some db) =
           (Inl e, Some (db\<lparr>executed := executed db @ [PrepareInsertFinding]\<rparr>))"
  using assms
  by (simp add: storeFindingsForAccount_def ensureInitialized_def await_def db_run_prepare)

lemma storeFindingsForAccount_first_refused:
  assumes "fault env (length (executed db)) = None"
    and "j < length fs"
    and "\<forall>m<j. fault env (length (executed db) + 1 + m) = None \<and> severity_check (severity (fs ! m))"
    and "\<not> (fault env (length (executed db) + 1 + j) = None \<and> severity_check (severity (fs ! j)))"
  shows "\<exists>e db' rows. storeFindingsForAccount env acc fs (Some db) = (Inl e, Some db')
           \<and> asset_findings (tabs db') = asset_findings (tabs db) @ rows
           \<and> map stored_finding rows = take j fs
           \<and> list_all (\<lambda>row. f_account_id row = acc) rows
           \<and> executed db' = executed db @ PrepareInsertFinding # map (InsertFinding acc) (take (Suc j) fs)
           \<and> (\<forall>e'. fault env (length (executed db) + 1 + j) = Some e' \<longrightarrow> e = e')"
proof -
  let ?db1 = "db\<lparr>executed := executed db @ [PrepareInsertFinding]\<rparr>"
  have len: "length (executed ?db1) = length (executed db) + 1"
    by simp
  from stmt_run_each_first_refused [of j fs env ?db1 acc] assms(2,3,4)
  obtain e db' rows where r: "stmt_run_each env acc fs ?db1 = (Inl e, db')"
      "asset_findings (tabs db') = asset_findings (tabs ?db1) @ rows"
      "map stored_finding rows = take j fs"
      "list_all (\<lambda>row. f_account_id row = acc) rows"
      "executed db' = executed ?db1 @ map (InsertFinding acc) (take (Suc j) fs)"
      "\<forall>e'. fault env (length (executed ?db1) + j) = Some e' \<longrightarrow> e = e'"
    unfolding len by blast
  from assms(1) r(1) have "storeFindingsForAccount env acc fs (Some db) = (Inl e, Some db')"
    by (simp add: storeFindingsForAccount_def ensureInitialized_def await_def db_run_prepare)
  with r show ?thesis by simp
qed

lemma storeFindingsForAccount_all_accepted:
  assumes "fault env (length (executed db)) = None"
    and "\<forall>m<length fs. fault env (length (executed db) + 1 + m) = None \<and> severity_check (severity (fs ! m))"
  shows "\<exists>db' rows. storeFindingsForAccount env acc fs (Some db) =
             ((case fault env (length (executed db) + 1 + length fs) of Some e \<Rightarrow> Inl e | None \<Rightarrow> Inr ()),
              Some db')
           \<and> asset_findings (tabs db') = asset_findings (tabs db) @ rows
           \<and> map stored_finding rows = fs
           \<and> list_all (\<lambda>row. f_account_id row = acc) rows
           \<and> executed db' = executed db @ PrepareInsertFinding # map (InsertFinding acc) fs @ [FinalizeStatement]"
proof -
  let ?db1 = "db\<lparr>executed := executed db @ [PrepareInsertFinding]\<rparr>"
  have len: "length (executed ?db1) = length (executed db) + 1"
    by simp
  from stmt_run_each_all_accepted [of fs env ?db1 acc] assms(2)
  obtain db2 rows where r: "stmt_run_each env acc fs ?db1 = (Inr (), db2)"
      "asset_findings (tabs db2) = asset_findings (tabs ?db1) @ rows"
      "map stored_finding rows = fs"
      "list_all (\<lambda>row. f_account_id row = acc) rows"
      "executed db2 = executed ?db1 @ map (InsertFinding acc) fs"
    unfolding len by blast
  let ?db3 = "db2\<lparr>executed := executed db2 @ [FinalizeStatement]\<rparr>"
  have len2: "length (executed db2) = length (executed db) + 1 + length fs"
    using r(5) by simp
  from assms(1) r(1) have "storeFindingsForAccount env acc fs (Some db) =
             ((case fault env (length (executed db) + 1 + length fs) of Some e \<Rightarrow> Inl e | None \<Rightarrow> Inr ()),
              Some ?db3)"
    by (simp add: storeFindingsForAccount_def ensureInitialized_def await_def db_run_prepare
        db_run_finalize len2 split: option.splits)
  with r show ?thesis by simp
qed

section \<open>The orchestrator\<close>

lemma fan_out_eq:
  "fan_out sc account reg calls =
     (map (\<lambda>p. catch_empty (scanner_of sc p (length calls + fan_out_index p) account reg))
        [IAM, CloudTrail, CloudWatch, KMS, GuardDuty, SecurityHub],
      calls @ [(IAM, reg), (CloudTrail, reg), (CloudWatch, reg), (KMS, reg), (GuardDuty, reg), (SecurityHub, reg)])"
  by (simp add: fan_out_def invoke_def eval_nat_numeral)

lemma scanRegion_eq:
  "scanRegion sc account reg calls =
     (if (case guardDutyScanner sc (length calls) account reg of Inl error \<Rightarrow> credential_class error | Inr _ \<Rightarrow> False)
      then (Inl (Error (''Invalid AWS credentials for account '' @ accountName account)), calls @ [(GuardDuty, reg)])
      else (Inr (map (stamp reg) (concat (map (\<lambda>p. catch_empty (scanner_of sc p (Suc (length calls) + fan_out_index p) account reg))
                [IAM, CloudTrail, CloudWatch, KMS, GuardDuty, SecurityHub]))),
            calls @ [(GuardDuty, reg), (IAM, reg), (CloudTrail, reg), (CloudWatch, reg), (KMS, reg), (GuardDuty, reg), (SecurityHub, reg)]))"
  by (simp add: scanRegion_def invoke_def fan_out_eq)

lemma probe_cases: "p \<in> set [IAM, CloudTrail, CloudWatch, KMS, GuardDuty, SecurityHub]"
  by (cases p) simp_all



lemma set_probes: "set [IAM, CloudTrail, CloudWatch, KMS, GuardDuty, SecurityHub] = UNIV"
  using probe_cases by blast

lemma set_stamped_concat:
  "set (map (stamp reg) (concat (map (\<lambda>p. catch_empty (out p)) [IAM, CloudTrail, CloudWatch, KMS, GuardDuty, SecurityHub])))
     = stamp reg ` (\<Union>p. set (catch_empty (out p)))"
  unfolding set_map set_concat image_image set_probes ..

lemma getAccount_found:
  assumes "find (\<lambda>a. a_id a = i) (aws_accounts (tabs db)) = Some row"
    and "fault env (length (executed db)) = None"
  shows "getAccount env i (Some db) =
           (Inr (Some (account_of_row row)), Some (db\<lparr>executed := executed db @ [SelectAccountById i]\<rparr>))"
  using assms by (simp add: getAccount_def ensureInitialized_def db_all_eq)

lemma getEnabledRegions_ok:
  assumes "fault env (length (executed db)) = None"
  shows "getEnabledRegions env i (Some db) =
           (Inr (filter (\<lambda>r. r_account_id r = i \<and> r_enabled r) (aws_regions (tabs db))),
            Some (db\<lparr>executed := executed db @ [SelectEnabledRegions i]\<rparr>))"
  using assms by (simp add: getEnabledRegions_def ensureInitialized_def db_all_eq)

lemma storeFindingsForAccount_nothing:
  assumes "fault env (length (executed db)) = None"
    and "fault env (Suc (length (executed db))) = None"
  shows "storeFindingsForAccount env i [] (Some db) =
           (Inr (), Some (db\<lparr>executed := executed db @ [PrepareInsertFinding, FinalizeStatement]\<rparr>))"
  using assms
  by (simp add: storeFindingsForAccount_def ensureInitialized_def await_def db_run_def apply_sql_def Let_def)

lemma scanAccount_persist:
  assumes "getAccount env i (dbService s) = (Inr (Some account), svc1)"
    and "getEnabledRegions env i svc1 = (Inr regions, svc2)"
    and "scanRegions sc account regions [] (invoked s) = (Inr fs, calls1)"
    and "storeFindingsForAccount env i fs svc2 = (res, svc3)"
  shows "scanAccount env sc i s =
           ((case res of Inl e \<Rightarrow> Inl e | Inr _ \<Rightarrow> Inr fs), \<lparr>dbService = svc3, invoked = calls1\<rparr>)"
  using assms by (simp add: scanAccount_def split: sum.splits)

lemma prod_regions:
  "filter (\<lambda>r. r_account_id r = 1 \<and> r_enabled r) (aws_regions (tabs sample_db)) = [us_east_1, eu_west_1]"
  by (simp add: sample_db_def us_east_1_def eu_west_1_def)

lemma prod_found: "find (\<lambda>a. a_id a = 1) (aws_accounts (tabs sample_db)) = Some prod_row"
  by (simp add: sample_db_def prod_row_def)

lemma dev_found: "find (\<lambda>a. a_id a = 2) (aws_accounts (tabs sample_db)) = Some dev_row"
  by (simp add: sample_db_def prod_row_def dev_row_def)

lemma dev_regions:
  "filter (\<lambda>r. r_account_id r = 2 \<and> r_enabled r) (aws_regions (tabs sample_db)) = []"
  by (simp add: sample_db_def)

lemma sample_regions_scanned:
  "scanRegions sample_scanners account [us_east_1, eu_west_1] [] [] =
     (Inr sample_findings,
      [(GuardDuty, ''us-east-1''), (IAM, ''us-east-1''), (CloudTrail, ''us-east-1''),
       (CloudWatch, ''us-east-1''), (KMS, ''us-east-1''), (GuardDuty, ''us-east-1''),
       (SecurityHub, ''us-east-1''),
       (GuardDuty, ''eu-west-1''), (IAM, ''eu-west-1''), (CloudTrail, ''eu-west-1''),
       (CloudWatch, ''eu-west-1''), (KMS, ''eu-west-1''), (GuardDuty, ''eu-west-1''),
       (SecurityHub, ''eu-west-1'')])"
  by (simp add: scanRegion_eq sample_scanners_def catch_empty_def us_east_1_def eu_west_1_def
      sample_findings_def)

lemma regions_denied:
  "scanRegions denied_in_eu account [us_east_1, eu_west_1] [] [] =
     (Inl (Error (''Invalid AWS credentials for account '' @ accountName account)),
      [(GuardDuty, ''us-east-1''), (IAM, ''us-east-1''), (CloudTrail, ''us-east-1''),
       (CloudWatch, ''us-east-1''), (KMS, ''us-east-1''), (GuardDuty, ''us-east-1''),
       (SecurityHub, ''us-east-1''), (GuardDuty, ''eu-west-1'')])"
  by (simp add: scanRegion_eq denied_in_eu_def sample_scanners_def credential_class_def
      forbidden_def us_east_1_def eu_west_1_def)

subsection \<open>A failure of the bulk insert\<close>

text \<open>
  C2, as amended. \<open>storeFindingsForAccount\<close> inserts the findings one row at a time,
  in list order, outside any transaction, and stops at the first statement that fails.
  With \<open>n\<close> statements sent on the connection before the call, PREPARE is statement
  \<open>n\<close> and the INSERT of finding number \<open>m\<close> is statement \<open>n + 1 + m\<close>; an INSERT is
  refused when the driver refuses the statement or the severity fails the CHECK.
  \<^item> Whatever the result, the rows added to \<open>asset_findings\<close> are those of a prefix of
    the list, each under the given account id; the whole list when the call succeeds.
  \<^item> When PREPARE is refused the call fails with that error and no row is added.
  \<^item> When the first refused INSERT is the one of finding number \<open>j\<close>, the call fails
    (with the driver's error when the driver refused it), the rows added are exactly
    those of the \<open>j\<close> findings before it, and no statement follows the refused one:
    there is no ROLLBACK, so a failure keeps the rows inserted before it.
  \<^item> When no INSERT is refused, every finding has its row, and the call succeeds unless
    FINALIZE is refused, in which case it fails with all the rows kept.
  \<^item> When \<open>scanAccount\<close> reaches the persistence step with these findings, it fails
    with the error of \<open>storeFindingsForAccount\<close> if that fails and returns the findings
    otherwise, and it leaves the store as \<open>storeFindingsForAccount\<close> left it.
\<close>

theorem storeFindings_keeps_prefix:
  assumes "storeFindingsForAccount env acc fs (Some db) = (res, svc')"
  shows "(\<exists>db' k rows. svc' = Some db' \<and> k \<le> length fs
            \<and> asset_findings (tabs db') = asset_findings (tabs db) @ rows
            \<and> map stored_finding rows = take k fs
            \<and> list_all (\<lambda>row. f_account_id row = acc) rows
            \<and> (res = Inr () \<longrightarrow> k = length fs))
       \<and> (\<forall>e. fault env (length (executed db)) = Some e
             \<longrightarrow> res = Inl e \<and> svc' = Some (db\<lparr>executed := executed db @ [PrepareInsertFinding]\<rparr>))
       \<and> (\<forall>j. fault env (length (executed db)) = None \<and> j < length fs
               \<and> (\<forall>m<j. fault env (length (executed db) + 1 + m) = None
                         \<and> severity_check (severity (fs ! m)))
               \<and> \<not> (fault env (length (executed db) + 1 + j) = None
                      \<and> severity_check (severity (fs ! j)))
             \<longrightarrow> (\<exists>e db' rows. res = Inl e \<and> svc' = Some db'
                    \<and> asset_findings (tabs db') = asset_findings (tabs db) @ rows
                    \<and> map stored_finding rows = take j fs
                    \<and> list_all (\<lambda>row. f_account_id row = acc) rows
                    \<and> executed db' = executed db
                          @ PrepareInsertFinding # map (InsertFinding acc) (take (Suc j) fs)
                    \<and> (\<forall>e'. fault env (length (executed db) + 1 + j) = Some e' \<longrightarrow> e = e')))
       \<and> (fault env (length (executed db)) = None
            \<and> (\<forall>m<length fs. fault env (length (executed db) + 1 + m) = None
                       \<and> severity_check (severity (fs ! m)))
          \<longrightarrow> (\<exists>db' rows. svc' = Some db'
                 \<and> res = (case fault env (length (executed db) + 1 + length fs) of
                            Some e \<Rightarrow> Inl e | None \<Rightarrow> Inr ())
                 \<and> asset_findings (tabs db') = asset_findings (tabs db) @ rows
                 \<and> map stored_finding rows = fs
                 \<and> list_all (\<lambda>row. f_account_id row = acc) rows
                 \<and> executed db' = executed db
                       @ PrepareInsertFinding # map (InsertFinding acc) fs @ [FinalizeStatement]))
       \<and> (\<forall>sc s account svc1 regions calls1.
             getAccount env acc (dbService s) = (Inr (Some account), svc1)
             \<and> getEnabledRegions env acc svc1 = (Inr regions, Some db)
             \<and> scanRegions sc account regions [] (invoked s) = (Inr fs, calls1)
             \<longrightarrow> scanAccount env sc acc s =
                   ((case res of Inl e \<Rightarrow> Inl e | Inr _ \<Rightarrow> Inr fs),
                    \<lparr>dbService = svc', invoked = calls1\<rparr>))"
proof -
  from storeFindingsForAccount_prefix [OF assms]
  have a: "\<exists>db' k rows. svc' = Some db' \<and> k \<le> length fs
            \<and> asset_findings (tabs db') = asset_findings (tabs db) @ rows
            \<and> map stored_finding rows = take k fs
            \<and> list_all (\<lambda>row. f_account_id row = acc) rows
            \<and> (res = Inr () \<longrightarrow> k = length fs)"
    by blast
  have p: "\<forall>e. fault env (length (executed db)) = Some e
             \<longrightarrow> res = Inl e \<and> svc' = Some (db\<lparr>executed := executed db @ [PrepareInsertFinding]\<rparr>)"
    using storeFindingsForAccount_prepare_refused [of env db _ acc fs] assms by simp
  have f: "\<forall>j. fault env (length (executed db)) = None \<and> j < length fs
               \<and> (\<forall>m<j. fault env (length (executed db) + 1 + m) = None
                         \<and> severity_check (severity (fs ! m)))
               \<and> \<not> (fault env (length (executed db) + 1 + j) = None
                      \<and> severity_check (severity (fs ! j)))
             \<longrightarrow> (\<exists>e db' rows. res = Inl e \<and> svc' = Some db'
                    \<and> asset_findings (tabs db') = asset_findings (tabs db) @ rows
                    \<and> map stored_finding rows = take j fs
                    \<and> list_all (\<lambda>row. f_account_id row = acc) rows
                    \<and> executed db' = executed db
                          @ PrepareInsertFinding # map (InsertFinding acc) (take (Suc j) fs)
                    \<and> (\<forall>e'. fault env (length (executed db) + 1 + j) = Some e' \<longrightarrow> e = e'))"
  proof (intro allI impI, elim conjE)
    fix j
    assume h: "fault env (length (executed db)) = None" "j < length fs"
      "\<forall>m<j. fault env (length (executed db) + 1 + m) = None \<and> severity_check (severity (fs ! m))"
      "\<not> (fault env (length (executed db) + 1 + j) = None \<and> severity_check (severity (fs ! j)))"
    from storeFindingsForAccount_first_refused [OF h, of acc] assms
    show "\<exists>e db' rows. res = Inl e \<and> svc' = Some db'
                    \<and> asset_findings (tabs db') = asset_findings (tabs db) @ rows
                    \<and> map stored_finding rows = take j fs
                    \<and> list_all (\<lambda>row. f_account_id row = acc) rows
                    \<and> executed db' = executed db
                          @ PrepareInsertFinding # map (InsertFinding acc) (take (Suc j) fs)
                    \<and> (\<forall>e'. fault env (length (executed db) + 1 + j) = Some e' \<longrightarrow> e = e')"
      by auto
  qed
  have w: "fault env (length (executed db)) = None
            \<and> (\<forall>m<length fs. fault env (length (executed db) + 1 + m) = None
                       \<and> severity_check (severity (fs ! m)))
          \<longrightarrow> (\<exists>db' rows. svc' = Some db'
                 \<and> res = (case fault env (length (executed db) + 1 + length fs) of
                            Some e \<Rightarrow> Inl e | None \<Rightarrow> Inr ())
                 \<and> asset_findings (tabs db') = asset_findings (tabs db) @ rows
                 \<and> map stored_finding rows = fs
                 \<and> list_all (\<lambda>row. f_account_id row = acc) rows
                 \<and> executed db' = executed db
                       @ PrepareInsertFinding # map (InsertFinding acc) fs @ [FinalizeStatement])"
  proof (intro impI, elim conjE)
    assume h: "fault env (length (executed db)) = None"
      "\<forall>m<length fs. fault env (length (executed db) + 1 + m) = None \<and> severity_check (severity (fs ! m))"
    from storeFindingsForAccount_all_accepted [OF h, of acc] assms
    show "\<exists>db' rows. svc' = Some db'
                 \<and> res = (case fault env (length (executed db) + 1 + length fs) of
                            Some e \<Rightarrow> Inl e | None \<Rightarrow> Inr ())
                 \<and> asset_findings (tabs db') = asset_findings (tabs db) @ rows
                 \<and> map stored_finding rows = fs
                 \<and> list_all (\<lambda>row. f_account_id row = acc) rows
                 \<and> executed db' = executed db
                       @ PrepareInsertFinding # map (InsertFinding acc) fs @ [FinalizeStatement]"
      by auto
  qed
  have b: "\<forall>sc s account svc1 regions calls1.
             getAccount env acc (dbService s) = (Inr (Some account), svc1)
             \<and> getEnabledRegions env acc svc1 = (Inr regions, Some db)
             \<and> scanRegions sc account regions [] (invoked s) = (Inr fs, calls1)
             \<longrightarrow> scanAccount env sc acc s =
                   ((case res of Inl e \<Rightarrow> Inl e | Inr _ \<Rightarrow> Inr fs),
                    \<lparr>dbService = svc', invoked = calls1\<rparr>)"
    using scanAccount_persist assms by blast
  from a p f w b show ?thesis by (intro conjI)
qed

text \<open>
  The refused statement is the second INSERT: the call fails and the row of the first
  finding stays in the table.
\<close>

lemmas run_defs = storeFindingsForAccount_def ensureInitialized_def await_def db_run_def apply_sql_def
  Let_def refusing_def sample_db_def severity_check_def stamp_def cloudtrail_not_configured_def
  kms_no_keys_def next_rowid_def old_finding_def stored_finding_def io_error_def

theorem storeFindings_all_or_nothing_counterexample:
  "fst (storeFindingsForAccount (refusing 2) 1
          [stamp ''us-east-1'' cloudtrail_not_configured, stamp ''us-east-1'' kms_no_keys]
          (Some sample_db)) = Inl io_error
   \<and> map stored_finding (asset_findings (tabs (the (snd (storeFindingsForAccount (refusing 2) 1
          [stamp ''us-east-1'' cloudtrail_not_configured, stamp ''us-east-1'' kms_no_keys]
          (Some sample_db))))))
       = map stored_finding (asset_findings (tabs sample_db)) @ [stamp ''us-east-1'' cloudtrail_not_configured]"
  by (simp add: run_defs)

theorem storeFindings_keeps_prefix_witness:
  "fst (scanAccount (refusing 4) sample_scanners 1 \<lparr>dbService = Some sample_db, invoked = []\<rparr>)
     = Inl io_error
   \<and> map stored_finding (asset_findings (tabs (the (dbService (snd
         (scanAccount (refusing 4) sample_scanners 1 \<lparr>dbService = Some sample_db, invoked = []\<rparr>))))))
       = map stored_finding (asset_findings (tabs sample_db)) @ [stamp ''us-east-1'' cloudtrail_not_configured]
   \<and> executed (the (dbService (snd
         (scanAccount (refusing 4) sample_scanners 1 \<lparr>dbService = Some sample_db, invoked = []\<rparr>))))
       = [SelectAccountById 1, SelectEnabledRegions 1, PrepareInsertFinding,
          InsertFinding 1 (stamp ''us-east-1'' cloudtrail_not_configured),
          InsertFinding 1 (stamp ''us-east-1'' kms_no_keys)]"
proof -
  let ?s = "\<lparr>dbService = Some sample_db, invoked = []\<rparr>"
  let ?db2 = "sample_db\<lparr>executed := [SelectAccountById 1, SelectEnabledRegions 1]\<rparr>"
  let ?store = "storeFindingsForAccount (refusing 4) 1 sample_findings (Some ?db2)"
  have a: "getAccount (refusing 4) 1 (dbService ?s) =
      (Inr (Some (account_of_row prod_row)), Some (sample_db\<lparr>executed := [SelectAccountById 1]\<rparr>))"
    using getAccount_found [of 1 sample_db prod_row "refusing 4"] prod_found
    by (simp add: refusing_def sample_db_def)
  have b: "getEnabledRegions (refusing 4) 1 (Some (sample_db\<lparr>executed := [SelectAccountById 1]\<rparr>)) =
      (Inr [us_east_1, eu_west_1], Some ?db2)"
    using getEnabledRegions_ok [of "refusing 4" "sample_db\<lparr>executed := [SelectAccountById 1]\<rparr>" 1]
      prod_regions
    by (simp add: refusing_def)
  have c: "scanRegions sample_scanners (account_of_row prod_row) [us_east_1, eu_west_1] [] (invoked ?s)
      = (Inr sample_findings,
      [(GuardDuty, ''us-east-1''), (IAM, ''us-east-1''), (CloudTrail, ''us-east-1''),
       (CloudWatch, ''us-east-1''), (KMS, ''us-east-1''), (GuardDuty, ''us-east-1''),
       (SecurityHub, ''us-east-1''),
       (GuardDuty, ''eu-west-1''), (IAM, ''eu-west-1''), (CloudTrail, ''eu-west-1''),
       (CloudWatch, ''eu-west-1''), (KMS, ''eu-west-1''), (GuardDuty, ''eu-west-1''),
       (SecurityHub, ''eu-west-1'')])"
    using sample_regions_scanned by simp
  have st: "?store = (fst ?store, snd ?store)"
    by simp
  note pre = storeFindings_keeps_prefix [OF st]
  have h: "fault (refusing 4) (length (executed ?db2)) = None \<and> 1 < length sample_findings
      \<and> (\<forall>m<1. fault (refusing 4) (length (executed ?db2) + 1 + m) = None
                \<and> severity_check (severity (sample_findings ! m)))
      \<and> \<not> (fault (refusing 4) (length (executed ?db2) + 1 + 1) = None
             \<and> severity_check (severity (sample_findings ! 1)))"
    by (simp add: refusing_def sample_findings_def severity_check_def stamp_def
        cloudtrail_not_configured_def)
  from pre [THEN conjunct2, THEN conjunct2, THEN conjunct1, rule_format, OF h]
  obtain e db' rows where r: "fst ?store = Inl e" "snd ?store = Some db'"
      "asset_findings (tabs db') = asset_findings (tabs ?db2) @ rows"
      "map stored_finding rows = take 1 sample_findings"
      "executed db' = executed ?db2
          @ PrepareInsertFinding # map (InsertFinding 1) (take (Suc 1) sample_findings)"
      "\<forall>e'. fault (refusing 4) (length (executed ?db2) + 1 + 1) = Some e' \<longrightarrow> e = e'"
    by blast
  from r(6) have e: "e = io_error"
    by (simp add: refusing_def)
  from pre [THEN conjunct2, THEN conjunct2, THEN conjunct2, THEN conjunct2, rule_format,
      of ?s "account_of_row prod_row" "Some (sample_db\<lparr>executed := [SelectAccountById 1]\<rparr>)"
        "[us_east_1, eu_west_1]" sample_scanners] a b c
  have "scanAccount (refusing 4) sample_scanners 1 ?s =
      ((case fst ?store of Inl e \<Rightarrow> Inl e | Inr _ \<Rightarrow> Inr sample_findings),
       \<lparr>dbService = snd ?store, invoked =
      [(GuardDuty, ''us-east-1''), (IAM, ''us-east-1''), (CloudTrail, ''us-east-1''),
       (CloudWatch, ''us-east-1''), (KMS, ''us-east-1''), (GuardDuty, ''us-east-1''),
       (SecurityHub, ''us-east-1''),
       (GuardDuty, ''eu-west-1''), (IAM, ''eu-west-1''), (CloudTrail, ''eu-west-1''),
       (CloudWatch, ''eu-west-1''), (KMS, ''eu-west-1''), (GuardDuty, ''eu-west-1''),
       (SecurityHub, ''eu-west-1'')]\<rparr>)"
    by blast
  with r e show ?thesis by (simp add: sample_findings_def)
qed

subsection \<open>Credential errors of the canary\<close>

lemma scanRegion_outcome:
  "(scanRegion sc account reg calls =
      (Inl (Error (''Invalid AWS credentials for account '' @ accountName account)), calls @ [(GuardDuty, reg)])
    \<and> (case guardDutyScanner sc (length calls) account reg of Inl error \<Rightarrow> credential_class error | Inr _ \<Rightarrow> False))
   \<or> (\<exists>fs calls'. scanRegion sc account reg calls = (Inr fs, calls') \<and> length calls' = length calls + 7
        \<and> \<not> (case guardDutyScanner sc (length calls) account reg of Inl error \<Rightarrow> credential_class error | Inr _ \<Rightarrow> False))"
  by (simp add: scanRegion_eq)

lemma scanRegions_credential_abort:
  assumes "k < length rs"
    and "case guardDutyScanner sc (length calls + 7 * k) account (r_region (rs ! k)) of
           Inl error \<Rightarrow> credential_class error | Inr _ \<Rightarrow> False"
  shows "fst (scanRegions sc account rs allFindings calls) =
           Inl (Error (''Invalid AWS credentials for account '' @ accountName account))"
  using assms
proof (induction rs arbitrary: k allFindings calls)
  case Nil
  then show ?case by simp
next
  case (Cons r rs)
  from scanRegion_outcome [of sc account "r_region r" calls]
  show ?case
  proof
    assume "scanRegion sc account (r_region r) calls =
        (Inl (Error (''Invalid AWS credentials for account '' @ accountName account)), calls @ [(GuardDuty, r_region r)])
      \<and> (case guardDutyScanner sc (length calls) account (r_region r) of Inl error \<Rightarrow> credential_class error | Inr _ \<Rightarrow> False)"
    then show ?thesis by simp
  next
    assume "\<exists>fs calls'. scanRegion sc account (r_region r) calls = (Inr fs, calls') \<and> length calls' = length calls + 7
        \<and> \<not> (case guardDutyScanner sc (length calls) account (r_region r) of Inl error \<Rightarrow> credential_class error | Inr _ \<Rightarrow> False)"
    then obtain fs calls' where ok: "scanRegion sc account (r_region r) calls = (Inr fs, calls')"
        "length calls' = length calls + 7"
        "\<not> (case guardDutyScanner sc (length calls) account (r_region r) of Inl error \<Rightarrow> credential_class error | Inr _ \<Rightarrow> False)"
      by blast
    from ok(3) Cons.prems(2) have "k \<noteq> 0"
      by (cases k) auto
    then obtain k' where k': "k = Suc k'"
      by (cases k) auto
    with Cons.prems have "k' < length rs"
      "case guardDutyScanner sc (length calls' + 7 * k') account (r_region (rs ! k')) of
           Inl error \<Rightarrow> credential_class error | Inr _ \<Rightarrow> False"
      by (simp_all add: ok(2) add.commute add.left_commute)
    from Cons.IH [OF this] ok(1) show ?thesis
      by simp
  qed
qed

lemma scanAccount_region_failure:
  assumes "getAccount env i (dbService s) = (Inr (Some account), svc1)"
    and "getEnabledRegions env i svc1 = (Inr regions, svc2)"
    and "fst (scanRegions sc account regions [] (invoked s)) = Inl e"
  shows "fst (scanAccount env sc i s) = Inl e \<and> dbService (snd (scanAccount env sc i s)) = svc2"
  using assms by (auto simp add: scanAccount_def split: sum.splits prod.splits)

text \<open>
  C1. Take an account that exists and whose two reads succeed, and any of its enabled
  regions, the \<open>k\<close>-th: if the GuardDuty scan that is the canary of that region (the
  scan number \<open>7 * k\<close> of this \<open>scanAccount\<close>, when the regions before it were scanned)
  throws an error whose name is UnrecognizedClientException or whose HTTP status is
  403, then \<open>scanAccount\<close> fails with the error "Invalid AWS credentials for account
  <name>", whatever the other scanners and regions return, and the store has seen
  nothing but the two reads: \<open>storeFindingsForAccount\<close> was not called and no table
  changed.
\<close>

theorem credential_error_aborts_scan:
  assumes "find (\<lambda>a. a_id a = i) (aws_accounts (tabs db)) = Some row"
    and "fault env (length (executed db)) = None"
    and "fault env (Suc (length (executed db))) = None"
    and "k < length (filter (\<lambda>r. r_account_id r = i \<and> r_enabled r) (aws_regions (tabs db)))"
    and "guardDutyScanner sc (length calls + 7 * k) (account_of_row row)
           (r_region (filter (\<lambda>r. r_account_id r = i \<and> r_enabled r) (aws_regions (tabs db)) ! k)) = Inl error"
    and "credential_class error"
  shows "fst (scanAccount env sc i \<lparr>dbService = Some db, invoked = calls\<rparr>) =
           Inl (Error (''Invalid AWS credentials for account '' @ a_account_name row))
       \<and> dbService (snd (scanAccount env sc i \<lparr>dbService = Some db, invoked = calls\<rparr>)) =
           Some (db\<lparr>executed := executed db @ [SelectAccountById i, SelectEnabledRegions i]\<rparr>)"
proof -
  let ?rs = "filter (\<lambda>r. r_account_id r = i \<and> r_enabled r) (aws_regions (tabs db))"
  let ?s = "\<lparr>dbService = Some db, invoked = calls\<rparr>"
  have a: "getAccount env i (dbService ?s) =
      (Inr (Some (account_of_row row)), Some (db\<lparr>executed := executed db @ [SelectAccountById i]\<rparr>))"
    using getAccount_found [OF assms(1,2)] by simp
  have b: "getEnabledRegions env i (Some (db\<lparr>executed := executed db @ [SelectAccountById i]\<rparr>)) =
      (Inr ?rs, Some (db\<lparr>executed := executed db @ [SelectAccountById i, SelectEnabledRegions i]\<rparr>))"
    using getEnabledRegions_ok [of env "db\<lparr>executed := executed db @ [SelectAccountById i]\<rparr>" i] assms(3)
    by simp
  have c: "fst (scanRegions sc (account_of_row row) ?rs [] (invoked ?s)) =
      Inl (Error (''Invalid AWS credentials for account '' @ accountName (account_of_row row)))"
    using scanRegions_credential_abort [OF assms(4), of sc calls "account_of_row row" "[]"] assms(5,6)
    by simp
  from scanAccount_region_failure [OF a b c] show ?thesis
    by (simp add: account_of_row_def)
qed

theorem credential_error_aborts_scan_witness:
  "guardDutyScanner denied_in_eu 7 prod_account ''eu-west-1'' = Inl forbidden
   \<and> credential_class forbidden
   \<and> guardDutyScanner denied_in_eu 0 prod_account ''us-east-1'' = Inr []
   \<and> fst (scanAccount quiet denied_in_eu 1 \<lparr>dbService = Some sample_db, invoked = []\<rparr>) =
       Inl (Error ''Invalid AWS credentials for account prod'')
   \<and> dbService (snd (scanAccount quiet denied_in_eu 1 \<lparr>dbService = Some sample_db, invoked = []\<rparr>)) =
       Some (sample_db\<lparr>executed := [SelectAccountById 1, SelectEnabledRegions 1]\<rparr>)"
proof -
  have h2: "fault quiet (length (executed sample_db)) = None"
    and h3: "fault quiet (Suc (length (executed sample_db))) = None"
    by (simp_all add: quiet_def)
  have h4: "1 < length (filter (\<lambda>r. r_account_id r = 1 \<and> r_enabled r) (aws_regions (tabs sample_db)))"
    by (simp add: prod_regions)
  have h5: "guardDutyScanner denied_in_eu (length ([] :: (probe \<times> string) list) + 7 * 1) (account_of_row prod_row)
      (r_region (filter (\<lambda>r. r_account_id r = 1 \<and> r_enabled r) (aws_regions (tabs sample_db)) ! 1)) = Inl forbidden"
    by (simp add: prod_regions denied_in_eu_def eu_west_1_def)
  have h6: "credential_class forbidden"
    by (simp add: credential_class_def forbidden_def)
  have g: "guardDutyScanner denied_in_eu 7 prod_account ''eu-west-1'' = Inl forbidden"
    "guardDutyScanner denied_in_eu 0 prod_account ''us-east-1'' = Inr []"
    by (simp_all add: denied_in_eu_def)
  from credential_error_aborts_scan [OF prod_found h2 h3 h4 h5 h6] g h6 show ?thesis
    by (simp add: prod_row_def sample_db_def)
qed

subsection \<open>Other errors of the canary\<close>

text \<open>
  C7. When the canary GuardDuty scan of a region throws an error that the orchestrator
  does not class as a credential error, the error is swallowed: the region's scan does
  not fail, the six scans of the fan-out (IAM, CloudTrail, CloudWatch, KMS, GuardDuty,
  SecurityHub) are all started for that region after the canary, the region's findings
  are those of the fan-out, and the loop goes on with the regions that follow.
\<close>

theorem canary_failure_swallowed:
  assumes "guardDutyScanner sc (length calls) account (r_region r) = Inl error"
    and "\<not> credential_class error"
  shows "scanRegion sc account (r_region r) calls =
           (Inr (map (stamp (r_region r))
                  (concat (fst (fan_out sc account (r_region r) (calls @ [(GuardDuty, r_region r)]))))),
            calls @ [(GuardDuty, r_region r), (IAM, r_region r), (CloudTrail, r_region r),
                     (CloudWatch, r_region r), (KMS, r_region r), (GuardDuty, r_region r),
                     (SecurityHub, r_region r)])
       \<and> scanRegions sc account (r # rs) allFindings calls =
           scanRegions sc account rs
             (allFindings @ map (stamp (r_region r))
                (concat (fst (fan_out sc account (r_region r) (calls @ [(GuardDuty, r_region r)])))))
             (calls @ [(GuardDuty, r_region r), (IAM, r_region r), (CloudTrail, r_region r),
                     (CloudWatch, r_region r), (KMS, r_region r), (GuardDuty, r_region r),
                     (SecurityHub, r_region r)])"
  using assms by (simp add: scanRegion_def invoke_def fan_out_eq)

theorem canary_failure_swallowed_witness:
  "guardDutyScanner (constructor sample_aws) 0 prod_account ''us-east-1'' = Inl throttled
   \<and> \<not> credential_class throttled
   \<and> scanRegion (constructor sample_aws) prod_account ''us-east-1'' [] =
       (Inr (map (stamp ''us-east-1'')
               [iam_root_mfa, cloudtrail_not_configured, kms_no_keys, guardduty_not_enabled,
                securityhub_not_enabled]),
        [(GuardDuty, ''us-east-1''), (IAM, ''us-east-1''), (CloudTrail, ''us-east-1''),
         (CloudWatch, ''us-east-1''), (KMS, ''us-east-1''), (GuardDuty, ''us-east-1''),
         (SecurityHub, ''us-east-1'')])"
proof -
  have keys: "accessKeyId prod_account \<noteq> [] \<and> secretAccessKey prod_account \<noteq> []"
    by (simp add: prod_account_def account_of_row_def prod_row_def)
  have h1: "guardDutyScanner (constructor sample_aws) (length ([] :: (probe \<times> string) list)) prod_account (r_region us_east_1)
      = Inl throttled"
    using keys
    by (simp add: constructor_def sample_aws_def new_client_def us_east_1_def
        GuardDutyScanner_scan_def guardduty_try_def guardduty_catch_def throttled_def)
  have h2: "\<not> credential_class throttled"
    by (simp add: credential_class_def throttled_def)
  have f: "fst (fan_out (constructor sample_aws) prod_account ''us-east-1'' [(GuardDuty, ''us-east-1'')]) =
      [[iam_root_mfa], [cloudtrail_not_configured], [], [kms_no_keys], [guardduty_not_enabled],
       [securityhub_not_enabled]]"
    using keys
    by (simp add: fan_out_eq constructor_def sample_aws_def new_client_def catch_empty_def
        IAMScanner_scan_def iam_summary_findings_def CloudTrailScanner_scan_def
        CloudWatchScanner_scan_def KMSScanner_scan_def GuardDutyScanner_scan_def
        guardduty_try_def SecurityHubScanner_scan_def invalid_access_def)
  from canary_failure_swallowed [OF h1 h2, of "[]" "[]"] h1 h2 f show ?thesis
    by (simp add: us_east_1_def)
qed

subsection \<open>Failures inside the fan-out\<close>

text \<open>
  C3. In a region whose canary does not abort the scan, the region never fails, whatever
  the six scans of the fan-out do: the region's findings are exactly the findings, stamped
  with the region, of the scans that returned a list (so a scan that throws contributes
  nothing and takes nothing away from the others), and the loop goes on with the regions
  that follow.
\<close>

theorem probe_failure_isolated:
  assumes "\<not> (case guardDutyScanner sc (length calls) account (r_region r) of
               Inl error \<Rightarrow> credential_class error | Inr _ \<Rightarrow> False)"
  shows "\<exists>regionFindings calls'.
           scanRegion sc account (r_region r) calls = (Inr regionFindings, calls')
         \<and> (\<forall>p fs. scanner_of sc p (Suc (length calls) + fan_out_index p) account (r_region r) = Inr fs
               \<longrightarrow> stamp (r_region r) ` set fs \<subseteq> set regionFindings)
         \<and> (\<forall>x \<in> set regionFindings. \<exists>p fs.
               scanner_of sc p (Suc (length calls) + fan_out_index p) account (r_region r) = Inr fs
               \<and> x \<in> stamp (r_region r) ` set fs)
         \<and> scanRegions sc account (r # rs) allFindings calls
             = scanRegions sc account rs (allFindings @ regionFindings) calls'"
proof -
  define reg where "reg = r_region r"
  define out where "out = (\<lambda>p. scanner_of sc p (Suc (length calls) + fan_out_index p) account reg)"
  define fs where "fs = map (stamp reg) (concat (map (\<lambda>p. catch_empty (out p)) [IAM, CloudTrail, CloudWatch, KMS, GuardDuty, SecurityHub]))"
  define calls' where "calls' = calls @ [(GuardDuty, reg), (IAM, reg), (CloudTrail, reg), (CloudWatch, reg), (KMS, reg), (GuardDuty, reg), (SecurityHub, reg)]"
  have region: "scanRegion sc account reg calls = (Inr fs, calls')"
    using assms unfolding scanRegion_eq fs_def calls'_def out_def reg_def by (simp only: if_False)
  have set_fs: "set fs = stamp reg ` (\<Union>p. set (catch_empty (out p)))"
    unfolding fs_def by (rule set_stamped_concat)
  have incl: "stamp reg ` set l \<subseteq> set fs" if "out p = Inr l" for p l
  proof -
    from that have "set l = set (catch_empty (out p))"
      by (simp add: catch_empty_def)
    then show ?thesis
      unfolding set_fs by blast
  qed
  have only: "\<exists>p l. out p = Inr l \<and> x \<in> stamp reg ` set l" if "x \<in> set fs" for x
  proof -
    from that obtain p y where y: "y \<in> set (catch_empty (out p))" "x = stamp reg y"
      unfolding set_fs by blast
    then obtain l where "out p = Inr l" "y \<in> set l"
      by (cases "out p") (simp_all add: catch_empty_def)
    with y(2) show ?thesis by blast
  qed
  have loop: "scanRegions sc account (r # rs) allFindings calls = scanRegions sc account rs (allFindings @ fs) calls'"
    using region by (simp add: reg_def)
  from region incl only loop show ?thesis
    unfolding out_def reg_def by blast
qed

theorem probe_failure_isolated_witness:
  "iamScanner sample_scanners 1 prod_account ''us-east-1'' = Inl throttled
   \<and> (\<exists>regionFindings calls'.
         scanRegion sample_scanners prod_account ''us-east-1'' [] = (Inr regionFindings, calls')
         \<and> stamp ''us-east-1'' cloudtrail_not_configured \<in> set regionFindings
         \<and> stamp ''us-east-1'' kms_no_keys \<in> set regionFindings
         \<and> scanRegions sample_scanners prod_account [us_east_1, eu_west_1] [] []
             = scanRegions sample_scanners prod_account [eu_west_1] regionFindings calls')"
proof -
  have h: "\<not> (case guardDutyScanner sample_scanners (length ([] :: (probe \<times> string) list)) prod_account
                   (r_region us_east_1) of
               Inl error \<Rightarrow> credential_class error | Inr _ \<Rightarrow> False)"
    by (simp add: sample_scanners_def)
  from probe_failure_isolated [OF h, of "[eu_west_1]" "[]"]
  obtain regionFindings calls' where r:
    "scanRegion sample_scanners prod_account (r_region us_east_1) [] = (Inr regionFindings, calls')"
    "\<forall>p fs. scanner_of sample_scanners p (Suc (length ([] :: (probe \<times> string) list)) + fan_out_index p) prod_account
               (r_region us_east_1) = Inr fs
         \<longrightarrow> stamp (r_region us_east_1) ` set fs \<subseteq> set regionFindings"
    "scanRegions sample_scanners prod_account [us_east_1, eu_west_1] [] []
       = scanRegions sample_scanners prod_account [eu_west_1] ([] @ regionFindings) calls'"
    by blast
  have "scanner_of sample_scanners CloudTrail (Suc (length ([] :: (probe \<times> string) list)) + fan_out_index CloudTrail)
          prod_account (r_region us_east_1) = Inr [cloudtrail_not_configured]"
    by (simp add: sample_scanners_def)
  with r(2) have a: "stamp ''us-east-1'' cloudtrail_not_configured \<in> set regionFindings"
    by (fastforce simp add: us_east_1_def)
  have "scanner_of sample_scanners KMS (Suc (length ([] :: (probe \<times> string) list)) + fan_out_index KMS)
          prod_account (r_region us_east_1) = Inr [kms_no_keys]"
    by (simp add: sample_scanners_def)
  with r(2) have b: "stamp ''us-east-1'' kms_no_keys \<in> set regionFindings"
    by (fastforce simp add: us_east_1_def)
  have c: "iamScanner sample_scanners 1 prod_account ''us-east-1'' = Inl throttled"
    by (simp add: sample_scanners_def)
  from r(1,3) a b c show ?thesis
    by (auto simp add: us_east_1_def)
qed

subsection \<open>An account without enabled regions\<close>

text \<open>
  C9. For an account that exists and has no enabled region, on a store that refuses
  none of the four statements, \<open>scanAccount\<close> succeeds with the empty list. It starts
  no scan, and the store sees the two reads, the prepare and the finalize of the bulk
  insert and nothing else: no row is inserted and no table changes.
\<close>

theorem scanAccount_no_enabled_regions:
  assumes "find (\<lambda>a. a_id a = i) (aws_accounts (tabs db)) = Some row"
    and "filter (\<lambda>r. r_account_id r = i \<and> r_enabled r) (aws_regions (tabs db)) = []"
    and "\<forall>n < 4. fault env (length (executed db) + n) = None"
  shows "scanAccount env sc i \<lparr>dbService = Some db, invoked = calls\<rparr> =
           (Inr [],
            \<lparr>dbService = Some (db\<lparr>executed := executed db @
                 [SelectAccountById i, SelectEnabledRegions i, PrepareInsertFinding, FinalizeStatement]\<rparr>),
             invoked = calls\<rparr>)"
proof -
  have f: "fault env (length (executed db)) = None"
    "fault env (Suc (length (executed db))) = None"
    "fault env (Suc (Suc (length (executed db)))) = None"
    "fault env (Suc (Suc (Suc (length (executed db))))) = None"
    using assms(3) [rule_format, of 0] assms(3) [rule_format, of 1]
      assms(3) [rule_format, of 2] assms(3) [rule_format, of 3]
    by (simp_all add: eval_nat_numeral)
  note a = getAccount_found [OF assms(1) f(1)]
  have b: "getEnabledRegions env i (Some (db\<lparr>executed := executed db @ [SelectAccountById i]\<rparr>)) =
      (Inr [], Some (db\<lparr>executed := executed db @ [SelectAccountById i, SelectEnabledRegions i]\<rparr>))"
    using getEnabledRegions_ok [of env "db\<lparr>executed := executed db @ [SelectAccountById i]\<rparr>" i] f(2) assms(2)
    by simp
  have c: "storeFindingsForAccount env i []
      (Some (db\<lparr>executed := executed db @ [SelectAccountById i, SelectEnabledRegions i]\<rparr>)) =
      (Inr (), Some (db\<lparr>executed := executed db @
                 [SelectAccountById i, SelectEnabledRegions i, PrepareInsertFinding, FinalizeStatement]\<rparr>))"
    using storeFindingsForAccount_nothing
      [of env "db\<lparr>executed := executed db @ [SelectAccountById i, SelectEnabledRegions i]\<rparr>" i] f(3,4)
    by simp
  show ?thesis
    by (simp add: scanAccount_def a b c)
qed

theorem scanAccount_no_enabled_regions_witness:
  "find (\<lambda>a. a_id a = 2) (aws_accounts (tabs sample_db)) = Some dev_row
   \<and> filter (\<lambda>r. r_account_id r = 2 \<and> r_enabled r) (aws_regions (tabs sample_db)) = []
   \<and> scanAccount quiet sample_scanners 2 \<lparr>dbService = Some sample_db, invoked = []\<rparr> =
       (Inr [],
        \<lparr>dbService = Some (sample_db\<lparr>executed :=
             [SelectAccountById 2, SelectEnabledRegions 2, PrepareInsertFinding, FinalizeStatement]\<rparr>),
         invoked = []\<rparr>)"
proof -
  have h3: "\<forall>n < 4. fault quiet (length (executed sample_db) + n) = None"
    by (simp add: quiet_def)
  from scanAccount_no_enabled_regions [OF dev_found dev_regions h3, of sample_scanners "[]"]
    dev_found dev_regions
  show ?thesis by (simp add: sample_db_def)
qed

subsection \<open>Scanning all accounts\<close>

lemma scanEach_acc:
  "scanEach env sc as acc s = (acc @ fst (scanEach env sc as [] s), snd (scanEach env sc as [] s))"
proof (induction as arbitrary: acc s)
  case Nil
  then show ?case by simp
next
  case (Cons a as)
  obtain r s1 where r: "scanAccount env sc (acc_id a) s = (r, s1)"
    by (cases "scanAccount env sc (acc_id a) s")
  show ?case
    using Cons.IH [of "acc @ [scan_entry_of (acc_id a) r]" s1]
      Cons.IH [of "[scan_entry_of (acc_id a) r]" s1] r
    by simp
qed

lemma scanEach_ids:
  "map entry_accountId (fst (scanEach env sc as [] s)) = map acc_id as"
proof (induction as arbitrary: s)
  case Nil
  then show ?case by simp
next
  case (Cons a as)
  obtain r s1 where r: "scanAccount env sc (acc_id a) s = (r, s1)"
    by (cases "scanAccount env sc (acc_id a) s")
  have "entry_accountId (scan_entry_of (acc_id a) r) = acc_id a"
    by (cases r) (simp_all add: scan_entry_of_def)
  with Cons.IH [of s1] r scanEach_acc [of env sc as "[scan_entry_of (acc_id a) r]" s1]
  show ?case by simp
qed

lemma scanEach_nth:
  "k < length as \<Longrightarrow>
     fst (scanEach env sc as [] s) ! k =
       scan_entry_of (acc_id (as ! k))
         (fst (scanAccount env sc (acc_id (as ! k)) (snd (scanEach env sc (take k as) [] s))))"
proof (induction as arbitrary: k s)
  case Nil
  then show ?case by simp
next
  case (Cons a as)
  obtain r s1 where r: "scanAccount env sc (acc_id a) s = (r, s1)"
    by (cases "scanAccount env sc (acc_id a) s")
  note split = scanEach_acc [of env sc _ "[scan_entry_of (acc_id a) r]" s1]
  show ?case
  proof (cases k)
    case 0
    with r split [of as] show ?thesis by simp
  next
    case (Suc k')
    with Cons.prems have "k' < length as" by simp
    from Cons.IH [OF this, of s1] r Suc split [of as] split [of "take k' as"]
    show ?thesis by simp
  qed
qed

text \<open>
  C4, as amended. \<open>scanAllAccounts\<close> first reads the list of accounts, outside any
  \<open>try\<close>: when that read fails, the call fails with the read's error and scans
  nothing. Once the list is read, the call does not fail: it returns one entry per
  account, in the order of the list; the entry of an account holds the findings of its
  \<open>scanAccount\<close>, or the message of the error that \<open>scanAccount\<close> threw, and each
  account is scanned in the state the scans of the accounts before it have left,
  whether they failed or not.
\<close>

theorem scanAllAccounts_entry_per_account:
  "(getAccounts env (dbService s) = (Inl e, svc0)
      \<longrightarrow> scanAllAccounts env sc s = (Inl e, s\<lparr>dbService := svc0\<rparr>))
   \<and> (getAccounts env (dbService s) = (Inr accounts, svc1)
      \<longrightarrow> (\<exists>entries s'. scanAllAccounts env sc s = (Inr entries, s')
           \<and> map entry_accountId entries = map acc_id accounts
           \<and> (\<forall>k < length accounts.
                 entries ! k = scan_entry_of (acc_id (accounts ! k))
                   (fst (scanAccount env sc (acc_id (accounts ! k))
                          (snd (scanEach env sc (take k accounts) [] (s\<lparr>dbService := svc1\<rparr>))))))))"
proof (intro conjI impI)
  assume "getAccounts env (dbService s) = (Inl e, svc0)"
  then show "scanAllAccounts env sc s = (Inl e, s\<lparr>dbService := svc0\<rparr>)"
    by (simp add: scanAllAccounts_def)
next
  assume g: "getAccounts env (dbService s) = (Inr accounts, svc1)"
  obtain entries s' where e: "scanEach env sc accounts [] (s\<lparr>dbService := svc1\<rparr>) = (entries, s')"
    by (cases "scanEach env sc accounts [] (s\<lparr>dbService := svc1\<rparr>)")
  with g have "scanAllAccounts env sc s = (Inr entries, s')"
    by (simp add: scanAllAccounts_def)
  moreover from e scanEach_ids [of env sc accounts "s\<lparr>dbService := svc1\<rparr>"]
  have "map entry_accountId entries = map acc_id accounts" by simp
  moreover from e scanEach_nth [of _ accounts env sc "s\<lparr>dbService := svc1\<rparr>"]
  have "\<forall>k < length accounts.
                 entries ! k = scan_entry_of (acc_id (accounts ! k))
                   (fst (scanAccount env sc (acc_id (accounts ! k))
                          (snd (scanEach env sc (take k accounts) [] (s\<lparr>dbService := svc1\<rparr>)))))"
    by simp
  ultimately show "\<exists>entries s'. scanAllAccounts env sc s = (Inr entries, s')
           \<and> map entry_accountId entries = map acc_id accounts
           \<and> (\<forall>k < length accounts.
                 entries ! k = scan_entry_of (acc_id (accounts ! k))
                   (fst (scanAccount env sc (acc_id (accounts ! k))
                          (snd (scanEach env sc (take k accounts) [] (s\<lparr>dbService := svc1\<rparr>))))))"
    by blast
qed

text \<open>
  The batch call fails when the list of accounts cannot be read: on a store whose driver
  refuses the SELECT, and on a service on which \<open>initialize\<close> has not run.
\<close>

theorem scanAllAccounts_never_fails_counterexample:
  "fst (scanAllAccounts (refusing 0) sample_scanners \<lparr>dbService = Some sample_db, invoked = []\<rparr>)
     = Inl io_error
   \<and> executed (the (dbService (snd (scanAllAccounts (refusing 0) sample_scanners
        \<lparr>dbService = Some sample_db, invoked = []\<rparr>)))) = [SelectAccounts]
   \<and> scanAllAccounts quiet sample_scanners \<lparr>dbService = None, invoked = []\<rparr>
     = (Inl (Error ''Database not initialized. Call initialize() first.''),
        \<lparr>dbService = None, invoked = []\<rparr>)"
  by (simp add: scanAllAccounts_def getAccounts_def ensureInitialized_def db_all_eq refusing_def
      sample_db_def not_initialized_def)

lemma scan_prod_denied:
  "scanAccount quiet denied_in_eu 1 \<lparr>dbService = Some (sample_db\<lparr>executed := [SelectAccounts]\<rparr>), invoked = []\<rparr> =
     (Inl (Error ''Invalid AWS credentials for account prod''),
      \<lparr>dbService = Some (sample_db\<lparr>executed := [SelectAccounts, SelectAccountById 1, SelectEnabledRegions 1]\<rparr>),
       invoked = [(GuardDuty, ''us-east-1''), (IAM, ''us-east-1''), (CloudTrail, ''us-east-1''),
         (CloudWatch, ''us-east-1''), (KMS, ''us-east-1''), (GuardDuty, ''us-east-1''),
         (SecurityHub, ''us-east-1''), (GuardDuty, ''eu-west-1'')]\<rparr>)"
proof -
  have a: "getAccount quiet 1 (Some (sample_db\<lparr>executed := [SelectAccounts]\<rparr>)) =
      (Inr (Some (account_of_row prod_row)),
       Some (sample_db\<lparr>executed := [SelectAccounts, SelectAccountById 1]\<rparr>))"
    using getAccount_found [of 1 "sample_db\<lparr>executed := [SelectAccounts]\<rparr>" prod_row quiet] prod_found
    by (simp add: quiet_def)
  have b: "getEnabledRegions quiet 1 (Some (sample_db\<lparr>executed := [SelectAccounts, SelectAccountById 1]\<rparr>)) =
      (Inr [us_east_1, eu_west_1],
       Some (sample_db\<lparr>executed := [SelectAccounts, SelectAccountById 1, SelectEnabledRegions 1]\<rparr>))"
    using getEnabledRegions_ok [of quiet "sample_db\<lparr>executed := [SelectAccounts, SelectAccountById 1]\<rparr>" 1]
      prod_regions
    by (simp add: quiet_def)
  show ?thesis
    by (simp add: scanAccount_def a b regions_denied account_of_row_def prod_row_def
        del: scanRegions.simps)
qed

lemma scan_dev_after:
  "fst (scanAccount quiet denied_in_eu 2
     \<lparr>dbService = Some (sample_db\<lparr>executed := [SelectAccounts, SelectAccountById 1, SelectEnabledRegions 1]\<rparr>),
       invoked = calls\<rparr>) = Inr []"
proof -
  have a: "getAccount quiet 2
      (Some (sample_db\<lparr>executed := [SelectAccounts, SelectAccountById 1, SelectEnabledRegions 1]\<rparr>)) =
      (Inr (Some (account_of_row dev_row)),
       Some (sample_db\<lparr>executed := [SelectAccounts, SelectAccountById 1, SelectEnabledRegions 1,
                                       SelectAccountById 2]\<rparr>))"
    using getAccount_found [of 2
        "sample_db\<lparr>executed := [SelectAccounts, SelectAccountById 1, SelectEnabledRegions 1]\<rparr>"
        dev_row quiet] dev_found
    by (simp add: quiet_def)
  have b: "getEnabledRegions quiet 2
      (Some (sample_db\<lparr>executed := [SelectAccounts, SelectAccountById 1, SelectEnabledRegions 1,
                                       SelectAccountById 2]\<rparr>)) =
      (Inr [], Some (sample_db\<lparr>executed := [SelectAccounts, SelectAccountById 1, SelectEnabledRegions 1,
                                       SelectAccountById 2, SelectEnabledRegions 2]\<rparr>))"
    using getEnabledRegions_ok [of quiet
        "sample_db\<lparr>executed := [SelectAccounts, SelectAccountById 1, SelectEnabledRegions 1,
                                       SelectAccountById 2]\<rparr>" 2]
      dev_regions
    by (simp add: quiet_def)
  have c: "storeFindingsForAccount quiet 2 []
      (Some (sample_db\<lparr>executed := [SelectAccounts, SelectAccountById 1, SelectEnabledRegions 1,
                                       SelectAccountById 2, SelectEnabledRegions 2]\<rparr>)) =
      (Inr (), Some (sample_db\<lparr>executed := [SelectAccounts, SelectAccountById 1, SelectEnabledRegions 1,
          SelectAccountById 2, SelectEnabledRegions 2, PrepareInsertFinding, FinalizeStatement]\<rparr>))"
    using storeFindingsForAccount_nothing [of quiet
        "sample_db\<lparr>executed := [SelectAccounts, SelectAccountById 1, SelectEnabledRegions 1,
                                       SelectAccountById 2, SelectEnabledRegions 2]\<rparr>" 2]
    by (simp add: quiet_def)
  show ?thesis
    by (simp add: scanAccount_def a b c)
qed

theorem scanAllAccounts_entry_per_account_witness:
  "getAccounts quiet (Some sample_db) =
     (Inr [account_of_row prod_row, account_of_row dev_row], Some (sample_db\<lparr>executed := [SelectAccounts]\<rparr>))
   \<and> fst (scanAllAccounts quiet denied_in_eu \<lparr>dbService = Some sample_db, invoked = []\<rparr>) =
       Inr [Failed 1 ''Invalid AWS credentials for account prod'', Scanned 2 []]
   \<and> getAccounts (refusing 0) (Some sample_db) =
       (Inl io_error, Some (sample_db\<lparr>executed := [SelectAccounts]\<rparr>))
   \<and> scanAllAccounts (refusing 0) denied_in_eu \<lparr>dbService = Some sample_db, invoked = []\<rparr> =
       (Inl io_error, \<lparr>dbService = Some (sample_db\<lparr>executed := [SelectAccounts]\<rparr>), invoked = []\<rparr>)"
proof -
  let ?s = "\<lparr>dbService = Some sample_db, invoked = []\<rparr>"
  let ?accounts = "[account_of_row prod_row, account_of_row dev_row]"
  have g: "getAccounts quiet (dbService ?s) =
     (Inr ?accounts, Some (sample_db\<lparr>executed := [SelectAccounts]\<rparr>))"
    by (simp add: getAccounts_def ensureInitialized_def db_all_eq quiet_def sample_db_def)
  have r: "getAccounts (refusing 0) (dbService ?s) =
     (Inl io_error, Some (sample_db\<lparr>executed := [SelectAccounts]\<rparr>))"
    by (simp add: getAccounts_def ensureInitialized_def db_all_eq refusing_def sample_db_def)
  from scanAllAccounts_entry_per_account
    [where env = "refusing 0" and s = ?s and sc = denied_in_eu and e = io_error
       and ?svc0.0 = "Some (sample_db\<lparr>executed := [SelectAccounts]\<rparr>)"] r
  have f: "scanAllAccounts (refusing 0) denied_in_eu ?s =
       (Inl io_error, \<lparr>dbService = Some (sample_db\<lparr>executed := [SelectAccounts]\<rparr>), invoked = []\<rparr>)"
    by simp
  from scanAllAccounts_entry_per_account
    [where env = quiet and s = ?s and sc = denied_in_eu and accounts = ?accounts
       and ?svc1.0 = "Some (sample_db\<lparr>executed := [SelectAccounts]\<rparr>)"] g
  obtain entries s' where e: "scanAllAccounts quiet denied_in_eu ?s = (Inr entries, s')"
    "map entry_accountId entries = map acc_id ?accounts"
    "\<forall>k < length ?accounts.
        entries ! k = scan_entry_of (acc_id (?accounts ! k))
          (fst (scanAccount quiet denied_in_eu (acc_id (?accounts ! k))
                 (snd (scanEach quiet denied_in_eu (take k ?accounts) []
                        (?s\<lparr>dbService := Some (sample_db\<lparr>executed := [SelectAccounts]\<rparr>)\<rparr>)))))"
    by blast
  from e(2) have len: "length entries = 2"
    using length_map [of entry_accountId entries] by simp
  from e(3) have e0: "entries ! 0 = Failed 1 ''Invalid AWS credentials for account prod''"
    by (simp add: scan_prod_denied scan_entry_of_def error_text_def Error_def
        account_of_row_def prod_row_def)
  from e(3) have "entries ! 1 = scan_entry_of (acc_id (?accounts ! 1))
          (fst (scanAccount quiet denied_in_eu (acc_id (?accounts ! 1))
                 (snd (scanEach quiet denied_in_eu (take 1 ?accounts) []
                        (?s\<lparr>dbService := Some (sample_db\<lparr>executed := [SelectAccounts]\<rparr>)\<rparr>)))))"
    by simp
  then have e1: "entries ! 1 = Scanned 2 []"
    by (simp add: account_of_row_def prod_row_def dev_row_def scan_prod_denied scan_dev_after
        scan_entry_of_def)
  from len e0 e1 have "entries = [Failed 1 ''Invalid AWS credentials for account prod'', Scanned 2 []]"
    by (simp add: list_eq_iff_nth_eq nth_Cons' eval_nat_numeral less_Suc_eq)
  with e(1) g r f show ?thesis by simp
qed

section \<open>The probes and their errors\<close>

lemma guardduty_try_fails:
  assumes "ListDetectorsCommand gd = Inl e
     \<or> (\<exists>d ds. ListDetectorsCommand gd = Inr (Some (d # ds)) \<and> ListFindingsCommand gd d = Inl e)
     \<or> (\<exists>d ds i ids. ListDetectorsCommand gd = Inr (Some (d # ds))
           \<and> ListFindingsCommand gd d = Inr (Some (i # ids))
           \<and> GetFindingsCommand gd d (i # ids) = Inl e)"
  shows "guardduty_try gd = Inl e"
  using assms by (auto simp add: guardduty_try_def)

lemma guardduty_catch_cases:
  "guardduty_catch e = e
   \<or> guardduty_catch e = Error (''AWS credentials error: '' @ message e)
   \<or> guardduty_catch e = Error ''Access denied to GuardDuty. Please check IAM permissions.''"
  by (simp add: guardduty_catch_def)

text \<open>
  What the \<open>catch\<close> block of the GuardDuty probe throws is a credential error for the
  orchestrator exactly when the error it caught is one: the errors it builds itself
  have the name Error and no HTTP status.
\<close>

lemma guardduty_catch_class: "credential_class (guardduty_catch e) = credential_class e"
  by (simp add: guardduty_catch_def credential_class_def Error_def)

text \<open>
  The loops stop at the first command that fails, with what the iterations before it
  have pushed.
\<close>

lemma iam_users_loop_stops:
  assumes "\<forall>u\<in>set us1. ListAccessKeysCommand iam (UserName u) = Inr (keys (UserName u))"
    and "ListAccessKeysCommand iam (UserName user) = Inl e"
  shows "iam_users_loop iam (us1 @ user # us2) findings =
           findings @ concat (map (\<lambda>u. iam_user_findings u (keys (UserName u))) us1)"
  using assms by (induction us1 arbitrary: findings) simp_all

lemma cloudtrail_loop_stops:
  assumes "\<forall>x\<in>set ts1. \<forall>n. Name x = Some n \<and> n \<noteq> [] \<longrightarrow> GetTrailStatusCommand ct n = Inr (status n)"
    and "Name t = Some name" and "name \<noteq> []" and "GetTrailStatusCommand ct name = Inl e"
  shows "cloudtrail_loop ct (ts1 @ t # ts2) findings =
           findings @ concat (map (\<lambda>x. case Name x of
                                          None \<Rightarrow> []
                                        | Some n \<Rightarrow> if n = [] then []
                                                    else cloudtrail_trail_findings x n (status n)) ts1)"
  using assms by (induction ts1 arbitrary: findings) (simp_all split: option.splits)

lemma kms_loop_stops:
  assumes "\<forall>i. Some i \<in> set ks1 \<and> i \<noteq> [] \<longrightarrow> DescribeKeyCommand kms i = Inr (metadata i)"
    and "keyId \<noteq> []" and "DescribeKeyCommand kms keyId = Inl e"
  shows "kms_loop kms (ks1 @ Some keyId # ks2) findings =
           findings @ concat (map (\<lambda>k. case k of
                                          None \<Rightarrow> []
                                        | Some i \<Rightarrow> if i = [] then []
                                                     else (case metadata i of
                                                             None \<Rightarrow> []
                                                           | Some m \<Rightarrow> kms_key_findings m)) ks1)"
  using assms by (induction ks1 arbitrary: findings) (simp_all split: option.splits)

lemma GuardDutyScanner_scan_returns:
  assumes "GuardDutyScanner_scan new_gd account reg = Inr fs"
  shows "accessKeyId account \<noteq> [] \<and> secretAccessKey account \<noteq> []
         \<and> (\<exists>gd. new_gd account reg = Inr gd \<and> guardduty_try gd = Inr fs)"
  using assms by (auto simp add: GuardDutyScanner_scan_def split: if_splits sum.splits)

lemma IAMScanner_scan_throws:
  "(IAMScanner_scan new_iam account reg = Inl e) = (new_iam account reg = Inl e)"
  by (simp add: IAMScanner_scan_def Let_def split: sum.splits)

lemma CloudTrailScanner_scan_throws:
  "(CloudTrailScanner_scan new_ct account reg = Inl e) = (new_ct account reg = Inl e)"
  by (simp add: CloudTrailScanner_scan_def split: sum.splits option.splits list.splits)

lemma CloudWatchScanner_scan_throws:
  "(CloudWatchScanner_scan new_cw account reg = Inl e) = (new_cw account reg = Inl e)"
  by (simp add: CloudWatchScanner_scan_def split: sum.splits option.splits list.splits)

lemma KMSScanner_scan_throws:
  "(KMSScanner_scan new_kms account reg = Inl e) = (new_kms account reg = Inl e)"
  by (simp add: KMSScanner_scan_def split: sum.splits option.splits list.splits)

lemma SecurityHubScanner_scan_throws:
  "(SecurityHubScanner_scan new_sh account reg = Inl e) = (new_sh account reg = Inl e)"
  by (simp add: SecurityHubScanner_scan_def split: sum.splits option.splits list.splits)

text \<open>
  Of the six scanners the orchestrator constructs, the five of the fan-out other than
  GuardDuty throw exactly when the constructor of their client throws.
\<close>

lemma constructor_scanners_throw:
  "(iamScanner (constructor w) n account reg = Inl e) = (iamClient w n account reg = Inl e)"
  "(cloudTrailScanner (constructor w) n account reg = Inl e) = (cloudTrailClient w n account reg = Inl e)"
  "(cloudWatchScanner (constructor w) n account reg = Inl e) = (cloudWatchClient w n account reg = Inl e)"
  "(kmsScanner (constructor w) n account reg = Inl e) = (kmsClient w n account reg = Inl e)"
  "(securityHubScanner (constructor w) n account reg = Inl e) = (securityHubClient w n account reg = Inl e)"
  by (simp_all add: constructor_def IAMScanner_scan_throws CloudTrailScanner_scan_throws
      CloudWatchScanner_scan_throws KMSScanner_scan_throws SecurityHubScanner_scan_throws)

lemma IAMScanner_scan_stops:
  assumes "new_iam account reg = Inr iam" and "GetAccountSummaryCommand iam = Inr summary"
    and "ListUsersCommand iam = Inr (Some (us1 @ user # us2))"
    and "\<forall>u\<in>set us1. ListAccessKeysCommand iam (UserName u) = Inr (keys (UserName u))"
    and "ListAccessKeysCommand iam (UserName user) = Inl e"
  shows "IAMScanner_scan new_iam account reg =
           Inr (iam_summary_findings summary
                @ concat (map (\<lambda>u. iam_user_findings u (keys (UserName u))) us1))"
  using assms(1,2,3) iam_users_loop_stops [OF assms(4,5)]
  by (simp add: IAMScanner_scan_def Let_def)

lemma CloudTrailScanner_scan_stops:
  assumes "new_ct account reg = Inr ct"
    and "DescribeTrailsCommand ct = Inr (Some (ts1 @ t # ts2))"
    and "\<forall>x\<in>set ts1. \<forall>n. Name x = Some n \<and> n \<noteq> [] \<longrightarrow> GetTrailStatusCommand ct n = Inr (status n)"
    and "Name t = Some name" and "name \<noteq> []" and "GetTrailStatusCommand ct name = Inl e"
  shows "CloudTrailScanner_scan new_ct account reg =
           Inr (concat (map (\<lambda>x. case Name x of
                                     None \<Rightarrow> []
                                   | Some n \<Rightarrow> if n = [] then []
                                               else cloudtrail_trail_findings x n (status n)) ts1))"
proof -
  obtain y ys where l: "ts1 @ t # ts2 = y # ys"
    by (cases "ts1 @ t # ts2") simp_all
  from cloudtrail_loop_stops [OF assms(3,4,5,6), of ts2 "[]"] assms(1,2) l show ?thesis
    by (simp add: CloudTrailScanner_scan_def)
qed

lemma KMSScanner_scan_stops:
  assumes "new_kms account reg = Inr kms"
    and "ListKeysCommand kms = Inr (Some (ks1 @ Some keyId # ks2))"
    and "\<forall>i. Some i \<in> set ks1 \<and> i \<noteq> [] \<longrightarrow> DescribeKeyCommand kms i = Inr (metadata i)"
    and "keyId \<noteq> []" and "DescribeKeyCommand kms keyId = Inl e"
  shows "KMSScanner_scan new_kms account reg =
           Inr (concat (map (\<lambda>k. case k of
                                     None \<Rightarrow> []
                                   | Some i \<Rightarrow> if i = [] then []
                                                else (case metadata i of
                                                        None \<Rightarrow> []
                                                      | Some m \<Rightarrow> kms_key_findings m)) ks1))"
proof -
  obtain y ys where l: "ks1 @ Some keyId # ks2 = y # ys"
    by (cases "ks1 @ Some keyId # ks2") simp_all
  from kms_loop_stops [OF assms(3,4,5), of ks2 "[]"] assms(1,2) l show ?thesis
    by (simp add: KMSScanner_scan_def)
qed

text \<open>
  C8, as amended. An error inside \<open>GuardDutyScanner.scan\<close> always reaches the caller:
  \<^item> without an access key id or a secret key, \<open>scan\<close> throws "Missing AWS credentials";
  \<^item> an error of the client constructor is thrown as it is;
  \<^item> when a command it sends fails, \<open>scan\<close> throws what its \<open>catch\<close> block makes of the
    error: the error itself or, for a message that contains "credentials" or
    "AccessDenied", a new error;
  \<^item> a list it returns is the list of a \<open>try\<close> block that ran to its end.

  Each of the other five probes throws exactly when its client constructor throws, and
  throws that error: the constructor is called before the \<open>try\<close> block. Once the
  client is built, an error of a command is caught and \<open>scan\<close> returns the findings
  pushed before that command:
  \<^item> IAM: none when \<open>GetAccountSummaryCommand\<close> fails; those of the account summary
    when \<open>ListUsersCommand\<close> fails; those and the ones of the users before the user whose
    \<open>ListAccessKeysCommand\<close> fails;
  \<^item> CloudTrail: none when \<open>DescribeTrailsCommand\<close> fails; those of the trails before
    the trail whose \<open>GetTrailStatusCommand\<close> fails;
  \<^item> CloudWatch: none when \<open>DescribeAlarmsCommand\<close> fails, whereas its answer gives
    the finding of a region without alarms or the findings of the alarms;
  \<^item> KMS: none when \<open>ListKeysCommand\<close> fails; those of the keys before the key whose
    \<open>DescribeKeyCommand\<close> fails;
  \<^item> SecurityHub: when \<open>GetEnabledStandardsCommand\<close> fails, the finding "SecurityHub
    Not Enabled" for the errors InvalidAccessException and ResourceNotFoundException
    and none for any other error; none when \<open>GetFindingsCommand\<close> fails.
\<close>

theorem guardduty_propagates_others_absorb:
  "(accessKeyId account = [] \<or> secretAccessKey account = []
      \<longrightarrow> GuardDutyScanner_scan new_gd account reg = Inl (Error ''Missing AWS credentials''))
   \<and> (accessKeyId account \<noteq> [] \<and> secretAccessKey account \<noteq> [] \<and> new_gd account reg = Inl e
      \<longrightarrow> GuardDutyScanner_scan new_gd account reg = Inl e)
   \<and> (accessKeyId account \<noteq> [] \<and> secretAccessKey account \<noteq> [] \<and> new_gd account reg = Inr gd
       \<and> (ListDetectorsCommand gd = Inl e
           \<or> (\<exists>d ds. ListDetectorsCommand gd = Inr (Some (d # ds)) \<and> ListFindingsCommand gd d = Inl e)
           \<or> (\<exists>d ds i ids. ListDetectorsCommand gd = Inr (Some (d # ds))
                 \<and> ListFindingsCommand gd d = Inr (Some (i # ids))
                 \<and> GetFindingsCommand gd d (i # ids) = Inl e))
      \<longrightarrow> GuardDutyScanner_scan new_gd account reg = Inl (guardduty_catch e)
          \<and> (guardduty_catch e = e
             \<or> guardduty_catch e = Error (''AWS credentials error: '' @ message e)
             \<or> guardduty_catch e = Error ''Access denied to GuardDuty. Please check IAM permissions.''))
   \<and> (GuardDutyScanner_scan new_gd account reg = Inr fs
      \<longrightarrow> accessKeyId account \<noteq> [] \<and> secretAccessKey account \<noteq> []
          \<and> (\<exists>client. new_gd account reg = Inr client \<and> guardduty_try client = Inr fs))
   \<and> (IAMScanner_scan new_iam account reg = Inl e) = (new_iam account reg = Inl e)
   \<and> (new_iam account reg = Inr iam \<and> GetAccountSummaryCommand iam = Inl e
      \<longrightarrow> IAMScanner_scan new_iam account reg = Inr [])
   \<and> (new_iam account reg = Inr iam \<and> GetAccountSummaryCommand iam = Inr summary
       \<and> ListUsersCommand iam = Inl e
      \<longrightarrow> IAMScanner_scan new_iam account reg = Inr (iam_summary_findings summary))
   \<and> (new_iam account reg = Inr iam \<and> GetAccountSummaryCommand iam = Inr summary
       \<and> ListUsersCommand iam = Inr (Some (us1 @ user # us2))
       \<and> (\<forall>u\<in>set us1. ListAccessKeysCommand iam (UserName u) = Inr (keys (UserName u)))
       \<and> ListAccessKeysCommand iam (UserName user) = Inl e
      \<longrightarrow> IAMScanner_scan new_iam account reg =
            Inr (iam_summary_findings summary
                 @ concat (map (\<lambda>u. iam_user_findings u (keys (UserName u))) us1)))
   \<and> (CloudTrailScanner_scan new_ct account reg = Inl e) = (new_ct account reg = Inl e)
   \<and> (new_ct account reg = Inr ct \<and> DescribeTrailsCommand ct = Inl e
      \<longrightarrow> CloudTrailScanner_scan new_ct account reg = Inr [])
   \<and> (new_ct account reg = Inr ct \<and> DescribeTrailsCommand ct = Inr (Some (ts1 @ t # ts2))
       \<and> (\<forall>x\<in>set ts1. \<forall>n. Name x = Some n \<and> n \<noteq> []
              \<longrightarrow> GetTrailStatusCommand ct n = Inr (status n))
       \<and> Name t = Some name \<and> name \<noteq> [] \<and> GetTrailStatusCommand ct name = Inl e
      \<longrightarrow> CloudTrailScanner_scan new_ct account reg =
            Inr (concat (map (\<lambda>x. case Name x of
                                      None \<Rightarrow> []
                                    | Some n \<Rightarrow> if n = [] then []
                                                else cloudtrail_trail_findings x n (status n)) ts1)))
   \<and> (CloudWatchScanner_scan new_cw account reg = Inl e) = (new_cw account reg = Inl e)
   \<and> (new_cw account reg = Inr cw \<and> DescribeAlarmsCommand cw = Inl e
      \<longrightarrow> CloudWatchScanner_scan new_cw account reg = Inr [])
   \<and> (new_cw account reg = Inr cw \<and> DescribeAlarmsCommand cw = Inr alarms
      \<longrightarrow> CloudWatchScanner_scan new_cw account reg =
            Inr (case alarms of
                   None \<Rightarrow> [cloudwatch_no_alarms]
                 | Some l \<Rightarrow> if l = [] then [cloudwatch_no_alarms] else cloudwatch_alarm_findings l))
   \<and> (KMSScanner_scan new_kms account reg = Inl e) = (new_kms account reg = Inl e)
   \<and> (new_kms account reg = Inr kms \<and> ListKeysCommand kms = Inl e
      \<longrightarrow> KMSScanner_scan new_kms account reg = Inr [])
   \<and> (new_kms account reg = Inr kms \<and> ListKeysCommand kms = Inr (Some (ks1 @ Some keyId # ks2))
       \<and> (\<forall>i. Some i \<in> set ks1 \<and> i \<noteq> [] \<longrightarrow> DescribeKeyCommand kms i = Inr (metadata i))
       \<and> keyId \<noteq> [] \<and> DescribeKeyCommand kms keyId = Inl e
      \<longrightarrow> KMSScanner_scan new_kms account reg =
            Inr (concat (map (\<lambda>k. case k of
                                      None \<Rightarrow> []
                                    | Some i \<Rightarrow> if i = [] then []
                                                else (case metadata i of
                                                        None \<Rightarrow> []
                                                      | Some m \<Rightarrow> kms_key_findings m)) ks1)))
   \<and> (SecurityHubScanner_scan new_sh account reg = Inl e) = (new_sh account reg = Inl e)
   \<and> (new_sh account reg = Inr sh \<and> GetEnabledStandardsCommand sh = Inl e
      \<longrightarrow> SecurityHubScanner_scan new_sh account reg =
            Inr (if error_name e = Some ''InvalidAccessException''
                    \<or> error_name e = Some ''ResourceNotFoundException''
                 then [securityhub_not_enabled] else []))
   \<and> (new_sh account reg = Inr sh \<and> GetEnabledStandardsCommand sh = Inr ()
       \<and> SecurityHub_GetFindingsCommand sh = Inl e
      \<longrightarrow> SecurityHubScanner_scan new_sh account reg = Inr [])"
proof -
  have gd1: "accessKeyId account = [] \<or> secretAccessKey account = []
      \<longrightarrow> GuardDutyScanner_scan new_gd account reg = Inl (Error ''Missing AWS credentials'')"
    by (simp add: GuardDutyScanner_scan_def)
  have gd2: "accessKeyId account \<noteq> [] \<and> secretAccessKey account \<noteq> [] \<and> new_gd account reg = Inl e
      \<longrightarrow> GuardDutyScanner_scan new_gd account reg = Inl e"
    by (simp add: GuardDutyScanner_scan_def)
  have gd3: "accessKeyId account \<noteq> [] \<and> secretAccessKey account \<noteq> [] \<and> new_gd account reg = Inr gd
       \<and> (ListDetectorsCommand gd = Inl e
           \<or> (\<exists>d ds. ListDetectorsCommand gd = Inr (Some (d # ds)) \<and> ListFindingsCommand gd d = Inl e)
           \<or> (\<exists>d ds i ids. ListDetectorsCommand gd = Inr (Some (d # ds))
                 \<and> ListFindingsCommand gd d = Inr (Some (i # ids))
                 \<and> GetFindingsCommand gd d (i # ids) = Inl e))
      \<longrightarrow> GuardDutyScanner_scan new_gd account reg = Inl (guardduty_catch e)
          \<and> (guardduty_catch e = e
             \<or> guardduty_catch e = Error (''AWS credentials error: '' @ message e)
             \<or> guardduty_catch e = Error ''Access denied to GuardDuty. Please check IAM permissions.'')"
    using guardduty_try_fails [of gd e] guardduty_catch_cases [of e]
    by (simp add: GuardDutyScanner_scan_def)
  have gd4: "GuardDutyScanner_scan new_gd account reg = Inr fs
      \<longrightarrow> accessKeyId account \<noteq> [] \<and> secretAccessKey account \<noteq> []
          \<and> (\<exists>client. new_gd account reg = Inr client \<and> guardduty_try client = Inr fs)"
    using GuardDutyScanner_scan_returns by blast
  have iam1: "new_iam account reg = Inr iam \<and> GetAccountSummaryCommand iam = Inl e
      \<longrightarrow> IAMScanner_scan new_iam account reg = Inr []"
    by (simp add: IAMScanner_scan_def)
  have iam2: "new_iam account reg = Inr iam \<and> GetAccountSummaryCommand iam = Inr summary
       \<and> ListUsersCommand iam = Inl e
      \<longrightarrow> IAMScanner_scan new_iam account reg = Inr (iam_summary_findings summary)"
    by (simp add: IAMScanner_scan_def)
  have iam3: "new_iam account reg = Inr iam \<and> GetAccountSummaryCommand iam = Inr summary
       \<and> ListUsersCommand iam = Inr (Some (us1 @ user # us2))
       \<and> (\<forall>u\<in>set us1. ListAccessKeysCommand iam (UserName u) = Inr (keys (UserName u)))
       \<and> ListAccessKeysCommand iam (UserName user) = Inl e
      \<longrightarrow> IAMScanner_scan new_iam account reg =
            Inr (iam_summary_findings summary
                 @ concat (map (\<lambda>u. iam_user_findings u (keys (UserName u))) us1))"
    using IAMScanner_scan_stops by blast
  have ct1: "new_ct account reg = Inr ct \<and> DescribeTrailsCommand ct = Inl e
      \<longrightarrow> CloudTrailScanner_scan new_ct account reg = Inr []"
    by (simp add: CloudTrailScanner_scan_def)
  have ct2: "new_ct account reg = Inr ct \<and> DescribeTrailsCommand ct = Inr (Some (ts1 @ t # ts2))
       \<and> (\<forall>x\<in>set ts1. \<forall>n. Name x = Some n \<and> n \<noteq> []
              \<longrightarrow> GetTrailStatusCommand ct n = Inr (status n))
       \<and> Name t = Some name \<and> name \<noteq> [] \<and> GetTrailStatusCommand ct name = Inl e
      \<longrightarrow> CloudTrailScanner_scan new_ct account reg =
            Inr (concat (map (\<lambda>x. case Name x of
                                      None \<Rightarrow> []
                                    | Some n \<Rightarrow> if n = [] then []
                                                else cloudtrail_trail_findings x n (status n)) ts1))"
    using CloudTrailScanner_scan_stops [of new_ct account reg ct ts1 t ts2 status name e] by blast
  have cw1: "new_cw account reg = Inr cw \<and> DescribeAlarmsCommand cw = Inl e
      \<longrightarrow> CloudWatchScanner_scan new_cw account reg = Inr []"
    by (simp add: CloudWatchScanner_scan_def)
  have cw2: "new_cw account reg = Inr cw \<and> DescribeAlarmsCommand cw = Inr alarms
      \<longrightarrow> CloudWatchScanner_scan new_cw account reg =
            Inr (case alarms of
                   None \<Rightarrow> [cloudwatch_no_alarms]
                 | Some l \<Rightarrow> if l = [] then [cloudwatch_no_alarms] else cloudwatch_alarm_findings l)"
    by (simp add: CloudWatchScanner_scan_def split: option.splits list.splits)
  have kms1: "new_kms account reg = Inr kms \<and> ListKeysCommand kms = Inl e
      \<longrightarrow> KMSScanner_scan new_kms account reg = Inr []"
    by (simp add: KMSScanner_scan_def)
  have kms2: "new_kms account reg = Inr kms \<and> ListKeysCommand kms = Inr (Some (ks1 @ Some keyId # ks2))
       \<and> (\<forall>i. Some i \<in> set ks1 \<and> i \<noteq> [] \<longrightarrow> DescribeKeyCommand kms i = Inr (metadata i))
       \<and> keyId \<noteq> [] \<and> DescribeKeyCommand kms keyId = Inl e
      \<longrightarrow> KMSScanner_scan new_kms account reg =
            Inr (concat (map (\<lambda>k. case k of
                                      None \<Rightarrow> []
                                    | Some i \<Rightarrow> if i = [] then []
                                                else (case metadata i of
                                                        None \<Rightarrow> []
                                                      | Some m \<Rightarrow> kms_key_findings m)) ks1))"
    using KMSScanner_scan_stops [of new_kms account reg kms ks1 keyId ks2 metadata e] by blast
  have sh1: "new_sh account reg = Inr sh \<and> GetEnabledStandardsCommand sh = Inl e
      \<longrightarrow> SecurityHubScanner_scan new_sh account reg =
            Inr (if error_name e = Some ''InvalidAccessException''
                    \<or> error_name e = Some ''ResourceNotFoundException''
                 then [securityhub_not_enabled] else [])"
    by (simp add: SecurityHubScanner_scan_def)
  have sh2: "new_sh account reg = Inr sh \<and> GetEnabledStandardsCommand sh = Inr ()
       \<and> SecurityHub_GetFindingsCommand sh = Inl e
      \<longrightarrow> SecurityHubScanner_scan new_sh account reg = Inr []"
    by (simp add: SecurityHubScanner_scan_def)
  show ?thesis
    by (intro conjI gd1 gd2 gd3 gd4 iam1 iam2 iam3 ct1 ct2 cw1 cw2 kms1 kms2 sh1 sh2
        IAMScanner_scan_throws CloudTrailScanner_scan_throws CloudWatchScanner_scan_throws
        KMSScanner_scan_throws SecurityHubScanner_scan_throws)
qed

text \<open>
  With an empty region the constructor of the SDK throws before the \<open>try\<close> block is
  entered: the IAM, CloudTrail, CloudWatch, KMS and SecurityHub scans throw its error,
  and absorb nothing.
\<close>

theorem other_probes_absorb_counterexample:
  "IAMScanner_scan (iamClient sample_aws 0) prod_account '''' = Inl (Error ''Region is missing'')
   \<and> CloudTrailScanner_scan (cloudTrailClient sample_aws 0) prod_account '''' = Inl (Error ''Region is missing'')
   \<and> CloudWatchScanner_scan (cloudWatchClient sample_aws 0) prod_account '''' = Inl (Error ''Region is missing'')
   \<and> KMSScanner_scan (kmsClient sample_aws 0) prod_account '''' = Inl (Error ''Region is missing'')
   \<and> SecurityHubScanner_scan (securityHubClient sample_aws 0) prod_account '''' = Inl (Error ''Region is missing'')"
  by (simp add: IAMScanner_scan_def CloudTrailScanner_scan_def CloudWatchScanner_scan_def
      KMSScanner_scan_def SecurityHubScanner_scan_def sample_aws_def new_client_def
      region_missing_def)

theorem guardduty_propagates_others_absorb_witness:
  "GuardDutyScanner_scan (guardDutyClient sample_aws 0) prod_account ''us-east-1'' = Inl throttled
   \<and> GuardDutyScanner_scan
         (new_client \<lparr>ListDetectorsCommand = Inr (Some [''d1'']), ListFindingsCommand = (\<lambda>d. Inl no_provider),
            GetFindingsCommand = (\<lambda>d ids. Inr None)\<rparr>) prod_account ''us-east-1''
       = Inl (Error ''AWS credentials error: Could not load credentials from any providers'')
   \<and> GuardDutyScanner_scan (guardDutyClient sample_aws 0) prod_account '''' = Inl (Error ''Region is missing'')
   \<and> GuardDutyScanner_scan (guardDutyClient sample_aws 0) (prod_account\<lparr>secretAccessKey := ''''\<rparr>) ''us-east-1''
       = Inl (Error ''Missing AWS credentials'')
   \<and> GuardDutyScanner_scan (guardDutyClient sample_aws 1) prod_account ''us-east-1'' = Inr [guardduty_not_enabled]
   \<and> guardduty_try \<lparr>ListDetectorsCommand = Inr (Some []), ListFindingsCommand = (\<lambda>d. Inr None),
         GetFindingsCommand = (\<lambda>d ids. Inr None)\<rparr> = Inr [guardduty_not_enabled]
   \<and> IAMScanner_scan (new_client \<lparr>GetAccountSummaryCommand = Inl throttled, ListUsersCommand = Inr None,
         ListAccessKeysCommand = (\<lambda>u. Inr None)\<rparr>) prod_account ''us-east-1'' = Inr []
   \<and> IAMScanner_scan (iamClient sample_aws 0) prod_account ''us-east-1'' = Inr [iam_root_mfa]
   \<and> IAMScanner_scan (new_client two_users) prod_account ''us-east-1'' = Inr [iam_root_mfa, iam_inactive_user alice]
   \<and> CloudTrailScanner_scan (new_client \<lparr>DescribeTrailsCommand = Inl throttled,
         GetTrailStatusCommand = (\<lambda>n. Inr None)\<rparr>) prod_account ''us-east-1'' = Inr []
   \<and> CloudTrailScanner_scan (new_client two_trails) prod_account ''us-east-1''
       = Inr [cloudtrail_finding main_trail ''main'' ''HIGH'' ''CloudTrail Logging Disabled''
                ''CloudTrail main is not actively logging.''
                ''Enable logging for the CloudTrail trail to maintain audit records.'']
   \<and> CloudWatchScanner_scan (cloudWatchClient sample_aws 0) prod_account ''us-east-1'' = Inr []
   \<and> CloudWatchScanner_scan (new_client \<lparr>DescribeAlarmsCommand = Inr None\<rparr>) prod_account ''us-east-1''
       = Inr [cloudwatch_no_alarms]
   \<and> KMSScanner_scan (new_client \<lparr>ListKeysCommand = Inl throttled, DescribeKeyCommand = (\<lambda>k. Inr None)\<rparr>)
         prod_account ''us-east-1'' = Inr []
   \<and> KMSScanner_scan (new_client two_keys) prod_account ''us-east-1''
       = Inr [kms_finding disabled_key ''MEDIUM'' ''Disabled KMS Key'' ''KMS key k1 is disabled.''
                ''Review and enable important KMS keys or schedule them for deletion if no longer needed.'']
   \<and> KMSScanner_scan (new_client two_keys) prod_account '''' = Inl (Error ''Region is missing'')
   \<and> SecurityHubScanner_scan (securityHubClient sample_aws 0) prod_account ''us-east-1'' = Inr [securityhub_not_enabled]
   \<and> SecurityHubScanner_scan (new_client \<lparr>GetEnabledStandardsCommand = Inl throttled,
         SecurityHub_GetFindingsCommand = Inr None\<rparr>) prod_account ''us-east-1'' = Inr []
   \<and> SecurityHubScanner_scan (new_client \<lparr>GetEnabledStandardsCommand = Inr (),
         SecurityHub_GetFindingsCommand = Inl throttled\<rparr>) prod_account ''us-east-1'' = Inr []"
proof -
  note clients = sample_aws_def new_client_def region_missing_def
  have keys: "accessKeyId prod_account \<noteq> [] \<and> secretAccessKey prod_account \<noteq> []"
    by (simp add: prod_account_def account_of_row_def prod_row_def)
  have c1: "guardduty_catch throttled = throttled"
    by (simp add: guardduty_catch_def throttled_def)
  have c2: "guardduty_catch no_provider =
      Error ''AWS credentials error: Could not load credentials from any providers''"
    by (simp add: guardduty_catch_def no_provider_def)
  from guardduty_propagates_others_absorb
    [where new_gd = "guardDutyClient sample_aws 0" and account = prod_account and reg = "''us-east-1''"
       and gd = "\<lparr>ListDetectorsCommand = Inl throttled, ListFindingsCommand = (\<lambda>d. Inr None),
                   GetFindingsCommand = (\<lambda>d ids. Inr None)\<rparr>" and e = throttled,
       THEN conjunct2, THEN conjunct2, THEN conjunct1] keys c1
  have g1: "GuardDutyScanner_scan (guardDutyClient sample_aws 0) prod_account ''us-east-1'' = Inl throttled"
    by (simp add: clients)
  from guardduty_propagates_others_absorb
    [where new_gd = "new_client \<lparr>ListDetectorsCommand = Inr (Some [''d1'']),
            ListFindingsCommand = (\<lambda>d. Inl no_provider), GetFindingsCommand = (\<lambda>d ids. Inr None)\<rparr>"
       and gd = "\<lparr>ListDetectorsCommand = Inr (Some [''d1'']),
            ListFindingsCommand = (\<lambda>d. Inl no_provider), GetFindingsCommand = (\<lambda>d ids. Inr None)\<rparr>"
       and account = prod_account and reg = "''us-east-1''" and e = no_provider,
       THEN conjunct2, THEN conjunct2, THEN conjunct1] keys c2
  have g2: "GuardDutyScanner_scan
         (new_client \<lparr>ListDetectorsCommand = Inr (Some [''d1'']), ListFindingsCommand = (\<lambda>d. Inl no_provider),
            GetFindingsCommand = (\<lambda>d ids. Inr None)\<rparr>) prod_account ''us-east-1''
       = Inl (Error ''AWS credentials error: Could not load credentials from any providers'')"
    by (simp add: clients)
  from guardduty_propagates_others_absorb
    [where new_gd = "guardDutyClient sample_aws 0" and account = prod_account and reg = "''''"
       and e = "Error ''Region is missing''",
       THEN conjunct2, THEN conjunct1] keys
  have g3: "GuardDutyScanner_scan (guardDutyClient sample_aws 0) prod_account '''' = Inl (Error ''Region is missing'')"
    by (simp add: clients)
  from guardduty_propagates_others_absorb
    [where new_gd = "guardDutyClient sample_aws 0" and account = "prod_account\<lparr>secretAccessKey := ''''\<rparr>"
       and reg = "''us-east-1''",
       THEN conjunct1]
  have g4: "GuardDutyScanner_scan (guardDutyClient sample_aws 0) (prod_account\<lparr>secretAccessKey := ''''\<rparr>) ''us-east-1''
       = Inl (Error ''Missing AWS credentials'')"
    by simp
  have g5: "GuardDutyScanner_scan (guardDutyClient sample_aws 1) prod_account ''us-east-1'' = Inr [guardduty_not_enabled]"
    using keys by (simp add: GuardDutyScanner_scan_def guardduty_try_def clients)
  from guardduty_propagates_others_absorb
    [where new_gd = "guardDutyClient sample_aws 1" and account = prod_account and reg = "''us-east-1''"
       and fs = "[guardduty_not_enabled]",
       THEN conjunct2, THEN conjunct2, THEN conjunct2, THEN conjunct1] g5
  have g6: "guardduty_try \<lparr>ListDetectorsCommand = Inr (Some []), ListFindingsCommand = (\<lambda>d. Inr None),
         GetFindingsCommand = (\<lambda>d ids. Inr None)\<rparr> = Inr [guardduty_not_enabled]"
    by (simp add: clients)
  from guardduty_propagates_others_absorb
    [where new_iam = "new_client \<lparr>GetAccountSummaryCommand = Inl throttled, ListUsersCommand = Inr None,
         ListAccessKeysCommand = (\<lambda>u. Inr None)\<rparr>"
       and iam = "\<lparr>GetAccountSummaryCommand = Inl throttled, ListUsersCommand = Inr None,
         ListAccessKeysCommand = (\<lambda>u. Inr None)\<rparr>"
       and account = prod_account and reg = "''us-east-1''" and e = throttled,
       THEN conjunct2, THEN conjunct2, THEN conjunct2, THEN conjunct2, THEN conjunct2, THEN conjunct1]
  have i1: "IAMScanner_scan (new_client \<lparr>GetAccountSummaryCommand = Inl throttled, ListUsersCommand = Inr None,
         ListAccessKeysCommand = (\<lambda>u. Inr None)\<rparr>) prod_account ''us-east-1'' = Inr []"
    by (simp add: clients)
  from guardduty_propagates_others_absorb
    [where new_iam = "iamClient sample_aws 0"
       and iam = "\<lparr>GetAccountSummaryCommand = Inr None, ListUsersCommand = Inl throttled,
         ListAccessKeysCommand = (\<lambda>u. Inr None)\<rparr>"
       and summary = None
       and account = prod_account and reg = "''us-east-1''" and e = throttled,
       THEN conjunct2, THEN conjunct2, THEN conjunct2, THEN conjunct2, THEN conjunct2, THEN conjunct2, THEN conjunct1]
  have i2: "IAMScanner_scan (iamClient sample_aws 0) prod_account ''us-east-1'' = Inr [iam_root_mfa]"
    by (simp add: clients iam_summary_findings_def)
  from guardduty_propagates_others_absorb
    [where new_iam = "new_client two_users" and iam = two_users and summary = None
       and ?us1.0 = "[alice]" and user = bob and ?us2.0 = "[]" and keys = "\<lambda>u. None"
       and account = prod_account and reg = "''us-east-1''" and e = throttled,
       THEN conjunct2, THEN conjunct2, THEN conjunct2, THEN conjunct2, THEN conjunct2, THEN conjunct2, THEN conjunct2, THEN conjunct1]
  have i3: "IAMScanner_scan (new_client two_users) prod_account ''us-east-1'' = Inr [iam_root_mfa, iam_inactive_user alice]"
    by (simp add: clients two_users_def alice_def bob_def iam_summary_findings_def iam_user_findings_def)
  from guardduty_propagates_others_absorb
    [where new_ct = "new_client \<lparr>DescribeTrailsCommand = Inl throttled,
         GetTrailStatusCommand = (\<lambda>n. Inr None)\<rparr>"
       and ct = "\<lparr>DescribeTrailsCommand = Inl throttled, GetTrailStatusCommand = (\<lambda>n. Inr None)\<rparr>"
       and account = prod_account and reg = "''us-east-1''" and e = throttled,
       THEN conjunct2, THEN conjunct2, THEN conjunct2, THEN conjunct2, THEN conjunct2, THEN conjunct2, THEN conjunct2, THEN conjunct2, THEN conjunct2, THEN conjunct1]
  have t1: "CloudTrailScanner_scan (new_client \<lparr>DescribeTrailsCommand = Inl throttled,
         GetTrailStatusCommand = (\<lambda>n. Inr None)\<rparr>) prod_account ''us-east-1'' = Inr []"
    by (simp add: clients)
  from guardduty_propagates_others_absorb
    [where new_ct = "new_client two_trails" and ct = two_trails
       and ?ts1.0 = "[main_trail]" and t = audit_trail and ?ts2.0 = "[]" and status = "\<lambda>n. Some False"
       and name = "''audit''"
       and account = prod_account and reg = "''us-east-1''" and e = throttled,
       THEN conjunct2, THEN conjunct2, THEN conjunct2, THEN conjunct2, THEN conjunct2, THEN conjunct2, THEN conjunct2, THEN conjunct2, THEN conjunct2, THEN conjunct2, THEN conjunct1]
  have t2: "CloudTrailScanner_scan (new_client two_trails) prod_account ''us-east-1''
       = Inr [cloudtrail_finding main_trail ''main'' ''HIGH'' ''CloudTrail Logging Disabled''
                ''CloudTrail main is not actively logging.''
                ''Enable logging for the CloudTrail trail to maintain audit records.'']"
    by (simp add: clients two_trails_def main_trail_def audit_trail_def cloudtrail_trail_findings_def)
  from guardduty_propagates_others_absorb
    [where new_cw = "cloudWatchClient sample_aws 0" and cw = "\<lparr>DescribeAlarmsCommand = Inl throttled\<rparr>"
       and account = prod_account and reg = "''us-east-1''" and e = throttled,
       THEN conjunct2, THEN conjunct2, THEN conjunct2, THEN conjunct2, THEN conjunct2, THEN conjunct2, THEN conjunct2, THEN conjunct2, THEN conjunct2, THEN conjunct2, THEN conjunct2, THEN conjunct2, THEN conjunct1]
  have w1: "CloudWatchScanner_scan (cloudWatchClient sample_aws 0) prod_account ''us-east-1'' = Inr []"
    by (simp add: clients)
  from guardduty_propagates_others_absorb
    [where new_cw = "new_client \<lparr>DescribeAlarmsCommand = Inr None\<rparr>"
       and cw = "\<lparr>DescribeAlarmsCommand = Inr None\<rparr>" and alarms = None
       and account = prod_account and reg = "''us-east-1''",
       THEN conjunct2, THEN conjunct2, THEN conjunct2, THEN conjunct2, THEN conjunct2, THEN conjunct2, THEN conjunct2, THEN conjunct2, THEN conjunct2, THEN conjunct2, THEN conjunct2, THEN conjunct2, THEN conjunct2, THEN conjunct1]
  have w2: "CloudWatchScanner_scan (new_client \<lparr>DescribeAlarmsCommand = Inr None\<rparr>) prod_account ''us-east-1''
       = Inr [cloudwatch_no_alarms]"
    by (simp add: clients)
  from guardduty_propagates_others_absorb
    [where new_kms = "new_client \<lparr>ListKeysCommand = Inl throttled, DescribeKeyCommand = (\<lambda>k. Inr None)\<rparr>"
       and kms = "\<lparr>ListKeysCommand = Inl throttled, DescribeKeyCommand = (\<lambda>k. Inr None)\<rparr>"
       and account = prod_account and reg = "''us-east-1''" and e = throttled,
       THEN conjunct2, THEN conjunct2, THEN conjunct2, THEN conjunct2, THEN conjunct2, THEN conjunct2, THEN conjunct2, THEN conjunct2, THEN conjunct2, THEN conjunct2, THEN conjunct2, THEN conjunct2, THEN conjunct2, THEN conjunct2, THEN conjunct2, THEN conjunct1]
  have k1: "KMSScanner_scan (new_client \<lparr>ListKeysCommand = Inl throttled, DescribeKeyCommand = (\<lambda>k. Inr None)\<rparr>)
         prod_account ''us-east-1'' = Inr []"
    by (simp add: clients)
  from guardduty_propagates_others_absorb
    [where new_kms = "new_client two_keys" and kms = two_keys
       and ?ks1.0 = "[Some ''k1'']" and keyId = "''k2''" and ?ks2.0 = "[]"
       and metadata = "\<lambda>i. Some disabled_key"
       and account = prod_account and reg = "''us-east-1''" and e = throttled,
       THEN conjunct2, THEN conjunct2, THEN conjunct2, THEN conjunct2, THEN conjunct2, THEN conjunct2, THEN conjunct2, THEN conjunct2, THEN conjunct2, THEN conjunct2, THEN conjunct2, THEN conjunct2, THEN conjunct2, THEN conjunct2, THEN conjunct2, THEN conjunct2, THEN conjunct1]
  have k2: "KMSScanner_scan (new_client two_keys) prod_account ''us-east-1''
       = Inr [kms_finding disabled_key ''MEDIUM'' ''Disabled KMS Key'' ''KMS key k1 is disabled.''
                ''Review and enable important KMS keys or schedule them for deletion if no longer needed.'']"
    by (simp add: clients two_keys_def kms_key_findings_def disabled_key_def template_def)
  from guardduty_propagates_others_absorb
    [where new_kms = "new_client two_keys" and account = prod_account and reg = "''''"
       and e = "Error ''Region is missing''",
       THEN conjunct2, THEN conjunct2, THEN conjunct2, THEN conjunct2, THEN conjunct2, THEN conjunct2, THEN conjunct2, THEN conjunct2, THEN conjunct2, THEN conjunct2, THEN conjunct2, THEN conjunct2, THEN conjunct2, THEN conjunct2, THEN conjunct1]
  have k3: "KMSScanner_scan (new_client two_keys) prod_account '''' = Inl (Error ''Region is missing'')"
    by (simp add: clients)
  from guardduty_propagates_others_absorb
    [where new_sh = "securityHubClient sample_aws 0"
       and sh = "\<lparr>GetEnabledStandardsCommand = Inl invalid_access, SecurityHub_GetFindingsCommand = Inr None\<rparr>"
       and account = prod_account and reg = "''us-east-1''" and e = invalid_access,
       THEN conjunct2, THEN conjunct2, THEN conjunct2, THEN conjunct2, THEN conjunct2, THEN conjunct2, THEN conjunct2, THEN conjunct2, THEN conjunct2, THEN conjunct2, THEN conjunct2, THEN conjunct2, THEN conjunct2, THEN conjunct2, THEN conjunct2, THEN conjunct2, THEN conjunct2, THEN conjunct2, THEN conjunct1]
  have s1: "SecurityHubScanner_scan (securityHubClient sample_aws 0) prod_account ''us-east-1'' = Inr [securityhub_not_enabled]"
    by (simp add: clients invalid_access_def)
  from guardduty_propagates_others_absorb
    [where new_sh = "new_client \<lparr>GetEnabledStandardsCommand = Inl throttled,
         SecurityHub_GetFindingsCommand = Inr None\<rparr>"
       and sh = "\<lparr>GetEnabledStandardsCommand = Inl throttled, SecurityHub_GetFindingsCommand = Inr None\<rparr>"
       and account = prod_account and reg = "''us-east-1''" and e = throttled,
       THEN conjunct2, THEN conjunct2, THEN conjunct2, THEN conjunct2, THEN conjunct2, THEN conjunct2, THEN conjunct2, THEN conjunct2, THEN conjunct2, THEN conjunct2, THEN conjunct2, THEN conjunct2, THEN conjunct2, THEN conjunct2, THEN conjunct2, THEN conjunct2, THEN conjunct2, THEN conjunct2, THEN conjunct1]
  have s2: "SecurityHubScanner_scan (new_client \<lparr>GetEnabledStandardsCommand = Inl throttled,
         SecurityHub_GetFindingsCommand = Inr None\<rparr>) prod_account ''us-east-1'' = Inr []"
    by (simp add: clients throttled_def)
  from guardduty_propagates_others_absorb
    [where new_sh = "new_client \<lparr>GetEnabledStandardsCommand = Inr (),
         SecurityHub_GetFindingsCommand = Inl throttled\<rparr>"
       and sh = "\<lparr>GetEnabledStandardsCommand = Inr (), SecurityHub_GetFindingsCommand = Inl throttled\<rparr>"
       and account = prod_account and reg = "''us-east-1''" and e = throttled,
       THEN conjunct2, THEN conjunct2, THEN conjunct2, THEN conjunct2, THEN conjunct2, THEN conjunct2, THEN conjunct2, THEN conjunct2, THEN conjunct2, THEN conjunct2, THEN conjunct2, THEN conjunct2, THEN conjunct2, THEN conjunct2, THEN conjunct2, THEN conjunct2, THEN conjunct2, THEN conjunct2, THEN conjunct2]
  have s3: "SecurityHubScanner_scan (new_client \<lparr>GetEnabledStandardsCommand = Inr (),
         SecurityHub_GetFindingsCommand = Inl throttled\<rparr>) prod_account ''us-east-1'' = Inr []"
    by (simp add: clients)
  show ?thesis
    by (intro conjI g1 g2 g3 g4 g5 g6 i1 i2 i3 t1 t2 w1 w2 k1 k2 k3 s1 s2 s3)
qed

end
